theory Spec2Isabelle
  imports Main
begin

section \<open>The statement and expression IR seen by AsyncProducers.cpp\<close>

text \<open>
  Types of expressions. \<open>SemaphoreT\<close> is \<open>type_of<halide_semaphore_t *>()\<close>, \<open>HandleT\<close> is
  the plain \<open>Handle()\<close>; the two are different types (a handle type carries the pointee's
  description and type equality compares it).
\<close>

datatype ty = Int32 | HandleT | SemaphoreT | OtherT nat

datatype call_type = Extern | Intrinsic | HalideCall

text \<open>
  Expressions: the node kinds the pass looks at (\<open>Variable\<close>, \<open>Let\<close>, \<open>Call\<close>, integer
  constants), and \<open>Add\<close> standing for the arithmetic nodes, which every visitor here
  treats by the default recursion into both operands.
\<close>

datatype expr =
    IntImm int
  | Variable ty string
  | Add expr expr
  | Let string expr expr
  | Call ty string "expr list" call_type

datatype for_type = Serial | Parallel | Vectorized | Unrolled

datatype device_api = NoDevice | HostDevice | OtherDevice nat

text \<open>
  Statements. \<open>Realize\<close> carries its types, bounds (min and extent per dimension) and
  condition; \<open>For\<close> its min, extent, loop kind and device. The selectors of \<open>LetStmt\<close>
  and \<open>Realize\<close> are the fields read through \<open>s.as<LetStmt>()\<close> and \<open>s.as<Realize>()\<close>. An \<open>IfThenElse\<close> without an
  else branch is written with the no-op \<open>Evaluate (IntImm 0)\<close> as its else branch: every
  visitor of this file treats a missing statement as a no-op that it returns as it is.
\<close>

datatype stmt =
    is_LetStmt: LetStmt (let_name: string) (let_value: expr) (let_body: stmt)
  | Block stmt stmt
  | For string expr expr for_type device_api stmt
  | is_Realize: Realize (realize_name: string) (realize_types: "ty list")
      (realize_bounds: "(expr \<times> expr) list") (realize_condition: expr) (realize_body: stmt)
  | ProducerConsumer string bool stmt
  | Fork stmt stmt
  | Acquire expr expr stmt
  | Evaluate expr
  | Provide string "expr list" "expr list"
  | AssertStmt expr expr
  | Prefetch string "ty list" "(expr \<times> expr) list"
  | IfThenElse expr stmt stmt

datatype error =
    DuplicateProduceNode
  | AcquireNotVariable
  | RealizeNotInEnv
  | MakeSemaphoreUnexpected
  | MakeSemaphoreArgs
  | EmptySemaphoreStack

text \<open>\<open>ProducerConsumer::make_produce(name, body)\<close>.\<close>

definition make_produce :: "string \<Rightarrow> stmt \<Rightarrow> stmt" where
  "make_produce name body = ProducerConsumer name True body"

subsection \<open>Helpers of the IR library\<close>

text \<open>
  Modelled from the spec: \<open>is_no_op\<close> (IROperator) is not part of the sources given; the
  specification names \<open>Evaluate(0)\<close> as the sole no-op.
\<close>

fun is_no_op :: "stmt \<Rightarrow> bool" where
  "is_no_op (Evaluate (IntImm n)) = (n = 0)"
| "is_no_op _ = False"

text \<open>
  Modelled from the spec: \<open>expr_uses_var\<close>, \<open>stmt_uses_var\<close> and \<open>stmt_uses_vars\<close>
  (ExprUsesVar.h) are not part of the sources given; a statement or expression references a
  name when a \<open>Variable\<close> of that name occurs in it.
\<close>

fun expr_uses_vars :: "expr \<Rightarrow> string list \<Rightarrow> bool" where
  "expr_uses_vars (IntImm n) vs = False"
| "expr_uses_vars (Variable t x) vs = (x \<in> set vs)"
| "expr_uses_vars (Add a b) vs = (expr_uses_vars a vs \<or> expr_uses_vars b vs)"
| "expr_uses_vars (Let x v b) vs = (expr_uses_vars v vs \<or> expr_uses_vars b vs)"
| "expr_uses_vars (Call t f args c) vs = list_ex (\<lambda>a. expr_uses_vars a vs) args"

definition range_uses_vars :: "(expr \<times> expr) \<Rightarrow> string list \<Rightarrow> bool" where
  "range_uses_vars r vs = (expr_uses_vars (fst r) vs \<or> expr_uses_vars (snd r) vs)"

fun stmt_uses_vars :: "stmt \<Rightarrow> string list \<Rightarrow> bool" where
  "stmt_uses_vars (LetStmt x v b) vs = (expr_uses_vars v vs \<or> stmt_uses_vars b vs)"
| "stmt_uses_vars (Block a b) vs = (stmt_uses_vars a vs \<or> stmt_uses_vars b vs)"
| "stmt_uses_vars (For x mn ex ft d b) vs =
     (expr_uses_vars mn vs \<or> expr_uses_vars ex vs \<or> stmt_uses_vars b vs)"
| "stmt_uses_vars (Realize x ts bs c b) vs =
     (list_ex (\<lambda>r. range_uses_vars r vs) bs \<or> expr_uses_vars c vs \<or> stmt_uses_vars b vs)"
| "stmt_uses_vars (ProducerConsumer x p b) vs = stmt_uses_vars b vs"
| "stmt_uses_vars (Fork a b) vs = (stmt_uses_vars a vs \<or> stmt_uses_vars b vs)"
| "stmt_uses_vars (Acquire s c b) vs =
     (expr_uses_vars s vs \<or> expr_uses_vars c vs \<or> stmt_uses_vars b vs)"
| "stmt_uses_vars (Evaluate e) vs = expr_uses_vars e vs"
| "stmt_uses_vars (Provide x vals args) vs =
     (list_ex (\<lambda>a. expr_uses_vars a vs) vals \<or> list_ex (\<lambda>a. expr_uses_vars a vs) args)"
| "stmt_uses_vars (AssertStmt c m) vs = (expr_uses_vars c vs \<or> expr_uses_vars m vs)"
| "stmt_uses_vars (Prefetch x ts bs) vs = list_ex (\<lambda>r. range_uses_vars r vs) bs"
| "stmt_uses_vars (IfThenElse c t e) vs =
     (expr_uses_vars c vs \<or> stmt_uses_vars t vs \<or> stmt_uses_vars e vs)"

definition expr_uses_var :: "expr \<Rightarrow> string \<Rightarrow> bool" where
  "expr_uses_var e x = expr_uses_vars e [x]"

definition stmt_uses_var :: "stmt \<Rightarrow> string \<Rightarrow> bool" where
  "stmt_uses_var s x = stmt_uses_vars s [x]"

text \<open>\<open>Expr::type()\<close>: integer constants are 32-bit, a \<open>Let\<close> has the type of its body.\<close>

fun type_of_expr :: "expr \<Rightarrow> ty" where
  "type_of_expr (IntImm n) = Int32"
| "type_of_expr (Variable t x) = t"
| "type_of_expr (Add a b) = type_of_expr a"
| "type_of_expr (Let x v b) = type_of_expr b"
| "type_of_expr (Call t f args c) = t"

text \<open>\<open>starts_with(str, prefix)\<close> (Util.h).\<close>

fun starts_with :: "string \<Rightarrow> string \<Rightarrow> bool" where
  "starts_with s [] = True"
| "starts_with [] (p # ps) = False"
| "starts_with (c # cs) (p # ps) = (c = p \<and> starts_with cs ps)"

text \<open>The number of statement nodes, the measure of the recursions below.\<close>

fun nodes :: "stmt \<Rightarrow> nat" where
  "nodes (LetStmt x v b) = Suc (nodes b)"
| "nodes (Block a b) = Suc (nodes a + nodes b)"
| "nodes (For x mn ex ft d b) = Suc (nodes b)"
| "nodes (Realize x ts bs c b) = Suc (nodes b)"
| "nodes (ProducerConsumer x p b) = Suc (nodes b)"
| "nodes (Fork a b) = Suc (nodes a + nodes b)"
| "nodes (Acquire s c b) = Suc (nodes b)"
| "nodes (IfThenElse c t e) = Suc (nodes t + nodes e)"
| "nodes (Evaluate e) = 1"
| "nodes (Provide x vals args) = 1"
| "nodes (AssertStmt c m) = 1"
| "nodes (Prefetch x ts bs) = 1"

section \<open>ForkAsyncProducers\<close>

text \<open>A mutator that can fail an \<open>internal_assert\<close> returns \<open>Inl\<close> of the error.\<close>

definition bind_err :: "error + 'a \<Rightarrow> ('a \<Rightarrow> error + 'b) \<Rightarrow> error + 'b" where
  "bind_err m f = (case m of Inl e \<Rightarrow> Inl e | Inr x \<Rightarrow> f x)"

lemma bind_err_cong [fundef_cong]:
  "m = m' \<Longrightarrow> (\<And>x. m' = Inr x \<Longrightarrow> f x = f' x) \<Longrightarrow> bind_err m f = bind_err m' f'"
  by (auto simp: bind_err_def split: sum.splits)

text \<open>
  \<open>std::to_string\<close> of a non-negative integer, and \<open>unique_name('_')\<close> (Util.cpp, not part
  of the sources given): the prefix followed by the value of a global counter, which is
  incremented. The counter is part of the state of the pass.
\<close>

fun string_of_nat :: "nat \<Rightarrow> string" where
  "string_of_nat n =
     (if n < 10 then [''0123456789'' ! n]
      else string_of_nat (n div 10) @ [''0123456789'' ! (n mod 10)])"

declare string_of_nat.simps [simp del]

definition unique_name :: "nat \<Rightarrow> string \<times> nat" where
  "unique_name counter = (''_'' @ string_of_nat counter, Suc counter)"

subsection \<open>NoOpCollapsingMutator\<close>

text \<open>
  The rebuilding steps of \<open>NoOpCollapsingMutator\<close>, applied to the mutated children; the
  two body generators below share them.
\<close>

definition collapse_let :: "string \<Rightarrow> expr \<Rightarrow> stmt \<Rightarrow> stmt" where
  "collapse_let x v body = (if is_no_op body then body else LetStmt x v body)"

definition collapse_for ::
  "string \<Rightarrow> expr \<Rightarrow> expr \<Rightarrow> for_type \<Rightarrow> device_api \<Rightarrow> stmt \<Rightarrow> stmt" where
  "collapse_for x mn ex ft d body = (if is_no_op body then body else For x mn ex ft d body)"

definition collapse_block :: "stmt \<Rightarrow> stmt \<Rightarrow> stmt" where
  "collapse_block first rest =
     (if is_no_op first then rest else if is_no_op rest then first else Block first rest)"

definition collapse_fork :: "stmt \<Rightarrow> stmt \<Rightarrow> stmt" where
  "collapse_fork first rest =
     (if is_no_op first then rest else if is_no_op rest then first else Fork first rest)"

definition collapse_realize ::
  "string \<Rightarrow> ty list \<Rightarrow> (expr \<times> expr) list \<Rightarrow> expr \<Rightarrow> stmt \<Rightarrow> stmt" where
  "collapse_realize x ts bs c body = (if is_no_op body then body else Realize x ts bs c body)"

definition collapse_if :: "expr \<Rightarrow> stmt \<Rightarrow> stmt \<Rightarrow> stmt" where
  "collapse_if c then_case else_case =
     (if is_no_op then_case \<and> is_no_op else_case then then_case
      else IfThenElse c then_case else_case)"

subsection \<open>GenerateProducerBody\<close>

text \<open>
  The members of \<open>GenerateProducerBody\<close> that change during the traversal: the vector
  \<open>sema\<close> (its back is the last element), the map \<open>cloned_acquires\<close> shared with
  \<open>ForkAsyncProducers\<close>, and the counter behind \<open>unique_name\<close>. The set
  \<open>inner_semaphores\<close> is only written, by \<open>visit(const Call *)\<close>; no statement visitor of
  this class mutates an expression, so that visitor is never reached.
\<close>

record producer_state =
  sema :: "expr list"
  cloned_acquires :: "string \<rightharpoonup> string"
  counter :: nat

definition semaphore_release :: "expr \<Rightarrow> expr" where
  "semaphore_release s = Call Int32 ''halide_semaphore_release'' [s, IntImm 1] Extern"

text \<open>
  \<^verbatim>\<open>while (!sema.empty()) { body = Block::make(body, Evaluate::make(release)); sema.pop_back(); }\<close>
\<close>

function add_releases :: "expr list \<Rightarrow> stmt \<Rightarrow> stmt" where
  "add_releases sem body =
     (if sem \<noteq> [] then
        add_releases (butlast sem) (Block body (Evaluate (semaphore_release (last sem))))
      else body)"
  by pat_completeness auto
termination
  by (relation "measure (\<lambda>(sem, body). length sem)") auto

declare add_releases.simps [simp del]

text \<open>\<open>op->semaphore.as<Variable>()\<close>: the name when the expression is a variable.\<close>

fun as_variable :: "expr \<Rightarrow> string option" where
  "as_variable (Variable t x) = Some x"
| "as_variable _ = None"

definition folding_prefix :: "string \<Rightarrow> string" where
  "folding_prefix func = func @ ''.folding_semaphore.''"

text \<open>\<open>GenerateProducerBody::visit(const Acquire *)\<close>, after the body has been mutated.\<close>

definition producer_acquire ::
  "string \<Rightarrow> expr \<Rightarrow> expr \<Rightarrow> stmt \<Rightarrow> producer_state \<Rightarrow> error + (stmt \<times> producer_state)" where
  "producer_acquire func s c body st =
     (case as_variable s of
        None \<Rightarrow> Inl AcquireNotVariable
      | Some name \<Rightarrow>
          if is_no_op body then Inr (body, st)
          else if starts_with name (folding_prefix func) then Inr (Acquire s c body, st)
          else
            (let (suffix, counter') = unique_name (counter st);
                 cloned_acquire = name @ suffix
             in Inr (Acquire (Variable SemaphoreT cloned_acquire) c body,
                     st\<lparr>cloned_acquires := (cloned_acquires st)(name \<mapsto> cloned_acquire),
                        counter := counter'\<rparr>)))"

fun generate_producer_body ::
  "string \<Rightarrow> stmt \<Rightarrow> producer_state \<Rightarrow> error + (stmt \<times> producer_state)" where
  "generate_producer_body func (ProducerConsumer name is_producer b) st =
     (if name = func \<and> is_producer then
        if sema st = [] then Inl DuplicateProduceNode
        else Inr (make_produce name (add_releases (sema st) b), st\<lparr>sema := []\<rparr>)
      else
        bind_err (generate_producer_body func b st) (\<lambda>(body, st').
          if is_no_op body \<or> is_producer then Inr (body, st')
          else Inr (ProducerConsumer name is_producer body, st')))"
| "generate_producer_body func (Evaluate e) st = Inr (Evaluate (IntImm 0), st)"
| "generate_producer_body func (Provide x vals args) st = Inr (Evaluate (IntImm 0), st)"
| "generate_producer_body func (AssertStmt c m) st = Inr (Evaluate (IntImm 0), st)"
| "generate_producer_body func (Prefetch x ts bs) st = Inr (Evaluate (IntImm 0), st)"
| "generate_producer_body func (Acquire s c b) st =
     bind_err (generate_producer_body func b st) (\<lambda>(body, st').
       producer_acquire func s c body st')"
| "generate_producer_body func (LetStmt x v b) st =
     bind_err (generate_producer_body func b st) (\<lambda>(body, st').
       Inr (collapse_let x v body, st'))"
| "generate_producer_body func (For x mn ex ft d b) st =
     bind_err (generate_producer_body func b st) (\<lambda>(body, st').
       Inr (collapse_for x mn ex ft d body, st'))"
| "generate_producer_body func (Block a b) st =
     bind_err (generate_producer_body func a st) (\<lambda>(first, st').
     bind_err (generate_producer_body func b st') (\<lambda>(rest, st'').
       Inr (collapse_block first rest, st'')))"
| "generate_producer_body func (Fork a b) st =
     bind_err (generate_producer_body func a st) (\<lambda>(first, st').
     bind_err (generate_producer_body func b st') (\<lambda>(rest, st'').
       Inr (collapse_fork first rest, st'')))"
| "generate_producer_body func (Realize x ts bs c b) st =
     bind_err (generate_producer_body func b st) (\<lambda>(body, st').
       Inr (collapse_realize x ts bs c body, st'))"
| "generate_producer_body func (IfThenElse c t e) st =
     bind_err (generate_producer_body func t st) (\<lambda>(then_case, st').
     bind_err (generate_producer_body func e st') (\<lambda>(else_case, st'').
       Inr (collapse_if c then_case else_case, st'')))"

subsection \<open>GenerateConsumerBody\<close>

text \<open>
  The only member that changes is the vector \<open>sema\<close>. Reading \<open>sema.back()\<close> of an empty
  vector is undefined in C++; the model makes it the error \<open>EmptySemaphoreStack\<close>.
\<close>

fun generate_consumer_body ::
  "string \<Rightarrow> stmt \<Rightarrow> expr list \<Rightarrow> error + (stmt \<times> expr list)" where
  "generate_consumer_body func (ProducerConsumer name is_producer b) sem =
     (if name = func then
        if is_producer then Inr (Evaluate (IntImm 0), sem)
        else if sem = [] then Inl EmptySemaphoreStack
        else Inr (Acquire (last sem) (IntImm 1) (ProducerConsumer name is_producer b),
                  butlast sem)
      else
        bind_err (generate_consumer_body func b sem) (\<lambda>(body, sem').
          Inr (ProducerConsumer name is_producer body, sem')))"
| "generate_consumer_body func (Acquire s c b) sem =
     (case as_variable s of
        None \<Rightarrow> Inl AcquireNotVariable
      | Some name \<Rightarrow>
          if starts_with name (folding_prefix func) then generate_consumer_body func b sem
          else bind_err (generate_consumer_body func b sem) (\<lambda>(body, sem').
                 Inr (Acquire s c body, sem')))"
| "generate_consumer_body func (LetStmt x v b) sem =
     bind_err (generate_consumer_body func b sem) (\<lambda>(body, sem').
       Inr (collapse_let x v body, sem'))"
| "generate_consumer_body func (For x mn ex ft d b) sem =
     bind_err (generate_consumer_body func b sem) (\<lambda>(body, sem').
       Inr (collapse_for x mn ex ft d body, sem'))"
| "generate_consumer_body func (Block a b) sem =
     bind_err (generate_consumer_body func a sem) (\<lambda>(first, sem').
     bind_err (generate_consumer_body func b sem') (\<lambda>(rest, sem'').
       Inr (collapse_block first rest, sem'')))"
| "generate_consumer_body func (Fork a b) sem =
     bind_err (generate_consumer_body func a sem) (\<lambda>(first, sem').
     bind_err (generate_consumer_body func b sem') (\<lambda>(rest, sem'').
       Inr (collapse_fork first rest, sem'')))"
| "generate_consumer_body func (Realize x ts bs c b) sem =
     bind_err (generate_consumer_body func b sem) (\<lambda>(body, sem').
       Inr (collapse_realize x ts bs c body, sem'))"
| "generate_consumer_body func (IfThenElse c t e) sem =
     bind_err (generate_consumer_body func t sem) (\<lambda>(then_case, sem').
     bind_err (generate_consumer_body func e sem') (\<lambda>(else_case, sem'').
       Inr (collapse_if c then_case else_case, sem'')))"
| "generate_consumer_body func (Evaluate e) sem = Inr (Evaluate e, sem)"
| "generate_consumer_body func (Provide x vals args) sem = Inr (Provide x vals args, sem)"
| "generate_consumer_body func (AssertStmt c m) sem = Inr (AssertStmt c m, sem)"
| "generate_consumer_body func (Prefetch x ts bs) sem = Inr (Prefetch x ts bs, sem)"

subsection \<open>CloneAcquire\<close>

text \<open>\<open>CloneAcquire::visit(const Evaluate *)\<close>.\<close>

fun clone_evaluate :: "string \<Rightarrow> string \<Rightarrow> expr \<Rightarrow> stmt" where
  "clone_evaluate old_name new_name (Call t f (Variable vt x # args) ct) =
     (if x = old_name \<and> (f = ''halide_semaphore_release'' \<or> f = ''halide_semaphore_init'')
      then Block (Evaluate (Call t f (Variable vt x # args) ct))
                 (Evaluate (Call t f (Variable SemaphoreT new_name # args) ct))
      else Evaluate (Call t f (Variable vt x # args) ct))"
| "clone_evaluate old_name new_name e = Evaluate e"

fun clone_acquire :: "string \<Rightarrow> string \<Rightarrow> stmt \<Rightarrow> stmt" where
  "clone_acquire old_name new_name (Evaluate e) = clone_evaluate old_name new_name e"
| "clone_acquire old_name new_name (LetStmt x v b) =
     LetStmt x v (clone_acquire old_name new_name b)"
| "clone_acquire old_name new_name (Block a b) =
     Block (clone_acquire old_name new_name a) (clone_acquire old_name new_name b)"
| "clone_acquire old_name new_name (For x mn ex ft d b) =
     For x mn ex ft d (clone_acquire old_name new_name b)"
| "clone_acquire old_name new_name (Realize x ts bs c b) =
     Realize x ts bs c (clone_acquire old_name new_name b)"
| "clone_acquire old_name new_name (ProducerConsumer x p b) =
     ProducerConsumer x p (clone_acquire old_name new_name b)"
| "clone_acquire old_name new_name (Fork a b) =
     Fork (clone_acquire old_name new_name a) (clone_acquire old_name new_name b)"
| "clone_acquire old_name new_name (Acquire s c b) =
     Acquire s c (clone_acquire old_name new_name b)"
| "clone_acquire old_name new_name (IfThenElse c t e) =
     IfThenElse c (clone_acquire old_name new_name t) (clone_acquire old_name new_name e)"
| "clone_acquire old_name new_name (Provide x vals args) = Provide x vals args"
| "clone_acquire old_name new_name (AssertStmt c m) = AssertStmt c m"
| "clone_acquire old_name new_name (Prefetch x ts bs) = Prefetch x ts bs"

subsection \<open>CountConsumeNodes\<close>

fun count_consume_nodes :: "string \<Rightarrow> stmt \<Rightarrow> nat" where
  "count_consume_nodes func (ProducerConsumer name is_producer b) =
     (if name = func \<and> \<not> is_producer then 1 else 0) + count_consume_nodes func b"
| "count_consume_nodes func (LetStmt x v b) = count_consume_nodes func b"
| "count_consume_nodes func (Block a b) = count_consume_nodes func a + count_consume_nodes func b"
| "count_consume_nodes func (For x mn ex ft d b) = count_consume_nodes func b"
| "count_consume_nodes func (Realize x ts bs c b) = count_consume_nodes func b"
| "count_consume_nodes func (Fork a b) = count_consume_nodes func a + count_consume_nodes func b"
| "count_consume_nodes func (Acquire s c b) = count_consume_nodes func b"
| "count_consume_nodes func (IfThenElse c t e) =
     count_consume_nodes func t + count_consume_nodes func e"
| "count_consume_nodes func (Evaluate e) = 0"
| "count_consume_nodes func (Provide x vals args) = 0"
| "count_consume_nodes func (AssertStmt c m) = 0"
| "count_consume_nodes func (Prefetch x ts bs) = 0"

subsection \<open>The mutator ForkAsyncProducers\<close>

text \<open>The number of \<open>Realize\<close> nodes: neither body generator adds one.\<close>

fun realizes :: "stmt \<Rightarrow> nat" where
  "realizes (Realize x ts bs c b) = Suc (realizes b)"
| "realizes (LetStmt x v b) = realizes b"
| "realizes (Block a b) = realizes a + realizes b"
| "realizes (For x mn ex ft d b) = realizes b"
| "realizes (ProducerConsumer x p b) = realizes b"
| "realizes (Fork a b) = realizes a + realizes b"
| "realizes (Acquire s c b) = realizes b"
| "realizes (IfThenElse c t e) = realizes t + realizes e"
| "realizes (Evaluate e) = 0"
| "realizes (Provide x vals args) = 0"
| "realizes (AssertStmt c m) = 0"
| "realizes (Prefetch x ts bs) = 0"

definition sema_space :: expr where
  "sema_space = Call SemaphoreT ''halide_make_semaphore'' [IntImm 0] Extern"

definition semaphore_names :: "string \<Rightarrow> nat \<Rightarrow> string list" where
  "semaphore_names name k = map (\<lambda>i. name @ ''.semaphore_'' @ string_of_nat i) [0..<k]"

text \<open>One round of the loop over \<open>sema_names\<close> that binds the semaphores.\<close>

definition bind_semaphore :: "(string \<rightharpoonup> string) \<Rightarrow> string \<Rightarrow> stmt \<Rightarrow> stmt" where
  "bind_semaphore cloned sema_name body =
     LetStmt sema_name sema_space
       (case cloned sema_name of
          Some new_name \<Rightarrow> LetStmt new_name sema_space (clone_acquire sema_name new_name body)
        | None \<Rightarrow> body)"

text \<open>
  The state of the mutator is the map \<open>cloned_acquires\<close> and the counter of
  \<open>unique_name\<close>; \<open>env\<close> gives the \<open>async()\<close> flag of the schedule of each function.
\<close>

type_synonym fork_state = "(string \<rightharpoonup> string) \<times> nat"

function fork_async_mutate ::
  "(string \<rightharpoonup> bool) \<Rightarrow> stmt \<Rightarrow> fork_state \<Rightarrow> error + (stmt \<times> fork_state)" where
  "fork_async_mutate env (Realize x ts bs c b) st =
     (case env x of
        None \<Rightarrow> Inl RealizeNotInEnv
      | Some async \<Rightarrow>
          if async then
            (let sema_names = semaphore_names x (count_consume_nodes x b);
                 sema_vars = map (Variable HandleT) sema_names
             in bind_err (generate_producer_body x b
                            \<lparr>sema = sema_vars, cloned_acquires = fst st, counter = snd st\<rparr>)
                  (\<lambda>(producer, pst).
                bind_err (generate_consumer_body x b sema_vars) (\<lambda>(consumer, sem').
                bind_err (fork_async_mutate env producer (cloned_acquires pst, counter pst))
                  (\<lambda>(producer', st1).
                bind_err (fork_async_mutate env consumer st1) (\<lambda>(consumer', st2).
                  Inr (Realize x ts bs c
                         (fold (bind_semaphore (fst st2)) sema_names (Fork producer' consumer')),
                       st2))))))
          else bind_err (fork_async_mutate env b st) (\<lambda>(body, st').
                 Inr (Realize x ts bs c body, st')))"
| "fork_async_mutate env (LetStmt x v b) st =
     bind_err (fork_async_mutate env b st) (\<lambda>(body, st'). Inr (LetStmt x v body, st'))"
| "fork_async_mutate env (Block a b) st =
     bind_err (fork_async_mutate env a st) (\<lambda>(first, st').
     bind_err (fork_async_mutate env b st') (\<lambda>(rest, st''). Inr (Block first rest, st'')))"
| "fork_async_mutate env (For x mn ex ft d b) st =
     bind_err (fork_async_mutate env b st) (\<lambda>(body, st'). Inr (For x mn ex ft d body, st'))"
| "fork_async_mutate env (ProducerConsumer x p b) st =
     bind_err (fork_async_mutate env b st) (\<lambda>(body, st').
       Inr (ProducerConsumer x p body, st'))"
| "fork_async_mutate env (Fork a b) st =
     bind_err (fork_async_mutate env a st) (\<lambda>(first, st').
     bind_err (fork_async_mutate env b st') (\<lambda>(rest, st''). Inr (Fork first rest, st'')))"
| "fork_async_mutate env (Acquire s c b) st =
     bind_err (fork_async_mutate env b st) (\<lambda>(body, st'). Inr (Acquire s c body, st'))"
| "fork_async_mutate env (IfThenElse c t e) st =
     bind_err (fork_async_mutate env t st) (\<lambda>(then_case, st').
     bind_err (fork_async_mutate env e st') (\<lambda>(else_case, st'').
       Inr (IfThenElse c then_case else_case, st'')))"
| "fork_async_mutate env (Evaluate e) st = Inr (Evaluate e, st)"
| "fork_async_mutate env (Provide x vals args) st = Inr (Provide x vals args, st)"
| "fork_async_mutate env (AssertStmt c m) st = Inr (AssertStmt c m, st)"
| "fork_async_mutate env (Prefetch x ts bs) st = Inr (Prefetch x ts bs, st)"
  by pat_completeness auto

lemma realizes_add_releases: "realizes (add_releases sem b) = realizes b"
  by (induction sem b rule: add_releases.induct) (subst add_releases.simps, auto)

lemma is_no_op_realizes: "is_no_op s \<Longrightarrow> realizes s = 0"
  by (cases s rule: is_no_op.cases) auto

lemmas collapse_defs = collapse_let_def collapse_for_def collapse_block_def collapse_fork_def
  collapse_realize_def collapse_if_def

lemma realizes_producer:
  "generate_producer_body f b st = Inr (p, st') \<Longrightarrow> realizes p \<le> realizes b"
proof (induction b arbitrary: st p st')
  case (Block a b)
  then show ?case
    by (fastforce simp: bind_err_def collapse_defs split: sum.splits if_splits prod.splits)
next
  case (Fork a b)
  then show ?case
    by (fastforce simp: bind_err_def collapse_defs split: sum.splits if_splits prod.splits)
next
  case (IfThenElse c t e)
  then show ?case
    by (fastforce simp: bind_err_def collapse_defs split: sum.splits if_splits prod.splits)
next
  case (Acquire s c b)
  then show ?case
    by (fastforce simp: bind_err_def producer_acquire_def unique_name_def Let_def
        split: sum.splits if_splits prod.splits option.splits)
next
  case (ProducerConsumer x pr b)
  then show ?case
    by (fastforce simp: bind_err_def make_produce_def realizes_add_releases
        split: sum.splits if_splits prod.splits)
qed (fastforce simp: bind_err_def collapse_defs split: sum.splits if_splits prod.splits)+

lemma realizes_consumer:
  "generate_consumer_body f b sem = Inr (p, sem') \<Longrightarrow> realizes p \<le> realizes b"
proof (induction b arbitrary: sem p sem')
  case (Block a b)
  then show ?case
    by (fastforce simp: bind_err_def collapse_defs split: sum.splits if_splits prod.splits)
next
  case (Fork a b)
  then show ?case
    by (fastforce simp: bind_err_def collapse_defs split: sum.splits if_splits prod.splits)
next
  case (IfThenElse c t e)
  then show ?case
    by (fastforce simp: bind_err_def collapse_defs split: sum.splits if_splits prod.splits)
next
  case (Acquire s c b)
  then show ?case
    by (fastforce simp: bind_err_def 
        split: sum.splits if_splits prod.splits option.splits)
next
  case (ProducerConsumer x pr b)
  then show ?case
    by (fastforce simp: bind_err_def 
        split: sum.splits if_splits prod.splits)
qed (fastforce simp: bind_err_def collapse_defs split: sum.splits if_splits prod.splits)+

termination fork_async_mutate
  apply (relation "(\<lambda>(env, s, st). realizes s) <*mlex*> measure (\<lambda>(env, s, st). nodes s)")
  apply (auto simp: wf_mlex mlex_less mlex_leq less_Suc_eq_le dest: realizes_producer realizes_consumer intro!: mlex_less mlex_leq)
  done

declare fork_async_mutate.simps [simp del]

section \<open>TightenConsumeNodes\<close>

text \<open>
  \<open>TightenConsumeNodes::make_consume\<close>. The scope holds \<open>name\<close> and \<open>name.buffer\<close>.
\<close>

fun make_consume :: "string \<Rightarrow> bool \<Rightarrow> stmt \<Rightarrow> stmt" where
  "make_consume name is_producer (LetStmt x v b) =
     LetStmt x v (make_consume name is_producer b)"
| "make_consume name is_producer (Block a b) =
     (let scope = [name, name @ ''.buffer''];
          first = stmt_uses_vars a scope;
          rest = stmt_uses_vars b scope
      in if first \<and> rest \<and> is_producer then ProducerConsumer name is_producer (Block a b)
         else if first \<and> rest then
           Block (make_consume name is_producer a) (make_consume name is_producer b)
         else if first then Block (make_consume name is_producer a) b
         else if rest then Block a (make_consume name is_producer b)
         else Block a b)"
| "make_consume name is_producer (ProducerConsumer n2 p2 b) =
     ProducerConsumer n2 p2 (make_consume name is_producer b)"
| "make_consume name is_producer (Realize n2 ts bs c b) =
     Realize n2 ts bs c (make_consume name is_producer b)"
| "make_consume name is_producer body = ProducerConsumer name is_producer body"

text \<open>
  The mutator. The guard of the first branch of \<open>visit(const ProducerConsumer *)\<close> is
  \<open>false && op->is_producer\<close>, written out here as it stands; every other node kind is
  rebuilt from its mutated children.
\<close>

fun tighten_consume :: "stmt \<Rightarrow> stmt" where
  "tighten_consume (ProducerConsumer name is_producer b) =
     (let body = tighten_consume b
      in if False \<and> is_producer then ProducerConsumer name True body
         else make_consume name is_producer body)"
| "tighten_consume (LetStmt x v b) = LetStmt x v (tighten_consume b)"
| "tighten_consume (Block a b) = Block (tighten_consume a) (tighten_consume b)"
| "tighten_consume (For x mn ex ft d b) = For x mn ex ft d (tighten_consume b)"
| "tighten_consume (Realize x ts bs c b) = Realize x ts bs c (tighten_consume b)"
| "tighten_consume (Fork a b) = Fork (tighten_consume a) (tighten_consume b)"
| "tighten_consume (Acquire s c b) = Acquire s c (tighten_consume b)"
| "tighten_consume (IfThenElse c t e) = IfThenElse c (tighten_consume t) (tighten_consume e)"
| "tighten_consume (Evaluate e) = Evaluate e"
| "tighten_consume (Provide x vals args) = Provide x vals args"
| "tighten_consume (AssertStmt c m) = AssertStmt c m"
| "tighten_consume (Prefetch x ts bs) = Prefetch x ts bs"

section \<open>ExpandAcquireNodes\<close>

text \<open>\<open>s.as<Acquire>()\<close>: the fields of the node when it is an \<open>Acquire\<close>.\<close>

fun as_acquire :: "stmt \<Rightarrow> (expr \<times> expr \<times> stmt) option" where
  "as_acquire (Acquire s c b) = Some (s, c, b)"
| "as_acquire _ = None"

text \<open>
  The mutator. In the \<open>Block\<close>, \<open>Realize\<close> and \<open>ProducerConsumer\<close> cases the rebuilt node is
  mutated again; in the \<open>LetStmt\<close> case it is not.
\<close>

function expand_acquire :: "stmt \<Rightarrow> stmt" where
  "expand_acquire (Block a b) =
     (let first = expand_acquire a; rest = expand_acquire b
      in case as_acquire first of
           Some (s, c, body) \<Rightarrow> Acquire s c (expand_acquire (Block body b))
         | None \<Rightarrow> Block first rest)"
| "expand_acquire (Realize x ts bs cond b) =
     (let body = expand_acquire b
      in case as_acquire body of
           Some (s, c, abody) \<Rightarrow> Acquire s c (expand_acquire (Realize x ts bs cond abody))
         | None \<Rightarrow> Realize x ts bs cond body)"
| "expand_acquire (LetStmt x v b) =
     (let body = expand_acquire b
      in case as_acquire body of
           Some (s, c, abody) \<Rightarrow>
             if \<not> expr_uses_var s x \<and> \<not> expr_uses_var c x
             then Acquire s c (LetStmt x v abody)
             else LetStmt x v body
         | None \<Rightarrow> LetStmt x v body)"
| "expand_acquire (ProducerConsumer x p b) =
     (let body = expand_acquire b
      in case as_acquire body of
           Some (s, c, abody) \<Rightarrow> Acquire s c (expand_acquire (ProducerConsumer x p abody))
         | None \<Rightarrow> ProducerConsumer x p body)"
| "expand_acquire (For x mn ex ft d b) = For x mn ex ft d (expand_acquire b)"
| "expand_acquire (Fork a b) = Fork (expand_acquire a) (expand_acquire b)"
| "expand_acquire (Acquire s c b) = Acquire s c (expand_acquire b)"
| "expand_acquire (IfThenElse c t e) = IfThenElse c (expand_acquire t) (expand_acquire e)"
| "expand_acquire (Evaluate e) = Evaluate e"
| "expand_acquire (Provide x vals args) = Provide x vals args"
| "expand_acquire (AssertStmt c m) = AssertStmt c m"
| "expand_acquire (Prefetch x ts bs) = Prefetch x ts bs"
  by pat_completeness auto

lemma as_acquire_Some: "as_acquire s = Some (e, c, b) \<Longrightarrow> s = Acquire e c b"
  by (cases s) auto

lemma expand_acquire_nodes_dom:
  "expand_acquire_dom s \<Longrightarrow> nodes (expand_acquire s) = nodes s"
proof (induction s rule: expand_acquire.pinduct)
  case (1 a b)
  then show ?case
    by (auto simp: expand_acquire.psimps Let_def split: option.splits dest!: as_acquire_Some)
next
  case (2 x ts bs cond b)
  then show ?case
    by (auto simp: expand_acquire.psimps Let_def split: option.splits dest!: as_acquire_Some)
next
  case (3 x v b)
  then show ?case
    by (auto simp: expand_acquire.psimps Let_def split: option.splits dest!: as_acquire_Some)
next
  case (4 x p b)
  then show ?case
    by (auto simp: expand_acquire.psimps Let_def split: option.splits dest!: as_acquire_Some)
qed (simp_all add: expand_acquire.psimps)

termination expand_acquire
proof (relation "measure nodes", goal_cases)
  case 1
  show ?case by simp
next
  case (4 a b first rest p s q c body)
  then show ?case
    using expand_acquire_nodes_dom [of a] by (auto dest!: as_acquire_Some)
next
  case (6 x ts bs cond b body p s q c abody)
  then show ?case
    using expand_acquire_nodes_dom [of b] by (auto dest!: as_acquire_Some)
next
  case (9 x pr b body p s q c abody)
  then show ?case
    using expand_acquire_nodes_dom [of b] by (auto dest!: as_acquire_Some)
qed simp_all

section \<open>TightenForkNodes\<close>

text \<open>
  \<open>TightenForkNodes::make_fork\<close>; \<open>equal\<close> (IREquality) is structural equality of
  expressions.
\<close>

function make_fork :: "stmt \<Rightarrow> stmt \<Rightarrow> stmt" where
  "make_fork first rest =
     (if is_LetStmt first \<and> is_LetStmt rest \<and>
         let_name first = let_name rest \<and>
         let_value first = let_value rest
      then LetStmt (let_name first) (let_value first)
             (make_fork (let_body first) (let_body rest))
      else if is_LetStmt first \<and> \<not> stmt_uses_var rest (let_name first)
      then LetStmt (let_name first) (let_value first) (make_fork (let_body first) rest)
      else if is_LetStmt rest \<and> \<not> stmt_uses_var first (let_name rest)
      then LetStmt (let_name rest) (let_value rest) (make_fork first (let_body rest))
      else if is_Realize first \<and> \<not> stmt_uses_var rest (realize_name first)
      then Realize (realize_name first) (realize_types first) (realize_bounds first)
             (realize_condition first) (make_fork (realize_body first) rest)
      else if is_Realize rest \<and> \<not> stmt_uses_var first (realize_name rest)
      then Realize (realize_name rest) (realize_types rest) (realize_bounds rest)
             (realize_condition rest) (make_fork first (realize_body rest))
      else Fork first rest)"
  by pat_completeness auto

lemma nodes_let_body: "is_LetStmt s \<Longrightarrow> nodes (let_body s) < nodes s"
  by (cases s) auto

lemma nodes_realize_body: "is_Realize s \<Longrightarrow> nodes (realize_body s) < nodes s"
  by (cases s) auto

termination make_fork
  by (relation "measure (\<lambda>(a, b). nodes a + nodes b)")
     (auto dest: nodes_let_body nodes_realize_body intro: add_less_mono add_less_le_mono)

declare make_fork.simps [simp del]

text \<open>The mutator, with the member \<open>in_fork\<close> as an argument.\<close>

fun tighten_fork :: "bool \<Rightarrow> stmt \<Rightarrow> stmt" where
  "tighten_fork in_fork (Fork a b) =
     (let first = tighten_fork True a; rest = tighten_fork True b
      in if is_no_op first then rest
         else if is_no_op rest then first
         else make_fork first rest)"
| "tighten_fork in_fork (Realize x ts bs c b) =
     (let body = tighten_fork in_fork b
      in if in_fork \<and> \<not> stmt_uses_var body x then body
         else Realize x ts bs c body)"
| "tighten_fork in_fork (LetStmt x v b) =
     (let body = tighten_fork in_fork b
      in if in_fork \<and> \<not> stmt_uses_var body x then body
         else LetStmt x v body)"
| "tighten_fork in_fork (Block a b) = Block (tighten_fork in_fork a) (tighten_fork in_fork b)"
| "tighten_fork in_fork (For x mn ex ft d b) = For x mn ex ft d (tighten_fork in_fork b)"
| "tighten_fork in_fork (ProducerConsumer x p b) = ProducerConsumer x p (tighten_fork in_fork b)"
| "tighten_fork in_fork (Acquire s c b) = Acquire s c (tighten_fork in_fork b)"
| "tighten_fork in_fork (IfThenElse c t e) =
     IfThenElse c (tighten_fork in_fork t) (tighten_fork in_fork e)"
| "tighten_fork in_fork (Evaluate e) = Evaluate e"
| "tighten_fork in_fork (Provide x vals args) = Provide x vals args"
| "tighten_fork in_fork (AssertStmt c m) = AssertStmt c m"
| "tighten_fork in_fork (Prefetch x ts bs) = Prefetch x ts bs"

section \<open>InitializeSemaphores\<close>

text \<open>
  A run of the mutator either does not return (\<open>None\<close>), or raises a fatal internal error
  (\<open>Some (Inl e)\<close>), or returns a statement (\<open>Some (Inr s)\<close>).
\<close>

type_synonym 'a outcome = "(error + 'a) option"

definition bind_outcome :: "'a outcome \<Rightarrow> ('a \<Rightarrow> 'b outcome) \<Rightarrow> 'b outcome" where
  "bind_outcome m f =
     (case m of None \<Rightarrow> None | Some (Inl e) \<Rightarrow> Some (Inl e) | Some (Inr x) \<Rightarrow> f x)"

lemma bind_outcome_cong [fundef_cong]:
  "m = m' \<Longrightarrow> (\<And>x. m' = Some (Inr x) \<Longrightarrow> f x = f' x) \<Longrightarrow> bind_outcome m f = bind_outcome m' f'"
  by (auto simp: bind_outcome_def split: option.splits sum.splits)

text \<open>
  \<open>InitializeSemaphores::visit(const Call *)\<close> together with the default expression
  traversal: mutating an expression returns the expression itself unless a
  \<open>halide_make_semaphore\<close> call is visited, which fails the assertion. The arguments of a
  call are not visited, since \<open>visit(const Call *)\<close> sets \<open>expr = op\<close> without recursing.
\<close>

fun init_expr_ok :: "expr \<Rightarrow> bool" where
  "init_expr_ok (IntImm n) = True"
| "init_expr_ok (Variable t x) = True"
| "init_expr_ok (Add a b) = (init_expr_ok a \<and> init_expr_ok b)"
| "init_expr_ok (Let x v b) = (init_expr_ok v \<and> init_expr_ok b)"
| "init_expr_ok (Call t f args c) = (f \<noteq> ''halide_make_semaphore'')"

definition init_exprs :: "expr list \<Rightarrow> 'a outcome \<Rightarrow> 'a outcome" where
  "init_exprs es k = (if list_all init_expr_ok es then k else Some (Inl MakeSemaphoreUnexpected))"

definition bounds_exprs :: "(expr \<times> expr) list \<Rightarrow> expr list" where
  "bounds_exprs bs = concat (map (\<lambda>r. [fst r, snd r]) bs)"

text \<open>The loop that peels the enclosing \<open>Let\<close>s off the value, collecting them in order.\<close>

fun peel_lets :: "expr \<Rightarrow> (string \<times> expr) list \<Rightarrow> (string \<times> expr) list \<times> expr" where
  "peel_lets (Let x v b) lets = peel_lets b (lets @ [(x, v)])"
| "peel_lets value lets = (lets, value)"

text \<open>
  The loop that wraps the statement in the peeled lets again:
  \<^verbatim>\<open>while (lets.size()) { stmt = LetStmt::make(lets.back().first, lets.back().second, stmt); }\<close>
  The vector \<open>lets\<close> is not changed by the loop body.
\<close>

partial_function (option) rewrap_lets :: "(string \<times> expr) list \<Rightarrow> stmt \<Rightarrow> stmt option" where
  "rewrap_lets lets s =
     (if length lets \<noteq> 0 then rewrap_lets lets (LetStmt (fst (last lets)) (snd (last lets)) s)
      else Some s)"

text \<open>
  Modelled from the spec: \<open>sizeof(halide_semaphore_t)\<close> comes from the runtime header, which
  is not part of the sources given (two 64-bit words there).
\<close>

definition sizeof_halide_semaphore_t :: int where
  "sizeof_halide_semaphore_t = 16"

definition sema_allocate :: expr where
  "sema_allocate = Call SemaphoreT ''alloca'' [IntImm sizeof_halide_semaphore_t] Intrinsic"

definition sema_init :: "string \<Rightarrow> expr \<Rightarrow> expr" where
  "sema_init name count =
     Call Int32 ''halide_semaphore_init'' [Variable SemaphoreT name, count] Extern"

text \<open>
  \<open>InitializeSemaphores::visit(const LetStmt *)\<close>, after the body has been mutated. The
  value of the \<open>LetStmt\<close> is not mutated.
\<close>

definition init_let_stmt :: "string \<Rightarrow> expr \<Rightarrow> stmt \<Rightarrow> stmt outcome" where
  "init_let_stmt name v body =
     (if type_of_expr v = SemaphoreT then
        (case peel_lets v [] of
           (lets, Call t f args ct) \<Rightarrow>
             if f = ''halide_make_semaphore'' then
               if length args \<noteq> 1 then Some (Inl MakeSemaphoreArgs)
               else map_option Inr
                 (rewrap_lets lets
                    (LetStmt name sema_allocate
                       (Block (Evaluate (sema_init name (args ! 0))) body)))
             else Some (Inr (LetStmt name v body))
         | (lets, _) \<Rightarrow> Some (Inr (LetStmt name v body)))
      else Some (Inr (LetStmt name v body)))"

text \<open>
  The mutator; the node kinds other than \<open>LetStmt\<close> take the default traversal, which
  mutates the expressions and the statements of the node in the order of its fields.
\<close>

fun initialize_semaphores :: "stmt \<Rightarrow> stmt outcome" where
  "initialize_semaphores (LetStmt x v b) =
     bind_outcome (initialize_semaphores b) (\<lambda>body. init_let_stmt x v body)"
| "initialize_semaphores (Block a b) =
     bind_outcome (initialize_semaphores a) (\<lambda>first.
     bind_outcome (initialize_semaphores b) (\<lambda>rest. Some (Inr (Block first rest))))"
| "initialize_semaphores (For x mn ex ft d b) =
     init_exprs [mn, ex]
       (bind_outcome (initialize_semaphores b) (\<lambda>body. Some (Inr (For x mn ex ft d body))))"
| "initialize_semaphores (Realize x ts bs c b) =
     init_exprs (bounds_exprs bs)
       (bind_outcome (initialize_semaphores b) (\<lambda>body.
          init_exprs [c] (Some (Inr (Realize x ts bs c body)))))"
| "initialize_semaphores (ProducerConsumer x p b) =
     bind_outcome (initialize_semaphores b) (\<lambda>body. Some (Inr (ProducerConsumer x p body)))"
| "initialize_semaphores (Fork a b) =
     bind_outcome (initialize_semaphores a) (\<lambda>first.
     bind_outcome (initialize_semaphores b) (\<lambda>rest. Some (Inr (Fork first rest))))"
| "initialize_semaphores (Acquire s c b) =
     init_exprs [s, c]
       (bind_outcome (initialize_semaphores b) (\<lambda>body. Some (Inr (Acquire s c body))))"
| "initialize_semaphores (IfThenElse c t e) =
     init_exprs [c]
       (bind_outcome (initialize_semaphores t) (\<lambda>then_case.
        bind_outcome (initialize_semaphores e) (\<lambda>else_case.
          Some (Inr (IfThenElse c then_case else_case)))))"
| "initialize_semaphores (Evaluate e) = init_exprs [e] (Some (Inr (Evaluate e)))"
| "initialize_semaphores (Provide x vals args) =
     init_exprs (args @ vals) (Some (Inr (Provide x vals args)))"
| "initialize_semaphores (AssertStmt c m) = init_exprs [c, m] (Some (Inr (AssertStmt c m)))"
| "initialize_semaphores (Prefetch x ts bs) =
     init_exprs (bounds_exprs bs) (Some (Inr (Prefetch x ts bs)))"

section \<open>The pass\<close>

text \<open>
  \<open>fork_async_producers\<close>; \<open>n\<close> is the value of the counter of \<open>unique_name\<close> when
  the pass starts.
\<close>

definition fork_async_producers :: "stmt \<Rightarrow> (string \<rightharpoonup> bool) \<Rightarrow> nat \<Rightarrow> stmt outcome" where
  "fork_async_producers s env n =
     (let s1 = tighten_consume s
      in case fork_async_mutate env s1 (Map.empty, n) of
           Inl e \<Rightarrow> Some (Inl e)
         | Inr (s2, st) \<Rightarrow>
             (let s3 = expand_acquire s2;
                  s4 = tighten_fork False s3
              in initialize_semaphores s4))"

section \<open>Predicates on statements used to state the claims\<close>

text \<open>A produce node of \<open>func\<close> occurs in the statement.\<close>

fun has_produce_node :: "string \<Rightarrow> stmt \<Rightarrow> bool" where
  "has_produce_node func (ProducerConsumer name is_producer b) =
     ((name = func \<and> is_producer) \<or> has_produce_node func b)"
| "has_produce_node func (LetStmt x v b) = has_produce_node func b"
| "has_produce_node func (Block a b) = (has_produce_node func a \<or> has_produce_node func b)"
| "has_produce_node func (For x mn ex ft d b) = has_produce_node func b"
| "has_produce_node func (Realize x ts bs c b) = has_produce_node func b"
| "has_produce_node func (Fork a b) = (has_produce_node func a \<or> has_produce_node func b)"
| "has_produce_node func (Acquire s c b) = has_produce_node func b"
| "has_produce_node func (IfThenElse c t e) = (has_produce_node func t \<or> has_produce_node func e)"
| "has_produce_node func (Evaluate e) = False"
| "has_produce_node func (Provide x vals args) = False"
| "has_produce_node func (AssertStmt c m) = False"
| "has_produce_node func (Prefetch x ts bs) = False"


text \<open>A \<open>halide_make_semaphore\<close> call occurs in the expression.\<close>

fun expr_has_make_semaphore :: "expr \<Rightarrow> bool" where
  "expr_has_make_semaphore (IntImm n) = False"
| "expr_has_make_semaphore (Variable t x) = False"
| "expr_has_make_semaphore (Add a b) = (expr_has_make_semaphore a \<or> expr_has_make_semaphore b)"
| "expr_has_make_semaphore (Let x v b) = (expr_has_make_semaphore v \<or> expr_has_make_semaphore b)"
| "expr_has_make_semaphore (Call t f args c) =
     (f = ''halide_make_semaphore'' \<or> list_ex expr_has_make_semaphore args)"

text \<open>
  The expressions of a statement, the values of its \<open>LetStmt\<close> nodes apart, hold no
  \<open>halide_make_semaphore\<close> call, and so does each value that \<open>let_ok\<close> does not accept.
\<close>

fun sems_within :: "(expr \<Rightarrow> bool) \<Rightarrow> stmt \<Rightarrow> bool" where
  "sems_within let_ok (LetStmt x v b) =
     ((let_ok v \<or> \<not> expr_has_make_semaphore v) \<and> sems_within let_ok b)"
| "sems_within let_ok (Block a b) = (sems_within let_ok a \<and> sems_within let_ok b)"
| "sems_within let_ok (For x mn ex ft d b) =
     (\<not> expr_has_make_semaphore mn \<and> \<not> expr_has_make_semaphore ex \<and> sems_within let_ok b)"
| "sems_within let_ok (Realize x ts bs c b) =
     (\<not> list_ex expr_has_make_semaphore (bounds_exprs bs) \<and> \<not> expr_has_make_semaphore c \<and>
      sems_within let_ok b)"
| "sems_within let_ok (ProducerConsumer x p b) = sems_within let_ok b"
| "sems_within let_ok (Fork a b) = (sems_within let_ok a \<and> sems_within let_ok b)"
| "sems_within let_ok (Acquire s c b) =
     (\<not> expr_has_make_semaphore s \<and> \<not> expr_has_make_semaphore c \<and> sems_within let_ok b)"
| "sems_within let_ok (IfThenElse c t e) =
     (\<not> expr_has_make_semaphore c \<and> sems_within let_ok t \<and> sems_within let_ok e)"
| "sems_within let_ok (Evaluate e) = (\<not> expr_has_make_semaphore e)"
| "sems_within let_ok (Provide x vals args) =
     (\<not> list_ex expr_has_make_semaphore vals \<and> \<not> list_ex expr_has_make_semaphore args)"
| "sems_within let_ok (AssertStmt c m) =
     (\<not> expr_has_make_semaphore c \<and> \<not> expr_has_make_semaphore m)"
| "sems_within let_ok (Prefetch x ts bs) = (\<not> list_ex expr_has_make_semaphore (bounds_exprs bs))"

text \<open>A \<open>halide_make_semaphore\<close> call occurs somewhere in the statement.\<close>

definition stmt_has_make_semaphore :: "stmt \<Rightarrow> bool" where
  "stmt_has_make_semaphore s = (\<not> sems_within (\<lambda>v. False) s)"

text \<open>
  The only \<open>halide_make_semaphore\<close> calls of the statement are the values of \<open>LetStmt\<close>
  nodes that bind the call made by ForkAsyncProducers.
\<close>

definition sems_bound :: "stmt \<Rightarrow> bool" where
  "sems_bound s = sems_within (\<lambda>v. v = sema_space) s"

text \<open>No expression of the semaphore stack holds a \<open>halide_make_semaphore\<close> call.\<close>

definition sem_clean :: "expr list \<Rightarrow> bool" where
  "sem_clean sem = (\<forall>e\<in>set sem. \<not> expr_has_make_semaphore e)"

text \<open>Every \<open>Realize\<close> node of the statement names a function of \<open>env\<close> that is not async.\<close>

fun realizes_not_async :: "(string \<rightharpoonup> bool) \<Rightarrow> stmt \<Rightarrow> bool" where
  "realizes_not_async env (Realize x ts bs c b) = (env x = Some False \<and> realizes_not_async env b)"
| "realizes_not_async env (LetStmt x v b) = realizes_not_async env b"
| "realizes_not_async env (Block a b) = (realizes_not_async env a \<and> realizes_not_async env b)"
| "realizes_not_async env (For x mn ex ft d b) = realizes_not_async env b"
| "realizes_not_async env (ProducerConsumer x p b) = realizes_not_async env b"
| "realizes_not_async env (Fork a b) = (realizes_not_async env a \<and> realizes_not_async env b)"
| "realizes_not_async env (Acquire s c b) = realizes_not_async env b"
| "realizes_not_async env (IfThenElse c t e) = (realizes_not_async env t \<and> realizes_not_async env e)"
| "realizes_not_async env (Evaluate e) = True"
| "realizes_not_async env (Provide x vals args) = True"
| "realizes_not_async env (AssertStmt c m) = True"
| "realizes_not_async env (Prefetch x ts bs) = True"

text \<open>The statement holds neither an \<open>Acquire\<close> nor a \<open>Fork\<close> node.\<close>

fun no_acquire_no_fork :: "stmt \<Rightarrow> bool" where
  "no_acquire_no_fork (Acquire s c b) = False"
| "no_acquire_no_fork (Fork a b) = False"
| "no_acquire_no_fork (Realize x ts bs c b) = no_acquire_no_fork b"
| "no_acquire_no_fork (LetStmt x v b) = no_acquire_no_fork b"
| "no_acquire_no_fork (Block a b) = (no_acquire_no_fork a \<and> no_acquire_no_fork b)"
| "no_acquire_no_fork (For x mn ex ft d b) = no_acquire_no_fork b"
| "no_acquire_no_fork (ProducerConsumer x p b) = no_acquire_no_fork b"
| "no_acquire_no_fork (IfThenElse c t e) = (no_acquire_no_fork t \<and> no_acquire_no_fork e)"
| "no_acquire_no_fork (Evaluate e) = True"
| "no_acquire_no_fork (Provide x vals args) = True"
| "no_acquire_no_fork (AssertStmt c m) = True"
| "no_acquire_no_fork (Prefetch x ts bs) = True"






text \<open>The expression is a variable whose name starts with \<open>func.folding_semaphore.\<close>\<close>

definition is_folding :: "string \<Rightarrow> expr \<Rightarrow> bool" where
  "is_folding func s =
     (case as_variable s of Some name \<Rightarrow> starts_with name (folding_prefix func) | None \<Rightarrow> False)"

text \<open>
  The semaphore and count of the \<open>Acquire\<close> nodes on a folding semaphore of \<open>func\<close>, in
  the order of the statement.
\<close>

fun folding_acquires :: "string \<Rightarrow> stmt \<Rightarrow> (expr \<times> expr) list" where
  "folding_acquires func (Acquire s c b) =
     (if is_folding func s then [(s, c)] else []) @ folding_acquires func b"
| "folding_acquires func (LetStmt x v b) = folding_acquires func b"
| "folding_acquires func (Block a b) = folding_acquires func a @ folding_acquires func b"
| "folding_acquires func (For x mn ex ft d b) = folding_acquires func b"
| "folding_acquires func (Realize x ts bs c b) = folding_acquires func b"
| "folding_acquires func (ProducerConsumer x p b) = folding_acquires func b"
| "folding_acquires func (Fork a b) = folding_acquires func a @ folding_acquires func b"
| "folding_acquires func (IfThenElse c t e) = folding_acquires func t @ folding_acquires func e"
| "folding_acquires func (Evaluate e) = []"
| "folding_acquires func (Provide x vals args) = []"
| "folding_acquires func (AssertStmt c m) = []"
| "folding_acquires func (Prefetch x ts bs) = []"

text \<open>The same, leaving out what lies inside a consume node of \<open>func\<close>.\<close>

fun folding_acquires_outside_consume :: "string \<Rightarrow> stmt \<Rightarrow> (expr \<times> expr) list" where
  "folding_acquires_outside_consume func (ProducerConsumer x p b) =
     (if x = func \<and> \<not> p then [] else folding_acquires_outside_consume func b)"
| "folding_acquires_outside_consume func (Acquire s c b) =
     (if is_folding func s then [(s, c)] else []) @ folding_acquires_outside_consume func b"
| "folding_acquires_outside_consume func (LetStmt x v b) =
     folding_acquires_outside_consume func b"
| "folding_acquires_outside_consume func (Block a b) =
     folding_acquires_outside_consume func a @ folding_acquires_outside_consume func b"
| "folding_acquires_outside_consume func (For x mn ex ft d b) =
     folding_acquires_outside_consume func b"
| "folding_acquires_outside_consume func (Realize x ts bs c b) =
     folding_acquires_outside_consume func b"
| "folding_acquires_outside_consume func (Fork a b) =
     folding_acquires_outside_consume func a @ folding_acquires_outside_consume func b"
| "folding_acquires_outside_consume func (IfThenElse c t e) =
     folding_acquires_outside_consume func t @ folding_acquires_outside_consume func e"
| "folding_acquires_outside_consume func (Evaluate e) = []"
| "folding_acquires_outside_consume func (Provide x vals args) = []"
| "folding_acquires_outside_consume func (AssertStmt c m) = []"
| "folding_acquires_outside_consume func (Prefetch x ts bs) = []"

text \<open>
  The folding acquires of \<open>func\<close> that enclose a produce node of \<open>func\<close> or lie inside
  one.
\<close>

fun folding_acquires_at_produce :: "string \<Rightarrow> stmt \<Rightarrow> (expr \<times> expr) list" where
  "folding_acquires_at_produce func (ProducerConsumer x p b) =
     (if x = func \<and> p then folding_acquires func b else folding_acquires_at_produce func b)"
| "folding_acquires_at_produce func (Acquire s c b) =
     (if is_folding func s \<and> has_produce_node func b then [(s, c)] else [])
     @ folding_acquires_at_produce func b"
| "folding_acquires_at_produce func (LetStmt x v b) = folding_acquires_at_produce func b"
| "folding_acquires_at_produce func (Block a b) =
     folding_acquires_at_produce func a @ folding_acquires_at_produce func b"
| "folding_acquires_at_produce func (For x mn ex ft d b) = folding_acquires_at_produce func b"
| "folding_acquires_at_produce func (Realize x ts bs c b) = folding_acquires_at_produce func b"
| "folding_acquires_at_produce func (Fork a b) =
     folding_acquires_at_produce func a @ folding_acquires_at_produce func b"
| "folding_acquires_at_produce func (IfThenElse c t e) =
     folding_acquires_at_produce func t @ folding_acquires_at_produce func e"
| "folding_acquires_at_produce func (Evaluate e) = []"
| "folding_acquires_at_produce func (Provide x vals args) = []"
| "folding_acquires_at_produce func (AssertStmt c m) = []"
| "folding_acquires_at_produce func (Prefetch x ts bs) = []"

text \<open>
  The two children of the fork that a statement binds: the \<open>Fork\<close> found under the
  \<open>LetStmt\<close> nodes that bind the semaphores.
\<close>

fun fork_of :: "stmt \<Rightarrow> (stmt \<times> stmt) option" where
  "fork_of (LetStmt x v b) = fork_of b"
| "fork_of (Fork a b) = Some (a, b)"
| "fork_of s = None"




text \<open>A binding at the top of a statement references its name in the statement.\<close>

definition top_let_used :: "stmt \<Rightarrow> bool" where
  "top_let_used s = (is_LetStmt s \<longrightarrow> stmt_uses_var s (let_name s))"

text \<open>
  Every value of a \<open>LetStmt\<close> node of the statement satisfies \<open>let_p\<close>, and every other
  expression of the statement satisfies \<open>expr_p\<close>.
\<close>

fun exprs_within :: "(expr \<Rightarrow> bool) \<Rightarrow> (expr \<Rightarrow> bool) \<Rightarrow> stmt \<Rightarrow> bool" where
  "exprs_within let_p expr_p (LetStmt x v b) = (let_p v \<and> exprs_within let_p expr_p b)"
| "exprs_within let_p expr_p (Block a b) =
     (exprs_within let_p expr_p a \<and> exprs_within let_p expr_p b)"
| "exprs_within let_p expr_p (For x mn ex ft d b) =
     (expr_p mn \<and> expr_p ex \<and> exprs_within let_p expr_p b)"
| "exprs_within let_p expr_p (Realize x ts bs c b) =
     (list_all expr_p (bounds_exprs bs) \<and> expr_p c \<and> exprs_within let_p expr_p b)"
| "exprs_within let_p expr_p (ProducerConsumer x p b) = exprs_within let_p expr_p b"
| "exprs_within let_p expr_p (Fork a b) =
     (exprs_within let_p expr_p a \<and> exprs_within let_p expr_p b)"
| "exprs_within let_p expr_p (Acquire s c b) =
     (expr_p s \<and> expr_p c \<and> exprs_within let_p expr_p b)"
| "exprs_within let_p expr_p (IfThenElse c t e) =
     (expr_p c \<and> exprs_within let_p expr_p t \<and> exprs_within let_p expr_p e)"
| "exprs_within let_p expr_p (Evaluate e) = expr_p e"
| "exprs_within let_p expr_p (Provide x vals args) = (list_all expr_p vals \<and> list_all expr_p args)"
| "exprs_within let_p expr_p (AssertStmt c m) = (expr_p c \<and> expr_p m)"
| "exprs_within let_p expr_p (Prefetch x ts bs) = list_all expr_p (bounds_exprs bs)"

text \<open>
  A \<open>halide_make_semaphore\<close> call of the expression is met by a traversal that goes through
  the operands of \<open>Add\<close> and \<open>Let\<close> and stops at a call without going through its arguments.
\<close>

fun meets_make_semaphore :: "expr \<Rightarrow> bool" where
  "meets_make_semaphore (IntImm n) = False"
| "meets_make_semaphore (Variable t x) = False"
| "meets_make_semaphore (Add a b) = (meets_make_semaphore a \<or> meets_make_semaphore b)"
| "meets_make_semaphore (Let x v b) = (meets_make_semaphore v \<or> meets_make_semaphore b)"
| "meets_make_semaphore (Call t f args c) = (f = ''halide_make_semaphore'')"

text \<open>
  The expression is a \<open>halide_make_semaphore\<close> call with one argument, not wrapped in a
  \<open>Let\<close>.
\<close>

fun direct_make_semaphore :: "expr \<Rightarrow> bool" where
  "direct_make_semaphore (Call t f args c) = (f = ''halide_make_semaphore'' \<and> length args = 1)"
| "direct_make_semaphore _ = False"

text \<open>
  The initializer that \<open>InitializeSemaphores::visit(const LetStmt *)\<close> lowers: a direct
  \<open>halide_make_semaphore\<close> call of semaphore type whose argument holds no further
  \<open>halide_make_semaphore\<close> call.
\<close>

fun semaphore_binding :: "expr \<Rightarrow> bool" where
  "semaphore_binding (Call t f args c) =
     (t = SemaphoreT \<and> f = ''halide_make_semaphore'' \<and> length args = 1 \<and>
      \<not> expr_has_make_semaphore (args ! 0))"
| "semaphore_binding _ = False"

definition handled_value :: "expr \<Rightarrow> bool" where
  "handled_value v = (semaphore_binding v \<or> \<not> expr_has_make_semaphore v)"

definition handled_expr :: "expr \<Rightarrow> bool" where
  "handled_expr e = (meets_make_semaphore e \<or> \<not> expr_has_make_semaphore e)"

text \<open>
  Every \<open>halide_make_semaphore\<close> call of the statement is the initializer of a semaphore
  binding, or is met by the traversal of an expression that is not the value of a \<open>LetStmt\<close>.
\<close>

definition sems_handled :: "stmt \<Rightarrow> bool" where
  "sems_handled s = exprs_within handled_value handled_expr s"

text \<open>
  Every value of a \<open>LetStmt\<close> that holds a \<open>halide_make_semaphore\<close> call is a direct call
  with one argument.
\<close>

definition lets_direct :: "stmt \<Rightarrow> bool" where
  "lets_direct s =
     exprs_within (\<lambda>v. direct_make_semaphore v \<or> \<not> expr_has_make_semaphore v) (\<lambda>e. True) s"

text \<open>
  The traversal of some expression of the statement, the values of \<open>LetStmt\<close> nodes apart,
  meets a \<open>halide_make_semaphore\<close> call.
\<close>

definition meets_make_semaphore_stmt :: "stmt \<Rightarrow> bool" where
  "meets_make_semaphore_stmt s = (\<not> exprs_within (\<lambda>v. True) (\<lambda>e. \<not> meets_make_semaphore e) s)"

text \<open>The names of the \<open>Realize\<close> nodes of the statement.\<close>

fun realize_names :: "stmt \<Rightarrow> string list" where
  "realize_names (Realize x ts bs c b) = x # realize_names b"
| "realize_names (LetStmt x v b) = realize_names b"
| "realize_names (Block a b) = realize_names a @ realize_names b"
| "realize_names (For x mn ex ft d b) = realize_names b"
| "realize_names (ProducerConsumer x p b) = realize_names b"
| "realize_names (Fork a b) = realize_names a @ realize_names b"
| "realize_names (Acquire s c b) = realize_names b"
| "realize_names (IfThenElse c t e) = realize_names t @ realize_names e"
| "realize_names (Evaluate e) = []"
| "realize_names (Provide x vals args) = []"
| "realize_names (AssertStmt c m) = []"
| "realize_names (Prefetch x ts bs) = []"

text \<open>
  No semaphore that ForkAsyncProducers makes for an async stage realized in the statement
  has a name that starts with \<open>func.folding_semaphore.\<close>
\<close>

definition semaphores_not_folding :: "(string \<rightharpoonup> bool) \<Rightarrow> string \<Rightarrow> stmt \<Rightarrow> bool" where
  "semaphores_not_folding env func s =
     list_all (\<lambda>g. env g = Some True \<longrightarrow>
                 \<not> starts_with (g @ ''.semaphore_'') (folding_prefix func))
       (realize_names s)"

text \<open>
  The semaphore is not a folding semaphore of an async stage realized in the statement.
\<close>

definition not_folding_of_nested :: "(string \<rightharpoonup> bool) \<Rightarrow> expr \<Rightarrow> stmt \<Rightarrow> bool" where
  "not_folding_of_nested env semaphore s =
     list_all (\<lambda>g. env g = Some True \<longrightarrow> \<not> is_folding g semaphore) (realize_names s)"

section \<open>Facts about the loops of InitializeSemaphores\<close>

lemma rewrap_lets_Some:
  assumes "rewrap_lets lets s = Some y"
  shows "lets = []"
proof (rule rewrap_lets.raw_induct [where P = "\<lambda>l s y. l = []", OF _ assms])
  fix f :: "(string \<times> expr) list \<Rightarrow> stmt \<Rightarrow> stmt option" and l s y
  assume "\<And>l s y. f l s = Some y \<Longrightarrow> l = []"
    and "(if length l \<noteq> 0 then f l (LetStmt (fst (last l)) (snd (last l)) s) else Some s) = Some y"
  then show "l = []" by (cases "l = []") auto
qed

lemma rewrap_lets_diverges: "lets \<noteq> [] \<Longrightarrow> rewrap_lets lets s = None"
  using rewrap_lets_Some [of lets s] by (cases "rewrap_lets lets s") auto

lemma rewrap_lets_Nil: "rewrap_lets [] s = Some s"
  by (simp add: rewrap_lets.simps)

lemma init_let_stmt_direct_call:
  "init_let_stmt n (Call SemaphoreT ''halide_make_semaphore'' [ic] ct) body =
    Some (Inr (LetStmt n sema_allocate (Block (Evaluate (sema_init n ic)) body)))"
  by (simp add: init_let_stmt_def rewrap_lets_Nil)

section \<open>Facts about ForkAsyncProducers\<close>

lemma semaphore_names_1: "semaphore_names f (Suc 0) = [f @ ''.semaphore_0'']"
  by (simp add: semaphore_names_def string_of_nat.simps)


section \<open>Where halide_make_semaphore calls can occur\<close>

lemma sems_within_mono: "sems_within (\<lambda>v. False) s \<Longrightarrow> sems_within ok s"
  by (induction s) auto

lemma make_consume_sems: "sems_within ok (make_consume n p s) = sems_within ok s"
  by (induction n p s rule: make_consume.induct) (auto simp: Let_def)

lemma tighten_consume_sems: "sems_within ok (tighten_consume s) = sems_within ok s"
  by (induction s) (auto simp: make_consume_sems)

lemma is_no_op_sems: "is_no_op s \<Longrightarrow> sems_within ok s"
  by (cases s rule: is_no_op.cases) auto

lemma add_releases_sems:
  "\<forall>e\<in>set sem. \<not> expr_has_make_semaphore e \<Longrightarrow>
   sems_within ok (add_releases sem b) = sems_within ok b"
proof (induction sem b rule: add_releases.induct)
  case (1 sem body)
  show ?case
  proof (cases "sem = []")
    case True
    then show ?thesis by (simp add: add_releases.simps)
  next
    case False
    then have "sems_within ok (add_releases sem body) =
      sems_within ok (add_releases (butlast sem) (Block body (Evaluate (semaphore_release (last sem)))))"
      by (subst add_releases.simps) simp
    also have "\<dots> = sems_within ok (Block body (Evaluate (semaphore_release (last sem))))"
      using 1 False by (auto dest: in_set_butlastD)
    also have "\<dots> = sems_within ok body"
      using 1(2) False by (simp add: semaphore_release_def)
    finally show ?thesis .
  qed
qed

lemma bind_err_InrE:
  assumes "bind_err m f = Inr y"
  obtains x where "m = Inr x" "f x = Inr y"
  using assms by (cases m) (auto simp: bind_err_def)

lemma sem_clean_butlast: "sem_clean sem \<Longrightarrow> sem_clean (butlast sem)"
  by (auto simp: sem_clean_def dest: in_set_butlastD)

lemma sem_clean_last: "sem_clean sem \<Longrightarrow> sem \<noteq> [] \<Longrightarrow> \<not> expr_has_make_semaphore (last sem)"
  by (auto simp: sem_clean_def)

lemma collapse_sems:
  "sems_within ok b \<Longrightarrow> (ok v \<or> \<not> expr_has_make_semaphore v) \<Longrightarrow> sems_within ok (collapse_let x v b)"
  "sems_within ok b \<Longrightarrow> \<not> expr_has_make_semaphore mn \<Longrightarrow> \<not> expr_has_make_semaphore ex \<Longrightarrow>
     sems_within ok (collapse_for x mn ex ft d b)"
  "sems_within ok a \<Longrightarrow> sems_within ok b \<Longrightarrow> sems_within ok (collapse_block a b)"
  "sems_within ok a \<Longrightarrow> sems_within ok b \<Longrightarrow> sems_within ok (collapse_fork a b)"
  "sems_within ok b \<Longrightarrow> \<not> list_ex expr_has_make_semaphore (bounds_exprs bs) \<Longrightarrow>
     \<not> expr_has_make_semaphore c \<Longrightarrow> sems_within ok (collapse_realize x ts bs c b)"
  "sems_within ok a \<Longrightarrow> sems_within ok b \<Longrightarrow> \<not> expr_has_make_semaphore c \<Longrightarrow>
     sems_within ok (collapse_if c a b)"
  by (simp_all add: collapse_defs)

lemma producer_inv:
  "generate_producer_body f (Block a b) st = Inr (p, st') \<Longrightarrow>
     \<exists>p1 s1 p2. generate_producer_body f a st = Inr (p1, s1) \<and>
       generate_producer_body f b s1 = Inr (p2, st') \<and> p = collapse_block p1 p2"
  "generate_producer_body f (Fork a b) st = Inr (p, st') \<Longrightarrow>
     \<exists>p1 s1 p2. generate_producer_body f a st = Inr (p1, s1) \<and>
       generate_producer_body f b s1 = Inr (p2, st') \<and> p = collapse_fork p1 p2"
  "generate_producer_body f (IfThenElse c a b) st = Inr (p, st') \<Longrightarrow>
     \<exists>p1 s1 p2. generate_producer_body f a st = Inr (p1, s1) \<and>
       generate_producer_body f b s1 = Inr (p2, st') \<and> p = collapse_if c p1 p2"
  "generate_producer_body f (LetStmt x v b) st = Inr (p, st') \<Longrightarrow>
     \<exists>p1. generate_producer_body f b st = Inr (p1, st') \<and> p = collapse_let x v p1"
  "generate_producer_body f (For x mn ex ft d b) st = Inr (p, st') \<Longrightarrow>
     \<exists>p1. generate_producer_body f b st = Inr (p1, st') \<and> p = collapse_for x mn ex ft d p1"
  "generate_producer_body f (Realize x ts bs c b) st = Inr (p, st') \<Longrightarrow>
     \<exists>p1. generate_producer_body f b st = Inr (p1, st') \<and> p = collapse_realize x ts bs c p1"
  "generate_producer_body f (Acquire s c b) st = Inr (p, st') \<Longrightarrow>
     \<exists>p1 s1. generate_producer_body f b st = Inr (p1, s1) \<and>
       producer_acquire f s c p1 s1 = Inr (p, st')"
  "generate_producer_body f (ProducerConsumer x pr b) st = Inr (p, st') \<Longrightarrow>
     (x = f \<and> pr \<and> sema st \<noteq> [] \<and> p = make_produce x (add_releases (sema st) b) \<and>
        st' = st\<lparr>sema := []\<rparr>) \<or>
     (\<not> (x = f \<and> pr) \<and> (\<exists>p1. generate_producer_body f b st = Inr (p1, st') \<and>
        p = (if is_no_op p1 \<or> pr then p1 else ProducerConsumer x pr p1)))"
  by (auto elim!: bind_err_InrE split: if_splits)

lemma producer_acquire_inv:
  "producer_acquire f s c body st = Inr (p, st') \<Longrightarrow>
   \<exists>name. as_variable s = Some name \<and>
     (if is_no_op body then p = body \<and> st' = st
      else if starts_with name (folding_prefix f) then p = Acquire s c body \<and> st' = st
      else p = Acquire (Variable SemaphoreT (name @ fst (unique_name (counter st)))) c body \<and>
           st' = st\<lparr>cloned_acquires := (cloned_acquires st)(name \<mapsto> name @ fst (unique_name (counter st))),
                    counter := snd (unique_name (counter st))\<rparr>)"
  by (auto simp: producer_acquire_def Let_def split: option.splits if_splits prod.splits)

lemma producer_sems:
  "generate_producer_body f b st = Inr (p, st') \<Longrightarrow> sem_clean (sema st) \<Longrightarrow>
   sems_within ok b \<Longrightarrow> sems_within ok p \<and> sem_clean (sema st')"
proof (induction b arbitrary: st p st')
  case (ProducerConsumer x pr b)
  from producer_inv(8) [OF ProducerConsumer.prems(1)] ProducerConsumer.IH ProducerConsumer.prems(2,3)
  show ?case
    by (auto simp: make_produce_def add_releases_sems sem_clean_def split: if_splits)
next
  case (Acquire s c b)
  from producer_inv(7) [OF Acquire.prems(1)] obtain p1 s1 where
    g: "generate_producer_body f b st = Inr (p1, s1)" and
    a: "producer_acquire f s c p1 s1 = Inr (p, st')"
    by auto
  from Acquire.IH [OF g] Acquire.prems(2,3) have "sems_within ok p1" "sem_clean (sema s1)"
    by simp_all
  with producer_acquire_inv [OF a] Acquire.prems(3) show ?case
    by (auto split: if_splits)
qed (fastforce dest!: producer_inv simp: collapse_sems)+

lemma consumer_inv:
  "generate_consumer_body f (Block a b) sem = Inr (p, sem') \<Longrightarrow>
     \<exists>p1 s1 p2. generate_consumer_body f a sem = Inr (p1, s1) \<and>
       generate_consumer_body f b s1 = Inr (p2, sem') \<and> p = collapse_block p1 p2"
  "generate_consumer_body f (Fork a b) sem = Inr (p, sem') \<Longrightarrow>
     \<exists>p1 s1 p2. generate_consumer_body f a sem = Inr (p1, s1) \<and>
       generate_consumer_body f b s1 = Inr (p2, sem') \<and> p = collapse_fork p1 p2"
  "generate_consumer_body f (IfThenElse c a b) sem = Inr (p, sem') \<Longrightarrow>
     \<exists>p1 s1 p2. generate_consumer_body f a sem = Inr (p1, s1) \<and>
       generate_consumer_body f b s1 = Inr (p2, sem') \<and> p = collapse_if c p1 p2"
  "generate_consumer_body f (LetStmt x v b) sem = Inr (p, sem') \<Longrightarrow>
     \<exists>p1. generate_consumer_body f b sem = Inr (p1, sem') \<and> p = collapse_let x v p1"
  "generate_consumer_body f (For x mn ex ft d b) sem = Inr (p, sem') \<Longrightarrow>
     \<exists>p1. generate_consumer_body f b sem = Inr (p1, sem') \<and> p = collapse_for x mn ex ft d p1"
  "generate_consumer_body f (Realize x ts bs c b) sem = Inr (p, sem') \<Longrightarrow>
     \<exists>p1. generate_consumer_body f b sem = Inr (p1, sem') \<and> p = collapse_realize x ts bs c p1"
  "generate_consumer_body f (Acquire s c b) sem = Inr (p, sem') \<Longrightarrow>
     \<exists>name p1. as_variable s = Some name \<and> generate_consumer_body f b sem = Inr (p1, sem') \<and>
       p = (if starts_with name (folding_prefix f) then p1 else Acquire s c p1)"
  "generate_consumer_body f (ProducerConsumer x pr b) sem = Inr (p, sem') \<Longrightarrow>
     (x = f \<and> pr \<and> p = Evaluate (IntImm 0) \<and> sem' = sem) \<or>
     (x = f \<and> \<not> pr \<and> sem \<noteq> [] \<and> sem' = butlast sem \<and>
        p = Acquire (last sem) (IntImm 1) (ProducerConsumer x pr b)) \<or>
     (x \<noteq> f \<and> (\<exists>p1. generate_consumer_body f b sem = Inr (p1, sem') \<and>
        p = ProducerConsumer x pr p1))"
  by (auto elim!: bind_err_InrE split: if_splits option.splits)

lemma consumer_sems:
  "generate_consumer_body f b sem = Inr (p, sem') \<Longrightarrow> sem_clean sem \<Longrightarrow>
   sems_within ok b \<Longrightarrow> sems_within ok p \<and> sem_clean sem'"
proof (induction b arbitrary: sem p sem')
  case (ProducerConsumer x pr b)
  from consumer_inv(8) [OF ProducerConsumer.prems(1)] ProducerConsumer.IH ProducerConsumer.prems(2,3)
  show ?case by (auto simp: sem_clean_butlast sem_clean_last)
next
  case (Acquire s c b)
  from consumer_inv(7) [OF Acquire.prems(1)] Acquire.IH Acquire.prems(2,3)
  show ?case by auto
qed (fastforce dest!: consumer_inv simp: collapse_sems)+

lemma clone_evaluate_sems:
  "sems_within ok (clone_evaluate old new e) = (\<not> expr_has_make_semaphore e)"
  by (induction old new e rule: clone_evaluate.induct) auto

lemma clone_acquire_sems: "sems_within ok (clone_acquire old new s) = sems_within ok s"
  by (induction s) (auto simp: clone_evaluate_sems)

lemma fold_bind_semaphore_sems:
  "sems_bound body \<Longrightarrow> sems_bound (fold (bind_semaphore cl) names body)"
  by (induction names arbitrary: body)
     (auto simp: sems_bound_def bind_semaphore_def clone_acquire_sems split: option.splits)

lemma sem_clean_variables: "sem_clean (map (Variable t) names)"
  by (simp add: sem_clean_def)

lemma fork_async_inv:
  "fork_async_mutate env (Block a b) st = Inr (r, st') \<Longrightarrow>
     \<exists>r1 s1 r2. fork_async_mutate env a st = Inr (r1, s1) \<and>
       fork_async_mutate env b s1 = Inr (r2, st') \<and> r = Block r1 r2"
  "fork_async_mutate env (Fork a b) st = Inr (r, st') \<Longrightarrow>
     \<exists>r1 s1 r2. fork_async_mutate env a st = Inr (r1, s1) \<and>
       fork_async_mutate env b s1 = Inr (r2, st') \<and> r = Fork r1 r2"
  "fork_async_mutate env (IfThenElse c a b) st = Inr (r, st') \<Longrightarrow>
     \<exists>r1 s1 r2. fork_async_mutate env a st = Inr (r1, s1) \<and>
       fork_async_mutate env b s1 = Inr (r2, st') \<and> r = IfThenElse c r1 r2"
  "fork_async_mutate env (LetStmt x v b) st = Inr (r, st') \<Longrightarrow>
     \<exists>r1. fork_async_mutate env b st = Inr (r1, st') \<and> r = LetStmt x v r1"
  "fork_async_mutate env (For x mn ex ft d b) st = Inr (r, st') \<Longrightarrow>
     \<exists>r1. fork_async_mutate env b st = Inr (r1, st') \<and> r = For x mn ex ft d r1"
  "fork_async_mutate env (ProducerConsumer x pr b) st = Inr (r, st') \<Longrightarrow>
     \<exists>r1. fork_async_mutate env b st = Inr (r1, st') \<and> r = ProducerConsumer x pr r1"
  "fork_async_mutate env (Acquire s c b) st = Inr (r, st') \<Longrightarrow>
     \<exists>r1. fork_async_mutate env b st = Inr (r1, st') \<and> r = Acquire s c r1"
  by (auto simp: fork_async_mutate.simps elim!: bind_err_InrE)

lemma fork_async_Realize_inv:
  assumes "fork_async_mutate env (Realize x ts bs c b) st = Inr (r, st')"
  shows "(env x = Some False \<and>
           (\<exists>body. fork_async_mutate env b st = Inr (body, st') \<and> r = Realize x ts bs c body)) \<or>
         (env x = Some True \<and>
           (\<exists>producer pst consumer sem' producer' st1 consumer'.
              generate_producer_body x b
                \<lparr>sema = map (Variable HandleT) (semaphore_names x (count_consume_nodes x b)),
                 cloned_acquires = fst st, counter = snd st\<rparr> = Inr (producer, pst) \<and>
              generate_consumer_body x b
                (map (Variable HandleT) (semaphore_names x (count_consume_nodes x b))) =
                Inr (consumer, sem') \<and>
              fork_async_mutate env producer (cloned_acquires pst, counter pst) =
                Inr (producer', st1) \<and>
              fork_async_mutate env consumer st1 = Inr (consumer', st') \<and>
              r = Realize x ts bs c
                    (fold (bind_semaphore (fst st'))
                       (semaphore_names x (count_consume_nodes x b))
                       (Fork producer' consumer'))))"
  using assms
  by (auto simp: fork_async_mutate.simps Let_def elim!: bind_err_InrE
      split: option.splits if_splits)

lemma fork_async_sems:
  "fork_async_mutate env s st = Inr (r, st') \<Longrightarrow> sems_bound s \<Longrightarrow> sems_bound r"
proof (induction env s st arbitrary: r st' rule: fork_async_mutate.induct)
  case (1 env x ts bs c b st)
  from fork_async_Realize_inv [OF "1.prems"(1)] show ?case
  proof (elim disjE conjE exE)
    fix body
    assume "env x = Some False" "fork_async_mutate env b st = Inr (body, st')"
      "r = Realize x ts bs c body"
    with "1.IH"(3) "1.prems"(2) show ?thesis by (auto simp: sems_bound_def)
  next
    fix producer pst consumer sem' producer' st1 consumer'
    let ?names = "semaphore_names x (count_consume_nodes x b)"
    assume e: "env x = Some True"
      and p: "generate_producer_body x b
                \<lparr>sema = map (Variable HandleT) ?names,
                 cloned_acquires = fst st, counter = snd st\<rparr> = Inr (producer, pst)"
      and c: "generate_consumer_body x b (map (Variable HandleT) ?names) = Inr (consumer, sem')"
      and fp: "fork_async_mutate env producer (cloned_acquires pst, counter pst) = Inr (producer', st1)"
      and fc: "fork_async_mutate env consumer st1 = Inr (consumer', st')"
      and r: "r = Realize x ts bs c (fold (bind_semaphore (fst st')) ?names (Fork producer' consumer'))"
    from "1.prems"(2) have b: "sems_bound b" and m: "\<not> list_ex expr_has_make_semaphore (bounds_exprs bs)"
      "\<not> expr_has_make_semaphore c"
      by (auto simp: sems_bound_def)
    from producer_sems [OF p] b have "sems_bound producer"
      by (simp add: sems_bound_def sem_clean_variables)
    with "1.IH"(1) [OF e _ refl refl p refl c refl fp] have p': "sems_bound producer'" by simp
    from consumer_sems [OF c] b have "sems_bound consumer"
      by (simp add: sems_bound_def sem_clean_variables)
    with "1.IH"(2) [OF e _ refl refl p refl c refl fp refl fc] have c': "sems_bound consumer'"
      by simp
    from p' c' have "sems_bound (Fork producer' consumer')" by (simp add: sems_bound_def)
    from fold_bind_semaphore_sems [OF this] r m show ?thesis
      by (simp add: sems_bound_def)
  qed
qed (fastforce dest!: fork_async_inv simp: sems_bound_def fork_async_mutate.simps)+

lemma expand_acquire_sems: "sems_within ok (expand_acquire s) = sems_within ok s"
  by (induction s rule: expand_acquire.induct)
     (auto simp: Let_def split: option.splits dest!: as_acquire_Some)

lemma sems_within_let_sel:
  "is_LetStmt s \<Longrightarrow> sems_within ok s \<Longrightarrow>
   (ok (let_value s) \<or> \<not> expr_has_make_semaphore (let_value s)) \<and> sems_within ok (let_body s)"
  by (cases s) auto

lemma sems_within_realize_sel:
  "is_Realize s \<Longrightarrow> sems_within ok s \<Longrightarrow>
   \<not> list_ex expr_has_make_semaphore (bounds_exprs (realize_bounds s)) \<and>
   \<not> expr_has_make_semaphore (realize_condition s) \<and> sems_within ok (realize_body s)"
  by (cases s) auto

lemma make_fork_sems:
  "sems_within ok a \<Longrightarrow> sems_within ok b \<Longrightarrow> sems_within ok (make_fork a b)"
proof (induction a b rule: make_fork.induct)
  case (1 first rest)
  let ?c1 = "is_LetStmt first \<and> is_LetStmt rest \<and> let_name first = let_name rest \<and>
             let_value first = let_value rest"
  let ?c2 = "is_LetStmt first \<and> \<not> stmt_uses_var rest (let_name first)"
  let ?c3 = "is_LetStmt rest \<and> \<not> stmt_uses_var first (let_name rest)"
  let ?c4 = "is_Realize first \<and> \<not> stmt_uses_var rest (realize_name first)"
  let ?c5 = "is_Realize rest \<and> \<not> stmt_uses_var first (realize_name rest)"
  note f = "1.prems"(1) and r = "1.prems"(2)
  consider (a) ?c1 | (b) "\<not> ?c1" ?c2 | (c) "\<not> ?c1" "\<not> ?c2" ?c3
    | (d) "\<not> ?c1" "\<not> ?c2" "\<not> ?c3" ?c4 | (e) "\<not> ?c1" "\<not> ?c2" "\<not> ?c3" "\<not> ?c4" ?c5
    | (g) "\<not> ?c1" "\<not> ?c2" "\<not> ?c3" "\<not> ?c4" "\<not> ?c5"
    by blast
  then show ?case
  proof cases
    case a
    then have eq: "make_fork first rest = LetStmt (let_name first) (let_value first)
        (make_fork (let_body first) (let_body rest))"
      by (subst make_fork.simps) auto
    from a sems_within_let_sel [of first ok] sems_within_let_sel [of rest ok] f r
    have "sems_within ok (let_body first)" "sems_within ok (let_body rest)"
      "ok (let_value first) \<or> \<not> expr_has_make_semaphore (let_value first)"
      by simp_all
    with "1.IH"(1) a show ?thesis unfolding eq by simp
  next
    case b
    then have eq: "make_fork first rest = LetStmt (let_name first) (let_value first)
        (make_fork (let_body first) rest)"
      by (subst make_fork.simps) auto
    from b sems_within_let_sel [of first ok] f
    have "sems_within ok (let_body first)"
      "ok (let_value first) \<or> \<not> expr_has_make_semaphore (let_value first)"
      by simp_all
    with "1.IH"(2) b r show ?thesis unfolding eq by simp
  next
    case c
    then have eq: "make_fork first rest = LetStmt (let_name rest) (let_value rest)
        (make_fork first (let_body rest))"
      by (subst make_fork.simps) auto
    from c sems_within_let_sel [of rest ok] r
    have "sems_within ok (let_body rest)"
      "ok (let_value rest) \<or> \<not> expr_has_make_semaphore (let_value rest)"
      by simp_all
    with "1.IH"(3) c f show ?thesis unfolding eq by simp
  next
    case d
    then have eq: "make_fork first rest = Realize (realize_name first) (realize_types first)
        (realize_bounds first) (realize_condition first) (make_fork (realize_body first) rest)"
      by (subst make_fork.simps) auto
    from d sems_within_realize_sel [of first ok] f
    have "sems_within ok (realize_body first)"
      "\<not> list_ex expr_has_make_semaphore (bounds_exprs (realize_bounds first))"
      "\<not> expr_has_make_semaphore (realize_condition first)"
      by simp_all
    with "1.IH"(4) d r show ?thesis unfolding eq by simp
  next
    case e
    then have eq: "make_fork first rest = Realize (realize_name rest) (realize_types rest)
        (realize_bounds rest) (realize_condition rest) (make_fork first (realize_body rest))"
      by (subst make_fork.simps) auto
    from e sems_within_realize_sel [of rest ok] r
    have "sems_within ok (realize_body rest)"
      "\<not> list_ex expr_has_make_semaphore (bounds_exprs (realize_bounds rest))"
      "\<not> expr_has_make_semaphore (realize_condition rest)"
      by simp_all
    with "1.IH"(5) e f show ?thesis unfolding eq by simp
  next
    case g
    then have eq: "make_fork first rest = Fork first rest"
      by (subst make_fork.simps) auto
    from f r show ?thesis unfolding eq by simp
  qed
qed

lemma tighten_fork_sems: "sems_within ok s \<Longrightarrow> sems_within ok (tighten_fork f s)"
  by (induction s arbitrary: f) (auto simp: Let_def make_fork_sems)

lemma init_expr_ok_clean: "\<not> expr_has_make_semaphore e \<Longrightarrow> init_expr_ok e"
  by (induction e) auto

lemma init_exprs_clean: "\<not> list_ex expr_has_make_semaphore es \<Longrightarrow> init_exprs es k = k"
  by (auto simp: init_exprs_def list_all_iff list_ex_iff init_expr_ok_clean)

lemma peel_lets_clean:
  "peel_lets v lets = (lets', Call t f args ct) \<Longrightarrow> \<not> expr_has_make_semaphore v \<Longrightarrow>
   f \<noteq> ''halide_make_semaphore''"
  by (induction v lets rule: peel_lets.induct) auto

lemma init_let_stmt_clean:
  "\<not> expr_has_make_semaphore v \<Longrightarrow> init_let_stmt x v body = Some (Inr (LetStmt x v body))"
  by (auto simp: init_let_stmt_def split: prod.splits expr.splits dest: peel_lets_clean)

lemma init_let_stmt_sema_space:
  "init_let_stmt x sema_space body =
     Some (Inr (LetStmt x sema_allocate (Block (Evaluate (sema_init x (IntImm 0))) body)))"
  by (simp add: sema_space_def init_let_stmt_direct_call)

lemma initialize_semaphores_bound:
  "sems_bound s \<Longrightarrow>
   \<exists>out. initialize_semaphores s = Some (Inr out) \<and> sems_within (\<lambda>v. False) out"
proof (induction s)
  case (LetStmt x v b)
  then obtain body where b: "initialize_semaphores b = Some (Inr body)"
    "sems_within (\<lambda>v. False) body"
    by (auto simp: sems_bound_def)
  from LetStmt.prems consider "v = sema_space" | "\<not> expr_has_make_semaphore v"
    by (auto simp: sems_bound_def)
  then show ?case
  proof cases
    case 1
    with b show ?thesis
      by (simp add: bind_outcome_def init_let_stmt_sema_space sema_allocate_def sema_init_def)
  next
    case 2
    with b show ?thesis
      by (simp add: bind_outcome_def init_let_stmt_clean)
  qed
qed (auto simp: sems_bound_def bind_outcome_def init_exprs_clean)

lemma initialize_semaphores_clean:
  "sems_within (\<lambda>v. False) s \<Longrightarrow> initialize_semaphores s = Some (Inr s)"
  by (induction s) (auto simp: bind_outcome_def init_exprs_clean init_let_stmt_clean)

section \<open>Statements without async stages, acquires and forks\<close>

lemma make_consume_not_async:
  "realizes_not_async env (make_consume n p s) = realizes_not_async env s"
  by (induction n p s rule: make_consume.induct) (auto simp: Let_def)

lemma tighten_consume_not_async:
  "realizes_not_async env (tighten_consume s) = realizes_not_async env s"
  by (induction s) (auto simp: make_consume_not_async)

lemma make_consume_no_acquire:
  "no_acquire_no_fork (make_consume n p s) = no_acquire_no_fork s"
  by (induction n p s rule: make_consume.induct) (auto simp: Let_def)

lemma tighten_consume_no_acquire:
  "no_acquire_no_fork (tighten_consume s) = no_acquire_no_fork s"
  by (induction s) (auto simp: make_consume_no_acquire)

lemma fork_async_not_async:
  "realizes_not_async env s \<Longrightarrow> fork_async_mutate env s st = Inr (s, st)"
  by (induction s arbitrary: st) (simp_all add: fork_async_mutate.simps bind_err_def)

lemma no_acquire_as_acquire: "no_acquire_no_fork s \<Longrightarrow> as_acquire s = None"
  by (cases s) auto

lemma expand_acquire_no_acquire: "no_acquire_no_fork s \<Longrightarrow> expand_acquire s = s"
  by (induction s) (simp_all add: no_acquire_as_acquire)

lemma tighten_fork_no_fork: "no_acquire_no_fork s \<Longrightarrow> tighten_fork False s = s"
  by (induction s) simp_all

section \<open>Names of semaphores\<close>






lemma string_of_nat_digits: "set (string_of_nat n) \<subseteq> set ''0123456789''"
proof (induction n rule: string_of_nat.induct)
  case (1 n)
  have d: "\<And>m. m < 10 \<Longrightarrow> ''0123456789'' ! m \<in> set ''0123456789''"
    by (rule nth_mem) simp
  show ?case
  proof (cases "n < 10")
    case True
    then show ?thesis using d [of n] by (subst string_of_nat.simps) simp
  next
    case False
    with 1 d [of "n mod 10"] show ?thesis by (subst string_of_nat.simps) simp
  qed
qed

lemma starts_with_iff: "starts_with s p \<longleftrightarrow> (\<exists>r. s = p @ r)"
  by (induction s p rule: starts_with.induct) auto

lemma clone_not_folding:
  assumes "\<not> starts_with name (folding_prefix f)"
  shows "\<not> starts_with (name @ fst (unique_name n)) (folding_prefix f)"
proof
  let ?P = "folding_prefix f" and ?suf = "fst (unique_name n)"
  assume "starts_with (name @ ?suf) ?P"
  then obtain r where r: "name @ ?suf = ?P @ r" by (auto simp: starts_with_iff)
  from assms have n: "\<And>t. name \<noteq> ?P @ t" by (simp add: starts_with_iff)
  from r obtain us where "(name = ?P @ us \<and> us @ ?suf = r) \<or> (name @ us = ?P \<and> ?suf = us @ r)"
    unfolding append_eq_append_conv2 by blast
  with n have u: "name @ us = ?P" "?suf = us @ r" by auto
  with n [of "[]"] have ne: "us \<noteq> []" by auto
  have "last ?P = CHR ''.''" by (simp add: folding_prefix_def)
  moreover from ne have "last (name @ us) = last us" by (rule last_appendR)
  with u(1) have "last ?P = last us" by simp
  ultimately have "last us = CHR ''.''" by simp
  with last_in_set [OF ne] have "CHR ''.'' \<in> set us" by simp
  with u(2) have "CHR ''.'' \<in> set ?suf" by simp
  moreover have "set ?suf \<subseteq> insert (CHR ''_'') (set ''0123456789'')"
    using string_of_nat_digits [of n] by (simp add: unique_name_def subset_insertI2)
  ultimately have "CHR ''.'' \<in> insert (CHR ''_'') (set ''0123456789'')" by (rule set_mp [rotated])
  then show False by simp
qed

section \<open>Releases and acquires in the two halves of a fork\<close>





lemma add_releases_snoc:
  "add_releases (sem @ [s]) body = add_releases sem (Block body (Evaluate (semaphore_release s)))"
  by (subst add_releases.simps) simp

lemma add_releases_Nil: "add_releases [] body = body"
  by (subst add_releases.simps) simp





lemma is_no_op_not_async: "is_no_op s \<Longrightarrow> realizes_not_async env s"
  by (cases s rule: is_no_op.cases) auto







section \<open>Folding semaphores in the two halves of a fork\<close>

lemma is_no_op_folding: "is_no_op s \<Longrightarrow> folding_acquires f s = []"
  by (cases s rule: is_no_op.cases) auto

lemma is_no_op_folding_outside: "is_no_op s \<Longrightarrow> folding_acquires_outside_consume f s = []"
  by (cases s rule: is_no_op.cases) auto

lemma collapse_folding:
  "folding_acquires f (collapse_let x v b) = folding_acquires f b"
  "folding_acquires f (collapse_for x mn ex ft d b) = folding_acquires f b"
  "folding_acquires f (collapse_block a b) = folding_acquires f a @ folding_acquires f b"
  "folding_acquires f (collapse_fork a b) = folding_acquires f a @ folding_acquires f b"
  "folding_acquires f (collapse_realize x ts bs c b) = folding_acquires f b"
  "folding_acquires f (collapse_if c a b) = folding_acquires f a @ folding_acquires f b"
  by (simp_all add: collapse_defs is_no_op_folding)

lemma collapse_folding_outside:
  "folding_acquires_outside_consume f (collapse_let x v b) = folding_acquires_outside_consume f b"
  "folding_acquires_outside_consume f (collapse_for x mn ex ft d b) =
     folding_acquires_outside_consume f b"
  "folding_acquires_outside_consume f (collapse_block a b) =
     folding_acquires_outside_consume f a @ folding_acquires_outside_consume f b"
  "folding_acquires_outside_consume f (collapse_fork a b) =
     folding_acquires_outside_consume f a @ folding_acquires_outside_consume f b"
  "folding_acquires_outside_consume f (collapse_realize x ts bs c b) =
     folding_acquires_outside_consume f b"
  "folding_acquires_outside_consume f (collapse_if c a b) =
     folding_acquires_outside_consume f a @ folding_acquires_outside_consume f b"
  by (simp_all add: collapse_defs is_no_op_folding_outside)

lemma add_releases_folding: "folding_acquires f (add_releases sem b) = folding_acquires f b"
proof (induction sem arbitrary: b rule: rev_induct)
  case Nil
  show ?case by (simp add: add_releases_Nil)
next
  case (snoc x xs)
  then show ?case by (simp add: add_releases_snoc)
qed

lemma is_no_op_collapse:
  "is_no_op (collapse_let x v b) = is_no_op b"
  "is_no_op (collapse_for x mn ex ft d b) = is_no_op b"
  "is_no_op (collapse_block a b) = (is_no_op a \<and> is_no_op b)"
  "is_no_op (collapse_fork a b) = (is_no_op a \<and> is_no_op b)"
  "is_no_op (collapse_realize x ts bs c b) = is_no_op b"
  "is_no_op (collapse_if c a b) = (is_no_op a \<and> is_no_op b)"
  by (auto simp: collapse_defs)

lemma producer_no_op_iff:
  "generate_producer_body f b st = Inr (p, st') \<Longrightarrow> is_no_op p = (\<not> has_produce_node f b)"
proof (induction b arbitrary: st p st')
  case (ProducerConsumer x pr b)
  from producer_inv(8) [OF ProducerConsumer.prems(1)] ProducerConsumer.IH show ?case
    by (auto simp: make_produce_def split: if_splits)
next
  case (Acquire s c b)
  from producer_inv(7) [OF Acquire.prems(1)] obtain p1 s1 where
    g: "generate_producer_body f b st = Inr (p1, s1)" and
    a: "producer_acquire f s c p1 s1 = Inr (p, st')"
    by auto
  from producer_acquire_inv [OF a] Acquire.IH [OF g] show ?case
    by (auto split: if_splits)
qed (fastforce dest!: producer_inv simp: is_no_op_collapse)+

lemma no_produce_no_folding_at_produce:
  "\<not> has_produce_node f b \<Longrightarrow> folding_acquires_at_produce f b = []"
  by (induction b) auto

lemma producer_folding:
  "generate_producer_body f b st = Inr (p, st') \<Longrightarrow>
   folding_acquires f p = folding_acquires_at_produce f b"
proof (induction b arbitrary: st p st')
  case (ProducerConsumer x pr b)
  from producer_inv(8) [OF ProducerConsumer.prems(1)] ProducerConsumer.IH show ?case
    by (auto simp: make_produce_def add_releases_folding split: if_splits)
next
  case (Acquire s c b)
  from producer_inv(7) [OF Acquire.prems(1)] obtain p1 s1 where
    g: "generate_producer_body f b st = Inr (p1, s1)" and
    a: "producer_acquire f s c p1 s1 = Inr (p, st')"
    by auto
  note n = producer_no_op_iff [OF g] and ih = Acquire.IH [OF g]
  from producer_acquire_inv [OF a] obtain name where v: "as_variable s = Some name" and
    c: "if is_no_op p1 then p = p1
        else if starts_with name (folding_prefix f) then p = Acquire s c p1
        else p = Acquire (Variable SemaphoreT (name @ fst (unique_name (counter s1)))) c p1"
    by (auto split: if_splits)
  show ?case
  proof (cases "is_no_op p1")
    case True
    with c n ih show ?thesis by simp
  next
    case False
    show ?thesis
    proof (cases "starts_with name (folding_prefix f)")
      case True
      with False c n ih v show ?thesis by (simp add: is_folding_def)
    next
      case nf: False
      from clone_not_folding [OF nf, of "counter s1"] nf False c n ih v show ?thesis
        by (simp add: is_folding_def)
    qed
  qed
qed (fastforce dest!: producer_inv simp: collapse_folding)+

lemma consumer_stack_subset:
  "generate_consumer_body f b sem = Inr (p, sem') \<Longrightarrow> set sem' \<subseteq> set sem"
proof (induction b arbitrary: sem p sem')
  case (ProducerConsumer x pr b)
  from consumer_inv(8) [OF ProducerConsumer.prems(1)] ProducerConsumer.IH
  show ?case by (auto dest: in_set_butlastD)
next
  case (Acquire s c b)
  from consumer_inv(7) [OF Acquire.prems(1)] Acquire.IH show ?case by auto
next
  case (Block a b)
  from consumer_inv(1) [OF Block.prems(1)] Block.IH show ?case by blast
next
  case (Fork a b)
  from consumer_inv(2) [OF Fork.prems(1)] Fork.IH show ?case by blast
next
  case (IfThenElse c a b)
  from consumer_inv(3) [OF IfThenElse.prems(1)] IfThenElse.IH show ?case by blast
next
  case (LetStmt x v b)
  from consumer_inv(4) [OF LetStmt.prems(1)] LetStmt.IH show ?case by blast
next
  case (For x mn ex ft d b)
  from consumer_inv(5) [OF For.prems(1)] For.IH show ?case by blast
next
  case (Realize x ts bs c b)
  from consumer_inv(6) [OF Realize.prems(1)] Realize.IH show ?case by blast
qed auto

lemma consumer_folding:
  "generate_consumer_body f b sem = Inr (p, sem') \<Longrightarrow> \<forall>e\<in>set sem. \<not> is_folding f e \<Longrightarrow>
   folding_acquires_outside_consume f p = []"
proof (induction b arbitrary: sem p sem')
  case (ProducerConsumer x pr b)
  from consumer_inv(8) [OF ProducerConsumer.prems(1)] show ?case
  proof (elim disjE conjE exE)
    assume "p = Evaluate (IntImm 0)"
    then show ?thesis by simp
  next
    assume "x = f" "\<not> pr" "sem \<noteq> []"
      "p = Acquire (last sem) (IntImm 1) (ProducerConsumer x pr b)"
    with ProducerConsumer.prems(2) show ?thesis by simp
  next
    fix p1 assume "x \<noteq> f" "generate_consumer_body f b sem = Inr (p1, sem')"
      "p = ProducerConsumer x pr p1"
    with ProducerConsumer.IH [OF _ ProducerConsumer.prems(2)] show ?thesis by simp
  qed
next
  case (Acquire s c b)
  from consumer_inv(7) [OF Acquire.prems(1)] obtain name p1 where
    n: "as_variable s = Some name" and
    g: "generate_consumer_body f b sem = Inr (p1, sem')" and
    p: "p = (if starts_with name (folding_prefix f) then p1 else Acquire s c p1)"
    by auto
  from Acquire.IH [OF g Acquire.prems(2)] n p show ?case
    by (simp add: is_folding_def)
next
  case (Block a b)
  from consumer_inv(1) [OF Block.prems(1)] obtain p1 s1 p2 where
    g1: "generate_consumer_body f a sem = Inr (p1, s1)" and
    g2: "generate_consumer_body f b s1 = Inr (p2, sem')" and p: "p = collapse_block p1 p2"
    by auto
  from consumer_stack_subset [OF g1] Block.prems(2) have "\<forall>e\<in>set s1. \<not> is_folding f e"
    by blast
  from Block.IH(1) [OF g1 Block.prems(2)] Block.IH(2) [OF g2 this] p show ?case
    by (simp add: collapse_folding_outside)
next
  case (Fork a b)
  from consumer_inv(2) [OF Fork.prems(1)] obtain p1 s1 p2 where
    g1: "generate_consumer_body f a sem = Inr (p1, s1)" and
    g2: "generate_consumer_body f b s1 = Inr (p2, sem')" and p: "p = collapse_fork p1 p2"
    by auto
  from consumer_stack_subset [OF g1] Fork.prems(2) have "\<forall>e\<in>set s1. \<not> is_folding f e"
    by blast
  from Fork.IH(1) [OF g1 Fork.prems(2)] Fork.IH(2) [OF g2 this] p show ?case
    by (simp add: collapse_folding_outside)
next
  case (IfThenElse c a b)
  from consumer_inv(3) [OF IfThenElse.prems(1)] obtain p1 s1 p2 where
    g1: "generate_consumer_body f a sem = Inr (p1, s1)" and
    g2: "generate_consumer_body f b s1 = Inr (p2, sem')" and p: "p = collapse_if c p1 p2"
    by auto
  from consumer_stack_subset [OF g1] IfThenElse.prems(2) have "\<forall>e\<in>set s1. \<not> is_folding f e"
    by blast
  from IfThenElse.IH(1) [OF g1 IfThenElse.prems(2)] IfThenElse.IH(2) [OF g2 this] p show ?case
    by (simp add: collapse_folding_outside)
next
  case (LetStmt x v b)
  from consumer_inv(4) [OF LetStmt.prems(1)] obtain p1 where
    g: "generate_consumer_body f b sem = Inr (p1, sem')" and p: "p = collapse_let x v p1"
    by auto
  from LetStmt.IH [OF g LetStmt.prems(2)] p show ?case by (simp add: collapse_folding_outside)
next
  case (For x mn ex ft d b)
  from consumer_inv(5) [OF For.prems(1)] obtain p1 where
    g: "generate_consumer_body f b sem = Inr (p1, sem')" and p: "p = collapse_for x mn ex ft d p1"
    by auto
  from For.IH [OF g For.prems(2)] p show ?case by (simp add: collapse_folding_outside)
next
  case (Realize x ts bs c b)
  from consumer_inv(6) [OF Realize.prems(1)] obtain p1 where
    g: "generate_consumer_body f b sem = Inr (p1, sem')" and
    p: "p = collapse_realize x ts bs c p1"
    by auto
  from Realize.IH [OF g Realize.prems(2)] p show ?case by (simp add: collapse_folding_outside)
qed auto

lemma starts_with_append_same: "starts_with (f @ a) (f @ b) = starts_with a b"
  by (induction f) auto

lemma semaphore_names_not_folding:
  "\<forall>e\<in>set (map (Variable t) (semaphore_names f k)). \<not> is_folding f e"
  by (auto simp: semaphore_names_def is_folding_def folding_prefix_def starts_with_append_same)

lemma clone_evaluate_folding:
  "folding_acquires f (clone_evaluate old new e) = []"
  "folding_acquires_outside_consume f (clone_evaluate old new e) = []"
  by (induction old new e rule: clone_evaluate.induct) auto

lemma clone_acquire_folding:
  "folding_acquires f (clone_acquire old new s) = folding_acquires f s"
  by (induction s) (auto simp: clone_evaluate_folding)

lemma clone_acquire_folding_outside:
  "folding_acquires_outside_consume f (clone_acquire old new s) =
   folding_acquires_outside_consume f s"
  by (induction s) (auto simp: clone_evaluate_folding)

lemma fork_of_clone_acquire:
  "fork_of s = Some (p, c) \<Longrightarrow>
   fork_of (clone_acquire old new s) = Some (clone_acquire old new p, clone_acquire old new c)"
  by (induction s rule: fork_of.induct) auto

lemma fork_of_bind_semaphores:
  "fork_of body = Some (p, c) \<Longrightarrow>
   \<exists>p' c'. fork_of (fold (bind_semaphore cl) names body) = Some (p', c') \<and>
     folding_acquires f p' = folding_acquires f p \<and>
     folding_acquires_outside_consume f c' = folding_acquires_outside_consume f c"
proof (induction names arbitrary: body p c)
  case Nil
  then show ?case by simp
next
  case (Cons n names)
  show ?case
  proof (cases "cl n")
    case None
    with Cons.prems have "fork_of (bind_semaphore cl n body) = Some (p, c)"
      by (simp add: bind_semaphore_def)
    from Cons.IH [OF this] show ?thesis by simp
  next
    case (Some new)
    with Cons.prems have "fork_of (bind_semaphore cl n body) =
        Some (clone_acquire n new p, clone_acquire n new c)"
      by (simp add: bind_semaphore_def fork_of_clone_acquire)
    from Cons.IH [OF this] show ?thesis
      by (simp add: clone_acquire_folding clone_acquire_folding_outside)
  qed
qed


lemmas fork_eval = fork_async_mutate.simps bind_err_def collapse_defs add_releases.simps
  make_produce_def bind_semaphore_def producer_acquire_def unique_name_def

section \<open>Where TightenConsumeNodes places the two kinds of marker\<close>



section \<open>Bindings at the top of the children of a fork\<close>

lemma uses_let_sel:
  "is_LetStmt s \<Longrightarrow>
   stmt_uses_vars s vs = (expr_uses_vars (let_value s) vs \<or> stmt_uses_vars (let_body s) vs)"
  by (cases s) auto

lemma uses_realize_sel:
  "is_Realize s \<Longrightarrow>
   stmt_uses_vars s vs =
     (list_ex (\<lambda>r. range_uses_vars r vs) (realize_bounds s) \<or>
      expr_uses_vars (realize_condition s) vs \<or> stmt_uses_vars (realize_body s) vs)"
  by (cases s) auto

lemma make_fork_uses:
  "stmt_uses_vars (make_fork a b) vs = (stmt_uses_vars a vs \<or> stmt_uses_vars b vs)"
proof (induction a b rule: make_fork.induct)
  case (1 first rest)
  let ?c1 = "is_LetStmt first \<and> is_LetStmt rest \<and> let_name first = let_name rest \<and>
             let_value first = let_value rest"
  let ?c2 = "is_LetStmt first \<and> \<not> stmt_uses_var rest (let_name first)"
  let ?c3 = "is_LetStmt rest \<and> \<not> stmt_uses_var first (let_name rest)"
  let ?c4 = "is_Realize first \<and> \<not> stmt_uses_var rest (realize_name first)"
  let ?c5 = "is_Realize rest \<and> \<not> stmt_uses_var first (realize_name rest)"
  consider (a) ?c1 | (b) "\<not> ?c1" ?c2 | (c) "\<not> ?c1" "\<not> ?c2" ?c3
    | (d) "\<not> ?c1" "\<not> ?c2" "\<not> ?c3" ?c4 | (e) "\<not> ?c1" "\<not> ?c2" "\<not> ?c3" "\<not> ?c4" ?c5
    | (g) "\<not> ?c1" "\<not> ?c2" "\<not> ?c3" "\<not> ?c4" "\<not> ?c5"
    by blast
  then show ?case
  proof cases
    case a
    then have eq: "make_fork first rest = LetStmt (let_name first) (let_value first)
        (make_fork (let_body first) (let_body rest))"
      by (subst make_fork.simps) auto
    from a "1.IH"(1) show ?thesis
      unfolding eq by (auto simp: uses_let_sel [of first] uses_let_sel [of rest])
  next
    case b
    then have eq: "make_fork first rest = LetStmt (let_name first) (let_value first)
        (make_fork (let_body first) rest)"
      by (subst make_fork.simps) auto
    from b "1.IH"(2) show ?thesis
      unfolding eq by (auto simp: uses_let_sel [of first])
  next
    case c
    then have eq: "make_fork first rest = LetStmt (let_name rest) (let_value rest)
        (make_fork first (let_body rest))"
      by (subst make_fork.simps) auto
    from c "1.IH"(3) show ?thesis
      unfolding eq by (auto simp: uses_let_sel [of rest])
  next
    case d
    then have eq: "make_fork first rest = Realize (realize_name first) (realize_types first)
        (realize_bounds first) (realize_condition first) (make_fork (realize_body first) rest)"
      by (subst make_fork.simps) auto
    from d "1.IH"(4) show ?thesis
      unfolding eq by (auto simp: uses_realize_sel [of first])
  next
    case e
    then have eq: "make_fork first rest = Realize (realize_name rest) (realize_types rest)
        (realize_bounds rest) (realize_condition rest) (make_fork first (realize_body rest))"
      by (subst make_fork.simps) auto
    from e "1.IH"(5) show ?thesis
      unfolding eq by (auto simp: uses_realize_sel [of rest])
  next
    case g
    then have eq: "make_fork first rest = Fork first rest"
      by (subst make_fork.simps) auto
    show ?thesis unfolding eq by simp
  qed
qed

lemma make_fork_shape:
  "(is_LetStmt a \<and> (\<exists>X. make_fork a b = LetStmt (let_name a) (let_value a) X)) \<or>
   (is_LetStmt b \<and> (\<exists>X. make_fork a b = LetStmt (let_name b) (let_value b) X)) \<or>
   (\<exists>n t bs c X. make_fork a b = Realize n t bs c X) \<or> make_fork a b = Fork a b"
proof -
  let ?c1 = "is_LetStmt a \<and> is_LetStmt b \<and> let_name a = let_name b \<and>
             let_value a = let_value b"
  let ?c2 = "is_LetStmt a \<and> \<not> stmt_uses_var b (let_name a)"
  let ?c3 = "is_LetStmt b \<and> \<not> stmt_uses_var a (let_name b)"
  let ?c4 = "is_Realize a \<and> \<not> stmt_uses_var b (realize_name a)"
  let ?c5 = "is_Realize b \<and> \<not> stmt_uses_var a (realize_name b)"
  consider (a) ?c1 | (b) "\<not> ?c1" ?c2 | (c) "\<not> ?c1" "\<not> ?c2" ?c3
    | (d) "\<not> ?c1" "\<not> ?c2" "\<not> ?c3" ?c4 | (e) "\<not> ?c1" "\<not> ?c2" "\<not> ?c3" "\<not> ?c4" ?c5
    | (g) "\<not> ?c1" "\<not> ?c2" "\<not> ?c3" "\<not> ?c4" "\<not> ?c5"
    by blast
  then show ?thesis
  proof cases
    case a
    then have "make_fork a b = LetStmt (let_name a) (let_value a)
        (make_fork (let_body a) (let_body b))"
      by (subst make_fork.simps) auto
    with a show ?thesis by blast
  next
    case b
    then have "make_fork a b = LetStmt (let_name a) (let_value a) (make_fork (let_body a) b)"
      by (subst make_fork.simps) auto
    with b show ?thesis by blast
  next
    case c
    then have "make_fork a b = LetStmt (let_name b) (let_value b) (make_fork a (let_body b))"
      by (subst make_fork.simps) auto
    with c show ?thesis by blast
  next
    case d
    then have "make_fork a b = Realize (realize_name a) (realize_types a)
        (realize_bounds a) (realize_condition a) (make_fork (realize_body a) b)"
      by (subst make_fork.simps) auto
    then show ?thesis by blast
  next
    case e
    then have "make_fork a b = Realize (realize_name b) (realize_types b)
        (realize_bounds b) (realize_condition b) (make_fork a (realize_body b))"
      by (subst make_fork.simps) auto
    then show ?thesis by blast
  next
    case g
    then have "make_fork a b = Fork a b"
      by (subst make_fork.simps) auto
    then show ?thesis by blast
  qed
qed

lemma make_fork_top_let_used:
  assumes "top_let_used a" "top_let_used b"
  shows "top_let_used (make_fork a b)"
proof -
  from make_fork_shape [of a b] consider
    (a) X where "is_LetStmt a" "make_fork a b = LetStmt (let_name a) (let_value a) X"
    | (b) X where "is_LetStmt b" "make_fork a b = LetStmt (let_name b) (let_value b) X"
    | (c) n t bs c X where "make_fork a b = Realize n t bs c X"
    | (d) "make_fork a b = Fork a b"
    by blast
  then show ?thesis
  proof cases
    case a
    from a(1) assms(1) have "stmt_uses_var a (let_name a)" by (simp add: top_let_used_def)
    then have "stmt_uses_var (make_fork a b) (let_name a)"
      by (simp add: stmt_uses_var_def make_fork_uses)
    with a(2) show ?thesis by (simp add: top_let_used_def)
  next
    case b
    from b(1) assms(2) have "stmt_uses_var b (let_name b)" by (simp add: top_let_used_def)
    then have "stmt_uses_var (make_fork a b) (let_name b)"
      by (simp add: stmt_uses_var_def make_fork_uses)
    with b(2) show ?thesis by (simp add: top_let_used_def)
  next
    case c
    then show ?thesis by (simp add: top_let_used_def)
  next
    case d
    then show ?thesis by (simp add: top_let_used_def)
  qed
qed

lemma tighten_fork_top_let_used: "top_let_used (tighten_fork True s)"
proof (induction s)
  case (LetStmt x v b)
  then show ?case by (auto simp: top_let_used_def Let_def stmt_uses_var_def)
next
  case (Fork a b)
  then show ?case by (auto simp: Let_def make_fork_top_let_used)
next
  case (Realize x ts bs c b)
  then show ?case by (auto simp: Let_def) (simp add: top_let_used_def)
qed (simp_all add: top_let_used_def)

section \<open>Semaphore calls that the pass accounts for\<close>

lemma handled_exprI: "\<not> expr_has_make_semaphore e \<Longrightarrow> handled_expr e"
  by (simp add: handled_expr_def)

lemma handled_value_sema_space: "handled_value sema_space"
  by (simp add: handled_value_def sema_space_def)

lemma make_consume_exprs:
  "exprs_within lp ep (make_consume n p s) = exprs_within lp ep s"
  by (induction n p s rule: make_consume.induct) (auto simp: Let_def)

lemma tighten_consume_exprs: "exprs_within lp ep (tighten_consume s) = exprs_within lp ep s"
  by (induction s) (auto simp: make_consume_exprs)

lemma is_no_op_handled: "is_no_op s \<Longrightarrow> sems_handled s"
  by (cases s rule: is_no_op.cases) (auto simp: sems_handled_def handled_expr_def)

lemma add_releases_handled:
  "sem_clean sem \<Longrightarrow> sems_handled (add_releases sem b) = sems_handled b"
proof (induction sem b rule: add_releases.induct)
  case (1 sem body)
  show ?case
  proof (cases "sem = []")
    case True
    then show ?thesis by (simp add: add_releases.simps)
  next
    case False
    then have "sems_handled (add_releases sem body) =
      sems_handled (add_releases (butlast sem) (Block body (Evaluate (semaphore_release (last sem)))))"
      by (subst add_releases.simps) simp
    also have "\<dots> = sems_handled (Block body (Evaluate (semaphore_release (last sem))))"
      using 1 False by (simp add: sem_clean_butlast)
    also have "\<dots> = sems_handled body"
      using sem_clean_last [OF 1(2) False]
      by (simp add: semaphore_release_def sems_handled_def handled_expr_def)
    finally show ?thesis .
  qed
qed

lemma collapse_handled:
  "sems_handled b \<Longrightarrow> handled_value v \<Longrightarrow> sems_handled (collapse_let x v b)"
  "sems_handled b \<Longrightarrow> handled_expr mn \<Longrightarrow> handled_expr ex \<Longrightarrow>
     sems_handled (collapse_for x mn ex ft d b)"
  "sems_handled a \<Longrightarrow> sems_handled b \<Longrightarrow> sems_handled (collapse_block a b)"
  "sems_handled a \<Longrightarrow> sems_handled b \<Longrightarrow> sems_handled (collapse_fork a b)"
  "sems_handled b \<Longrightarrow> list_all handled_expr (bounds_exprs bs) \<Longrightarrow>
     handled_expr c \<Longrightarrow> sems_handled (collapse_realize x ts bs c b)"
  "sems_handled a \<Longrightarrow> sems_handled b \<Longrightarrow> handled_expr c \<Longrightarrow>
     sems_handled (collapse_if c a b)"
  by (simp_all add: collapse_defs sems_handled_def)

lemma sems_handled_simps:
  "sems_handled (LetStmt x v b) = (handled_value v \<and> sems_handled b)"
  "sems_handled (Block a b) = (sems_handled a \<and> sems_handled b)"
  "sems_handled (For x mn ex ft d b) = (handled_expr mn \<and> handled_expr ex \<and> sems_handled b)"
  "sems_handled (Realize x ts bs c b) =
     (list_all handled_expr (bounds_exprs bs) \<and> handled_expr c \<and> sems_handled b)"
  "sems_handled (ProducerConsumer x p b) = sems_handled b"
  "sems_handled (Fork a b) = (sems_handled a \<and> sems_handled b)"
  "sems_handled (Acquire s c b) = (handled_expr s \<and> handled_expr c \<and> sems_handled b)"
  "sems_handled (IfThenElse c a b) = (handled_expr c \<and> sems_handled a \<and> sems_handled b)"
  "sems_handled (Evaluate e) = handled_expr e"
  "sems_handled (Provide x vals args) = (list_all handled_expr vals \<and> list_all handled_expr args)"
  "sems_handled (AssertStmt c m) = (handled_expr c \<and> handled_expr m)"
  "sems_handled (Prefetch x ts bs) = list_all handled_expr (bounds_exprs bs)"
  by (simp_all add: sems_handled_def)

lemma producer_handled:
  "generate_producer_body f b st = Inr (p, st') \<Longrightarrow> sem_clean (sema st) \<Longrightarrow>
   sems_handled b \<Longrightarrow> sems_handled p \<and> sem_clean (sema st')"
proof (induction b arbitrary: st p st')
  case (ProducerConsumer x pr b)
  from producer_inv(8) [OF ProducerConsumer.prems(1)] ProducerConsumer.IH ProducerConsumer.prems(2,3)
  show ?case
    by (auto simp: make_produce_def add_releases_handled sems_handled_simps sem_clean_def
        split: if_splits)
next
  case (Acquire s c b)
  from producer_inv(7) [OF Acquire.prems(1)] obtain p1 s1 where
    g: "generate_producer_body f b st = Inr (p1, s1)" and
    a: "producer_acquire f s c p1 s1 = Inr (p, st')"
    by auto
  from Acquire.IH [OF g] Acquire.prems(2,3) have "sems_handled p1" "sem_clean (sema s1)"
    by (simp_all add: sems_handled_simps)
  with producer_acquire_inv [OF a] Acquire.prems(3) show ?case
    by (auto simp: sems_handled_simps handled_expr_def split: if_splits)
next
  case (Evaluate e)
  then show ?case by (auto simp: sems_handled_simps handled_expr_def)
next
  case (Provide x vals args)
  then show ?case by (auto simp: sems_handled_simps handled_expr_def)
next
  case (AssertStmt c m)
  then show ?case by (auto simp: sems_handled_simps handled_expr_def)
next
  case (Prefetch x ts bs)
  then show ?case by (auto simp: sems_handled_simps handled_expr_def)
qed (fastforce dest!: producer_inv simp: collapse_handled sems_handled_simps)+

lemma consumer_handled:
  "generate_consumer_body f b sem = Inr (p, sem') \<Longrightarrow> sem_clean sem \<Longrightarrow>
   sems_handled b \<Longrightarrow> sems_handled p \<and> sem_clean sem'"
proof (induction b arbitrary: sem p sem')
  case (ProducerConsumer x pr b)
  from consumer_inv(8) [OF ProducerConsumer.prems(1)] ProducerConsumer.IH ProducerConsumer.prems(2,3)
  show ?case
    by (auto simp: sem_clean_butlast sems_handled_simps handled_expr_def dest: sem_clean_last)
next
  case (Acquire s c b)
  from consumer_inv(7) [OF Acquire.prems(1)] Acquire.IH Acquire.prems(2,3)
  show ?case by (auto simp: sems_handled_simps)
next
  case (Evaluate e)
  then show ?case by auto
next
  case (Provide x vals args)
  then show ?case by auto
next
  case (AssertStmt c m)
  then show ?case by auto
next
  case (Prefetch x ts bs)
  then show ?case by auto
qed (fastforce dest!: consumer_inv simp: collapse_handled sems_handled_simps)+

lemma clone_evaluate_handled:
  "sems_handled (clone_evaluate old new e) = handled_expr e"
  by (induction old new e rule: clone_evaluate.induct)
     (auto simp: sems_handled_simps handled_expr_def)

lemma clone_acquire_handled: "sems_handled (clone_acquire old new s) = sems_handled s"
  by (induction s) (auto simp: clone_evaluate_handled sems_handled_simps)

lemma fold_bind_semaphore_handled:
  "sems_handled body \<Longrightarrow> sems_handled (fold (bind_semaphore cl) names body)"
  by (induction names arbitrary: body)
     (auto simp: sems_handled_simps bind_semaphore_def clone_acquire_handled
        handled_value_sema_space split: option.splits)

lemma fork_async_handled:
  "fork_async_mutate env s st = Inr (r, st') \<Longrightarrow> sems_handled s \<Longrightarrow> sems_handled r"
proof (induction env s st arbitrary: r st' rule: fork_async_mutate.induct)
  case (1 env x ts bs c b st)
  from fork_async_Realize_inv [OF "1.prems"(1)] show ?case
  proof (elim disjE conjE exE)
    fix body
    assume "env x = Some False" "fork_async_mutate env b st = Inr (body, st')"
      "r = Realize x ts bs c body"
    with "1.IH"(3) "1.prems"(2) show ?thesis by (auto simp: sems_handled_simps)
  next
    fix producer pst consumer sem' producer' st1 consumer'
    let ?names = "semaphore_names x (count_consume_nodes x b)"
    assume e: "env x = Some True"
      and p: "generate_producer_body x b
                \<lparr>sema = map (Variable HandleT) ?names,
                 cloned_acquires = fst st, counter = snd st\<rparr> = Inr (producer, pst)"
      and c: "generate_consumer_body x b (map (Variable HandleT) ?names) = Inr (consumer, sem')"
      and fp: "fork_async_mutate env producer (cloned_acquires pst, counter pst) = Inr (producer', st1)"
      and fc: "fork_async_mutate env consumer st1 = Inr (consumer', st')"
      and r: "r = Realize x ts bs c (fold (bind_semaphore (fst st')) ?names (Fork producer' consumer'))"
    from "1.prems"(2) have b: "sems_handled b" and m: "list_all handled_expr (bounds_exprs bs)"
      "handled_expr c"
      by (auto simp: sems_handled_simps)
    from producer_handled [OF p] b have "sems_handled producer"
      by (simp add: sem_clean_variables)
    with "1.IH"(1) [OF e _ refl refl p refl c refl fp] have p': "sems_handled producer'" by simp
    from consumer_handled [OF c] b have "sems_handled consumer"
      by (simp add: sem_clean_variables)
    with "1.IH"(2) [OF e _ refl refl p refl c refl fp refl fc] have c': "sems_handled consumer'"
      by simp
    from p' c' have "sems_handled (Fork producer' consumer')" by (simp add: sems_handled_simps)
    from fold_bind_semaphore_handled [OF this] r m show ?thesis
      by (simp add: sems_handled_simps)
  qed
qed (fastforce dest!: fork_async_inv simp: sems_handled_simps fork_async_mutate.simps)+

lemma expand_acquire_exprs: "exprs_within lp ep (expand_acquire s) = exprs_within lp ep s"
  by (induction s rule: expand_acquire.induct)
     (auto simp: Let_def split: option.splits dest!: as_acquire_Some)

lemma exprs_within_let_sel:
  "is_LetStmt s \<Longrightarrow> exprs_within lp ep s \<Longrightarrow> lp (let_value s) \<and> exprs_within lp ep (let_body s)"
  by (cases s) auto

lemma exprs_within_realize_sel:
  "is_Realize s \<Longrightarrow> exprs_within lp ep s \<Longrightarrow>
   list_all ep (bounds_exprs (realize_bounds s)) \<and> ep (realize_condition s) \<and>
   exprs_within lp ep (realize_body s)"
  by (cases s) auto

lemma make_fork_exprs:
  "exprs_within lp ep a \<Longrightarrow> exprs_within lp ep b \<Longrightarrow> exprs_within lp ep (make_fork a b)"
proof (induction a b rule: make_fork.induct)
  case (1 first rest)
  let ?c1 = "is_LetStmt first \<and> is_LetStmt rest \<and> let_name first = let_name rest \<and>
             let_value first = let_value rest"
  let ?c2 = "is_LetStmt first \<and> \<not> stmt_uses_var rest (let_name first)"
  let ?c3 = "is_LetStmt rest \<and> \<not> stmt_uses_var first (let_name rest)"
  let ?c4 = "is_Realize first \<and> \<not> stmt_uses_var rest (realize_name first)"
  let ?c5 = "is_Realize rest \<and> \<not> stmt_uses_var first (realize_name rest)"
  note f = "1.prems"(1) and r = "1.prems"(2)
  consider (a) ?c1 | (b) "\<not> ?c1" ?c2 | (c) "\<not> ?c1" "\<not> ?c2" ?c3
    | (d) "\<not> ?c1" "\<not> ?c2" "\<not> ?c3" ?c4 | (e) "\<not> ?c1" "\<not> ?c2" "\<not> ?c3" "\<not> ?c4" ?c5
    | (g) "\<not> ?c1" "\<not> ?c2" "\<not> ?c3" "\<not> ?c4" "\<not> ?c5"
    by blast
  then show ?case
  proof cases
    case a
    then have eq: "make_fork first rest = LetStmt (let_name first) (let_value first)
        (make_fork (let_body first) (let_body rest))"
      by (subst make_fork.simps) auto
    from a exprs_within_let_sel [of first lp ep] exprs_within_let_sel [of rest lp ep] f r
    have "exprs_within lp ep (let_body first)" "exprs_within lp ep (let_body rest)"
      "lp (let_value first)"
      by simp_all
    with "1.IH"(1) a show ?thesis unfolding eq by simp
  next
    case b
    then have eq: "make_fork first rest = LetStmt (let_name first) (let_value first)
        (make_fork (let_body first) rest)"
      by (subst make_fork.simps) auto
    from b exprs_within_let_sel [of first lp ep] f
    have "exprs_within lp ep (let_body first)" "lp (let_value first)"
      by simp_all
    with "1.IH"(2) b r show ?thesis unfolding eq by simp
  next
    case c
    then have eq: "make_fork first rest = LetStmt (let_name rest) (let_value rest)
        (make_fork first (let_body rest))"
      by (subst make_fork.simps) auto
    from c exprs_within_let_sel [of rest lp ep] r
    have "exprs_within lp ep (let_body rest)" "lp (let_value rest)"
      by simp_all
    with "1.IH"(3) c f show ?thesis unfolding eq by simp
  next
    case d
    then have eq: "make_fork first rest = Realize (realize_name first) (realize_types first)
        (realize_bounds first) (realize_condition first) (make_fork (realize_body first) rest)"
      by (subst make_fork.simps) auto
    from d exprs_within_realize_sel [of first lp ep] f
    have "exprs_within lp ep (realize_body first)"
      "list_all ep (bounds_exprs (realize_bounds first))"
      "ep (realize_condition first)"
      by simp_all
    with "1.IH"(4) d r show ?thesis unfolding eq by simp
  next
    case e
    then have eq: "make_fork first rest = Realize (realize_name rest) (realize_types rest)
        (realize_bounds rest) (realize_condition rest) (make_fork first (realize_body rest))"
      by (subst make_fork.simps) auto
    from e exprs_within_realize_sel [of rest lp ep] r
    have "exprs_within lp ep (realize_body rest)"
      "list_all ep (bounds_exprs (realize_bounds rest))"
      "ep (realize_condition rest)"
      by simp_all
    with "1.IH"(5) e f show ?thesis unfolding eq by simp
  next
    case g
    then have eq: "make_fork first rest = Fork first rest"
      by (subst make_fork.simps) auto
    from f r show ?thesis unfolding eq by simp
  qed
qed

lemma tighten_fork_exprs: "exprs_within lp ep s \<Longrightarrow> exprs_within lp ep (tighten_fork f s)"
  by (induction s arbitrary: f) (auto simp: Let_def make_fork_exprs)

lemma init_expr_ok_meets: "init_expr_ok e = (\<not> meets_make_semaphore e)"
  by (induction e) auto

lemma init_exprs_meets:
  "init_exprs es k = (if list_all (\<lambda>e. \<not> meets_make_semaphore e) es then k
                      else Some (Inl MakeSemaphoreUnexpected))"
  by (simp add: init_exprs_def init_expr_ok_meets list_all_iff)

lemma init_let_stmt_direct:
  assumes "direct_make_semaphore v \<or> \<not> expr_has_make_semaphore v"
  shows "\<exists>out. init_let_stmt x v body = Some (Inr out)"
proof (cases "expr_has_make_semaphore v")
  case False
  then show ?thesis by (simp add: init_let_stmt_clean)
next
  case True
  with assms have "direct_make_semaphore v" by simp
  then obtain t a ct where "v = Call t ''halide_make_semaphore'' [a] ct"
    by (cases v rule: direct_make_semaphore.cases) (auto simp: length_Suc_conv)
  then show ?thesis by (simp add: init_let_stmt_def rewrap_lets_Nil)
qed

lemma initialize_semaphores_raises:
  "lets_direct s \<Longrightarrow>
   (if meets_make_semaphore_stmt s then initialize_semaphores s = Some (Inl MakeSemaphoreUnexpected)
    else \<exists>out. initialize_semaphores s = Some (Inr out))"
proof (induction s)
  case (LetStmt x v b)
  then have d: "direct_make_semaphore v \<or> \<not> expr_has_make_semaphore v" and b: "lets_direct b"
    by (simp_all add: lets_direct_def)
  show ?case
  proof (cases "meets_make_semaphore_stmt b")
    case True
    with LetStmt.IH [OF b] show ?thesis
      by (simp add: bind_outcome_def meets_make_semaphore_stmt_def)
  next
    case False
    with LetStmt.IH [OF b] obtain body where "initialize_semaphores b = Some (Inr body)"
      by auto
    with False init_let_stmt_direct [OF d, of x body] show ?thesis
      by (simp add: bind_outcome_def meets_make_semaphore_stmt_def)
  qed
next
  case (Block a b)
  then have "lets_direct a" "lets_direct b" by (simp_all add: lets_direct_def)
  from Block.IH(1) [OF this(1)] Block.IH(2) [OF this(2)] show ?case
    by (auto simp: bind_outcome_def meets_make_semaphore_stmt_def split: if_splits)
next
  case (Fork a b)
  then have "lets_direct a" "lets_direct b" by (simp_all add: lets_direct_def)
  from Fork.IH(1) [OF this(1)] Fork.IH(2) [OF this(2)] show ?case
    by (auto simp: bind_outcome_def meets_make_semaphore_stmt_def split: if_splits)
next
  case (IfThenElse c a b)
  then have "lets_direct a" "lets_direct b" by (simp_all add: lets_direct_def)
  from IfThenElse.IH(1) [OF this(1)] IfThenElse.IH(2) [OF this(2)] show ?case
    by (auto simp: bind_outcome_def meets_make_semaphore_stmt_def init_exprs_meets split: if_splits)
next
  case (For x mn ex ft d b)
  then have "lets_direct b" by (simp_all add: lets_direct_def)
  from For.IH [OF this] show ?case
    by (auto simp: bind_outcome_def meets_make_semaphore_stmt_def init_exprs_meets split: if_splits)
next
  case (Realize x ts bs c b)
  then have "lets_direct b" by (simp_all add: lets_direct_def)
  from Realize.IH [OF this] show ?case
    by (auto simp: bind_outcome_def meets_make_semaphore_stmt_def init_exprs_meets split: if_splits)
next
  case (ProducerConsumer x p b)
  then have "lets_direct b" by (simp_all add: lets_direct_def)
  from ProducerConsumer.IH [OF this] show ?case
    by (auto simp: bind_outcome_def meets_make_semaphore_stmt_def split: if_splits)
next
  case (Acquire s c b)
  then have "lets_direct b" by (simp_all add: lets_direct_def)
  from Acquire.IH [OF this] show ?case
    by (auto simp: bind_outcome_def meets_make_semaphore_stmt_def init_exprs_meets split: if_splits)
qed (auto simp: meets_make_semaphore_stmt_def init_exprs_meets list_all_iff)

lemma handled_expr_clean: "handled_expr e \<Longrightarrow> \<not> meets_make_semaphore e \<Longrightarrow> \<not> expr_has_make_semaphore e"
  by (simp add: handled_expr_def)

lemma handled_exprs_clean:
  "list_all handled_expr es \<Longrightarrow> list_all (\<lambda>e. \<not> meets_make_semaphore e) es \<Longrightarrow>
   \<not> list_ex expr_has_make_semaphore es"
  by (auto simp: list_all_iff list_ex_iff handled_expr_def)

lemma init_let_stmt_handled:
  assumes "handled_value v" "sems_within (\<lambda>v. False) body"
  shows "\<exists>out. init_let_stmt x v body = Some (Inr out) \<and> sems_within (\<lambda>v. False) out"
proof (cases "expr_has_make_semaphore v")
  case False
  with assms(2) show ?thesis by (simp add: init_let_stmt_clean)
next
  case True
  with assms have "semaphore_binding v" by (simp add: handled_value_def)
  then obtain a ct where "v = Call SemaphoreT ''halide_make_semaphore'' [a] ct"
    "\<not> expr_has_make_semaphore a"
    by (cases v rule: semaphore_binding.cases) (auto simp: length_Suc_conv)
  with assms(2) show ?thesis
    by (simp add: init_let_stmt_direct_call sema_allocate_def sema_init_def)
qed

lemma initialize_semaphores_handled:
  "sems_handled s \<Longrightarrow>
   initialize_semaphores s = Some (Inl MakeSemaphoreUnexpected) \<or>
   (\<exists>out. initialize_semaphores s = Some (Inr out) \<and> sems_within (\<lambda>v. False) out)"
proof (induction s)
  case (LetStmt x v b)
  then have v: "handled_value v" and b: "sems_handled b" by (simp_all add: sems_handled_simps)
  from LetStmt.IH [OF b] show ?case
  proof
    assume "initialize_semaphores b = Some (Inl MakeSemaphoreUnexpected)"
    then show ?thesis by (simp add: bind_outcome_def)
  next
    assume "\<exists>out. initialize_semaphores b = Some (Inr out) \<and> sems_within (\<lambda>v. False) out"
    then obtain body where o: "initialize_semaphores b = Some (Inr body)"
      "sems_within (\<lambda>v. False) body" by auto
    from init_let_stmt_handled [OF v o(2), of x] o(1) show ?thesis
      by (simp add: bind_outcome_def)
  qed
next
  case (Block a b)
  then have "sems_handled a" "sems_handled b" by (simp_all add: sems_handled_simps)
  from Block.IH(1) [OF this(1)] Block.IH(2) [OF this(2)] show ?case
    by (auto simp: bind_outcome_def)
next
  case (Fork a b)
  then have "sems_handled a" "sems_handled b" by (simp_all add: sems_handled_simps)
  from Fork.IH(1) [OF this(1)] Fork.IH(2) [OF this(2)] show ?case
    by (auto simp: bind_outcome_def)
next
  case (IfThenElse c a b)
  then have "sems_handled a" "sems_handled b" "handled_expr c" by (simp_all add: sems_handled_simps)
  from IfThenElse.IH(1) [OF this(1)] IfThenElse.IH(2) [OF this(2)] this(3) show ?case
    by (auto simp: bind_outcome_def init_exprs_meets handled_expr_clean)
next
  case (For x mn ex ft d b)
  then have "sems_handled b" "handled_expr mn" "handled_expr ex" by (simp_all add: sems_handled_simps)
  from For.IH [OF this(1)] this(2,3) show ?case
    by (auto simp: bind_outcome_def init_exprs_meets handled_expr_clean)
next
  case (Realize x ts bs c b)
  then have h: "sems_handled b" "list_all handled_expr (bounds_exprs bs)" "handled_expr c"
    by (simp_all add: sems_handled_simps)
  from Realize.IH [OF h(1)] show ?case
  proof
    assume "initialize_semaphores b = Some (Inl MakeSemaphoreUnexpected)"
    then show ?thesis by (simp add: bind_outcome_def init_exprs_meets)
  next
    assume "\<exists>out. initialize_semaphores b = Some (Inr out) \<and> sems_within (\<lambda>v. False) out"
    then obtain body where o: "initialize_semaphores b = Some (Inr body)"
      "sems_within (\<lambda>v. False) body" by auto
    show ?thesis
    proof (cases "list_all (\<lambda>e. \<not> meets_make_semaphore e) (bounds_exprs bs) \<and>
        \<not> meets_make_semaphore c")
      case True
      with h have "\<not> list_ex expr_has_make_semaphore (bounds_exprs bs)"
        "\<not> expr_has_make_semaphore c"
        by (simp_all add: handled_expr_clean handled_exprs_clean)
      with True o show ?thesis by (simp add: bind_outcome_def init_exprs_meets)
    next
      case False
      with o show ?thesis by (auto simp: bind_outcome_def init_exprs_meets)
    qed
  qed
next
  case (ProducerConsumer x p b)
  then have "sems_handled b" by (simp_all add: sems_handled_simps)
  from ProducerConsumer.IH [OF this] show ?case
    by (auto simp: bind_outcome_def)
next
  case (Acquire s c b)
  then have "sems_handled b" "handled_expr s" "handled_expr c" by (simp_all add: sems_handled_simps)
  from Acquire.IH [OF this(1)] this(2,3) show ?case
    by (auto simp: bind_outcome_def init_exprs_meets handled_expr_clean)
next
  case (Evaluate e)
  then show ?case by (auto simp: sems_handled_simps init_exprs_meets handled_expr_clean)
next
  case (Provide x vals args)
  then show ?case
    by (auto simp: sems_handled_simps init_exprs_meets handled_exprs_clean)
next
  case (AssertStmt c m)
  then show ?case by (auto simp: sems_handled_simps init_exprs_meets handled_expr_clean)
next
  case (Prefetch x ts bs)
  then show ?case by (auto simp: sems_handled_simps init_exprs_meets handled_exprs_clean)
qed

section \<open>An async stage without a consume node\<close>






section \<open>The Realize nodes of the two halves of a fork\<close>

lemma is_no_op_realize_names: "is_no_op s \<Longrightarrow> realize_names s = []"
  by (cases s rule: is_no_op.cases) auto

lemma collapse_realize_names:
  "set (realize_names (collapse_let x v b)) \<subseteq> set (realize_names b)"
  "set (realize_names (collapse_for x mn ex ft d b)) \<subseteq> set (realize_names b)"
  "set (realize_names (collapse_block a b)) \<subseteq> set (realize_names a) \<union> set (realize_names b)"
  "set (realize_names (collapse_fork a b)) \<subseteq> set (realize_names a) \<union> set (realize_names b)"
  "set (realize_names (collapse_realize x ts bs c b)) \<subseteq> insert x (set (realize_names b))"
  "set (realize_names (collapse_if c a b)) \<subseteq> set (realize_names a) \<union> set (realize_names b)"
  by (auto simp: collapse_defs)

lemma add_releases_realize_names: "realize_names (add_releases sem b) = realize_names b"
proof (induction sem arbitrary: b rule: rev_induct)
  case Nil
  show ?case by (simp add: add_releases_Nil)
next
  case (snoc x xs)
  then show ?case by (simp add: add_releases_snoc)
qed

lemma collapse_realize_namesD:
  "g \<in> set (realize_names (collapse_let x v b)) \<Longrightarrow> g \<in> set (realize_names b)"
  "g \<in> set (realize_names (collapse_for x mn ex ft d b)) \<Longrightarrow> g \<in> set (realize_names b)"
  "g \<in> set (realize_names (collapse_block a b)) \<Longrightarrow>
     g \<in> set (realize_names a) \<or> g \<in> set (realize_names b)"
  "g \<in> set (realize_names (collapse_fork a b)) \<Longrightarrow>
     g \<in> set (realize_names a) \<or> g \<in> set (realize_names b)"
  "g \<in> set (realize_names (collapse_realize x ts bs c b)) \<Longrightarrow>
     g = x \<or> g \<in> set (realize_names b)"
  "g \<in> set (realize_names (collapse_if c a b)) \<Longrightarrow>
     g \<in> set (realize_names a) \<or> g \<in> set (realize_names b)"
  using collapse_realize_names(1) [of x v b] collapse_realize_names(2) [of x mn ex ft d b]
    collapse_realize_names(3) [of a b] collapse_realize_names(4) [of a b]
    collapse_realize_names(5) [of x ts bs c b] collapse_realize_names(6) [of c a b]
  by auto

lemma producer_realize_names:
  "generate_producer_body f b st = Inr (p, st') \<Longrightarrow> g \<in> set (realize_names p) \<Longrightarrow>
   g \<in> set (realize_names b)"
proof (induction b arbitrary: st p st')
  case (ProducerConsumer x pr b)
  from producer_inv(8) [OF ProducerConsumer.prems(1)] ProducerConsumer.IH ProducerConsumer.prems(2)
  show ?case
    by (auto simp: make_produce_def add_releases_realize_names split: if_splits)
next
  case (Acquire s c b)
  from producer_inv(7) [OF Acquire.prems(1)] obtain p1 s1 where
    g: "generate_producer_body f b st = Inr (p1, s1)" and
    a: "producer_acquire f s c p1 s1 = Inr (p, st')"
    by auto
  from producer_acquire_inv [OF a] Acquire.IH [OF g] Acquire.prems(2) show ?case
    by (auto split: if_splits)
next
  case (Block a b)
  from producer_inv(1) [OF Block.prems(1)] obtain p1 s1 p2 where
    g1: "generate_producer_body f a st = Inr (p1, s1)" and
    g2: "generate_producer_body f b s1 = Inr (p2, st')" and
    p: "p = collapse_block p1 p2" by blast
  from Block.prems(2) p have "g \<in> set (realize_names p1) \<or> g \<in> set (realize_names p2)"
    by (auto dest: collapse_realize_namesD)
  then show ?case using Block.IH(1) [OF g1] Block.IH(2) [OF g2] by auto
next
  case (Fork a b)
  from producer_inv(2) [OF Fork.prems(1)] obtain p1 s1 p2 where
    g1: "generate_producer_body f a st = Inr (p1, s1)" and
    g2: "generate_producer_body f b s1 = Inr (p2, st')" and
    p: "p = collapse_fork p1 p2" by blast
  from Fork.prems(2) p have "g \<in> set (realize_names p1) \<or> g \<in> set (realize_names p2)"
    by (auto dest: collapse_realize_namesD)
  then show ?case using Fork.IH(1) [OF g1] Fork.IH(2) [OF g2] by auto
next
  case (IfThenElse c a b)
  from producer_inv(3) [OF IfThenElse.prems(1)] obtain p1 s1 p2 where
    g1: "generate_producer_body f a st = Inr (p1, s1)" and
    g2: "generate_producer_body f b s1 = Inr (p2, st')" and
    p: "p = collapse_if c p1 p2" by blast
  from IfThenElse.prems(2) p have "g \<in> set (realize_names p1) \<or> g \<in> set (realize_names p2)"
    by (auto dest: collapse_realize_namesD)
  then show ?case using IfThenElse.IH(1) [OF g1] IfThenElse.IH(2) [OF g2] by auto
next
  case (LetStmt x v b)
  from producer_inv(4) [OF LetStmt.prems(1)] obtain p1 where
    g1: "generate_producer_body f b st = Inr (p1, st')" and p: "p = collapse_let x v p1" by blast
  from LetStmt.prems(2) p have "g \<in> set (realize_names p1) \<or> g \<in> set (realize_names (LetStmt x v b))"
    by (auto dest: collapse_realize_namesD)
  then show ?case using LetStmt.IH [OF g1] by auto
next
  case (For x mn ex ft d b)
  from producer_inv(5) [OF For.prems(1)] obtain p1 where
    g1: "generate_producer_body f b st = Inr (p1, st')" and p: "p = collapse_for x mn ex ft d p1" by blast
  from For.prems(2) p have "g \<in> set (realize_names p1) \<or> g \<in> set (realize_names (For x mn ex ft d b))"
    by (auto dest: collapse_realize_namesD)
  then show ?case using For.IH [OF g1] by auto
next
  case (Realize x ts bs c b)
  from producer_inv(6) [OF Realize.prems(1)] obtain p1 where
    g1: "generate_producer_body f b st = Inr (p1, st')" and p: "p = collapse_realize x ts bs c p1" by blast
  from Realize.prems(2) p have "g \<in> set (realize_names p1) \<or> g \<in> set (realize_names (Realize x ts bs c b))"
    by (auto dest: collapse_realize_namesD)
  then show ?case using Realize.IH [OF g1] by auto
qed auto

lemma consumer_realize_names:
  "generate_consumer_body f b sem = Inr (p, sem') \<Longrightarrow> g \<in> set (realize_names p) \<Longrightarrow>
   g \<in> set (realize_names b)"
proof (induction b arbitrary: sem p sem')
  case (ProducerConsumer x pr b)
  from consumer_inv(8) [OF ProducerConsumer.prems(1)] ProducerConsumer.IH ProducerConsumer.prems(2)
  show ?case by auto
next
  case (Acquire s c b)
  from consumer_inv(7) [OF Acquire.prems(1)] Acquire.IH Acquire.prems(2) show ?case
    by (auto split: if_splits)
next
  case (Block a b)
  from consumer_inv(1) [OF Block.prems(1)] obtain p1 s1 p2 where
    g1: "generate_consumer_body f a sem = Inr (p1, s1)" and
    g2: "generate_consumer_body f b s1 = Inr (p2, sem')" and
    p: "p = collapse_block p1 p2" by blast
  from Block.prems(2) p have "g \<in> set (realize_names p1) \<or> g \<in> set (realize_names p2)"
    by (auto dest: collapse_realize_namesD)
  then show ?case using Block.IH(1) [OF g1] Block.IH(2) [OF g2] by auto
next
  case (Fork a b)
  from consumer_inv(2) [OF Fork.prems(1)] obtain p1 s1 p2 where
    g1: "generate_consumer_body f a sem = Inr (p1, s1)" and
    g2: "generate_consumer_body f b s1 = Inr (p2, sem')" and
    p: "p = collapse_fork p1 p2" by blast
  from Fork.prems(2) p have "g \<in> set (realize_names p1) \<or> g \<in> set (realize_names p2)"
    by (auto dest: collapse_realize_namesD)
  then show ?case using Fork.IH(1) [OF g1] Fork.IH(2) [OF g2] by auto
next
  case (IfThenElse c a b)
  from consumer_inv(3) [OF IfThenElse.prems(1)] obtain p1 s1 p2 where
    g1: "generate_consumer_body f a sem = Inr (p1, s1)" and
    g2: "generate_consumer_body f b s1 = Inr (p2, sem')" and
    p: "p = collapse_if c p1 p2" by blast
  from IfThenElse.prems(2) p have "g \<in> set (realize_names p1) \<or> g \<in> set (realize_names p2)"
    by (auto dest: collapse_realize_namesD)
  then show ?case using IfThenElse.IH(1) [OF g1] IfThenElse.IH(2) [OF g2] by auto
next
  case (LetStmt x v b)
  from consumer_inv(4) [OF LetStmt.prems(1)] obtain p1 where
    g1: "generate_consumer_body f b sem = Inr (p1, sem')" and p: "p = collapse_let x v p1" by blast
  from LetStmt.prems(2) p have "g \<in> set (realize_names p1) \<or> g \<in> set (realize_names (LetStmt x v b))"
    by (auto dest: collapse_realize_namesD)
  then show ?case using LetStmt.IH [OF g1] by auto
next
  case (For x mn ex ft d b)
  from consumer_inv(5) [OF For.prems(1)] obtain p1 where
    g1: "generate_consumer_body f b sem = Inr (p1, sem')" and p: "p = collapse_for x mn ex ft d p1" by blast
  from For.prems(2) p have "g \<in> set (realize_names p1) \<or> g \<in> set (realize_names (For x mn ex ft d b))"
    by (auto dest: collapse_realize_namesD)
  then show ?case using For.IH [OF g1] by auto
next
  case (Realize x ts bs c b)
  from consumer_inv(6) [OF Realize.prems(1)] obtain p1 where
    g1: "generate_consumer_body f b sem = Inr (p1, sem')" and p: "p = collapse_realize x ts bs c p1" by blast
  from Realize.prems(2) p have "g \<in> set (realize_names p1) \<or> g \<in> set (realize_names (Realize x ts bs c b))"
    by (auto dest: collapse_realize_namesD)
  then show ?case using Realize.IH [OF g1] by auto
qed auto

section \<open>Folding semaphores under nested async stages\<close>

lemma add_releases_folding_outside:
  "folding_acquires_outside_consume f (add_releases sem b) = folding_acquires_outside_consume f b"
proof (induction sem arbitrary: b rule: rev_induct)
  case Nil
  show ?case by (simp add: add_releases_Nil)
next
  case (snoc x xs)
  then show ?case by (simp add: add_releases_snoc)
qed

lemma semaphore_names_not_folding_other:
  assumes "\<not> starts_with (g @ ''.semaphore_'') (folding_prefix f)"
  shows "\<forall>e\<in>set (map (Variable t) (semaphore_names g k)). \<not> is_folding f e"
proof -
  have "\<not> starts_with (g @ ''.semaphore_'' @ string_of_nat i) (folding_prefix f)" for i
  proof
    let ?P = "folding_prefix f" and ?d = "string_of_nat i" and ?n = "g @ ''.semaphore_''"
    assume "starts_with (g @ ''.semaphore_'' @ ?d) ?P"
    then obtain r where r: "?n @ ?d = ?P @ r" by (auto simp: starts_with_iff)
    from assms have n: "\<And>t. ?n \<noteq> ?P @ t" by (simp add: starts_with_iff)
    from r obtain us where "(?n = ?P @ us \<and> us @ ?d = r) \<or> (?n @ us = ?P \<and> ?d = us @ r)"
      unfolding append_eq_append_conv2 by blast
    with n have u: "?n @ us = ?P" "?d = us @ r" by auto
    with n [of "[]"] have ne: "us \<noteq> []" by auto
    have "last ?P = CHR ''.''" by (simp add: folding_prefix_def)
    moreover from ne have "last (?n @ us) = last us" by (rule last_appendR)
    with u(1) have "last ?P = last us" by simp
    ultimately have "last us = CHR ''.''" by simp
    with last_in_set [OF ne] have "CHR ''.'' \<in> set us" by simp
    with u(2) have "CHR ''.'' \<in> set ?d" by simp
    with string_of_nat_digits [of i] have "CHR ''.'' \<in> set ''0123456789''" by (rule set_mp)
    then show False by simp
  qed
  then show ?thesis by (auto simp: semaphore_names_def is_folding_def)
qed

lemma not_folding_variable:
  "\<not> is_folding f s \<Longrightarrow> as_variable s = Some name \<Longrightarrow>
   \<not> is_folding f (Variable t (name @ fst (unique_name n)))"
  by (simp add: is_folding_def clone_not_folding)

lemma producer_folding_outside:
  "generate_producer_body g b st = Inr (p, st') \<Longrightarrow>
   folding_acquires_outside_consume f b = [] \<Longrightarrow> folding_acquires_outside_consume f p = []"
proof (induction b arbitrary: st p st')
  case (ProducerConsumer x pr b)
  from producer_inv(8) [OF ProducerConsumer.prems(1)] show ?case
  proof (elim disjE conjE exE)
    assume "x = g" "pr" "p = make_produce x (add_releases (sema st) b)"
    with ProducerConsumer.prems(2) show ?thesis
      by (simp add: make_produce_def add_releases_folding_outside)
  next
    fix p1
    assume g1: "generate_producer_body g b st = Inr (p1, st')"
      and p: "p = (if is_no_op p1 \<or> pr then p1 else ProducerConsumer x pr p1)"
    show ?thesis
    proof (cases "x = f \<and> \<not> pr")
      case True
      with p show ?thesis by (auto simp: is_no_op_folding_outside)
    next
      case False
      with ProducerConsumer.prems(2) have "folding_acquires_outside_consume f b = []" by auto
      from ProducerConsumer.IH [OF g1 this] p False show ?thesis by auto
    qed
  qed
next
  case (Acquire s c b)
  from producer_inv(7) [OF Acquire.prems(1)] obtain p1 s1 where
    g1: "generate_producer_body g b st = Inr (p1, s1)" and
    a: "producer_acquire g s c p1 s1 = Inr (p, st')"
    by auto
  from Acquire.prems(2) have nf: "\<not> is_folding f s" and q: "folding_acquires_outside_consume f b = []"
    by (auto split: if_splits)
  from Acquire.IH [OF g1 q] have q1: "folding_acquires_outside_consume f p1 = []" .
  from producer_acquire_inv [OF a] obtain name where n: "as_variable s = Some name" and
    c: "p = p1 \<or> p = Acquire s c p1 \<or>
        p = Acquire (Variable SemaphoreT (name @ fst (unique_name (counter s1)))) c p1"
    by (auto split: if_splits)
  from c q1 nf not_folding_variable [OF nf n] show ?case by auto
next
  case (Block a b)
  from producer_inv(1) [OF Block.prems(1)] obtain p1 s1 p2 where
    g1: "generate_producer_body g a st = Inr (p1, s1)" and
    g2: "generate_producer_body g b s1 = Inr (p2, st')" and
    p: "p = collapse_block p1 p2" by blast
  from Block.prems(2) Block.IH(1) [OF g1] Block.IH(2) [OF g2] p show ?case
    by (simp add: collapse_folding_outside)
next
  case (Fork a b)
  from producer_inv(2) [OF Fork.prems(1)] obtain p1 s1 p2 where
    g1: "generate_producer_body g a st = Inr (p1, s1)" and
    g2: "generate_producer_body g b s1 = Inr (p2, st')" and
    p: "p = collapse_fork p1 p2" by blast
  from Fork.prems(2) Fork.IH(1) [OF g1] Fork.IH(2) [OF g2] p show ?case
    by (simp add: collapse_folding_outside)
next
  case (IfThenElse c a b)
  from producer_inv(3) [OF IfThenElse.prems(1)] obtain p1 s1 p2 where
    g1: "generate_producer_body g a st = Inr (p1, s1)" and
    g2: "generate_producer_body g b s1 = Inr (p2, st')" and
    p: "p = collapse_if c p1 p2" by blast
  from IfThenElse.prems(2) IfThenElse.IH(1) [OF g1] IfThenElse.IH(2) [OF g2] p show ?case
    by (simp add: collapse_folding_outside)
next
  case (LetStmt x v b)
  from producer_inv(4) [OF LetStmt.prems(1)] obtain p1 where
    g1: "generate_producer_body g b st = Inr (p1, st')" and p: "p = collapse_let x v p1" by blast
  from LetStmt.prems(2) LetStmt.IH [OF g1] p show ?case by (simp add: collapse_folding_outside)
next
  case (For x mn ex ft d b)
  from producer_inv(5) [OF For.prems(1)] obtain p1 where
    g1: "generate_producer_body g b st = Inr (p1, st')" and p: "p = collapse_for x mn ex ft d p1"
    by blast
  from For.prems(2) For.IH [OF g1] p show ?case by (simp add: collapse_folding_outside)
next
  case (Realize x ts bs c b)
  from producer_inv(6) [OF Realize.prems(1)] obtain p1 where
    g1: "generate_producer_body g b st = Inr (p1, st')" and p: "p = collapse_realize x ts bs c p1"
    by blast
  from Realize.prems(2) Realize.IH [OF g1] p show ?case by (simp add: collapse_folding_outside)
qed auto

lemma consumer_folding_outside:
  "generate_consumer_body g b sem = Inr (p, sem') \<Longrightarrow> \<forall>e\<in>set sem. \<not> is_folding f e \<Longrightarrow>
   folding_acquires_outside_consume f b = [] \<Longrightarrow> folding_acquires_outside_consume f p = []"
proof (induction b arbitrary: sem p sem')
  case (ProducerConsumer x pr b)
  from consumer_inv(8) [OF ProducerConsumer.prems(1)] show ?case
  proof (elim disjE conjE exE)
    assume "p = Evaluate (IntImm 0)"
    then show ?thesis by simp
  next
    assume "sem \<noteq> []" "p = Acquire (last sem) (IntImm 1) (ProducerConsumer x pr b)"
    with ProducerConsumer.prems(2,3) show ?thesis by auto
  next
    fix p1
    assume g1: "generate_consumer_body g b sem = Inr (p1, sem')" and p: "p = ProducerConsumer x pr p1"
    show ?thesis
    proof (cases "x = f \<and> \<not> pr")
      case True
      with p show ?thesis by auto
    next
      case False
      with ProducerConsumer.prems(3) have "folding_acquires_outside_consume f b = []" by auto
      from ProducerConsumer.IH [OF g1 ProducerConsumer.prems(2) this] p False show ?thesis by auto
    qed
  qed
next
  case (Acquire s c b)
  from consumer_inv(7) [OF Acquire.prems(1)] obtain name p1 where
    g1: "generate_consumer_body g b sem = Inr (p1, sem')" and
    p: "p = (if starts_with name (folding_prefix g) then p1 else Acquire s c p1)"
    by auto
  from Acquire.prems(3) have nf: "\<not> is_folding f s" and q: "folding_acquires_outside_consume f b = []"
    by (auto split: if_splits)
  from Acquire.IH [OF g1 Acquire.prems(2) q] p nf show ?case by auto
next
  case (Block a b)
  from consumer_inv(1) [OF Block.prems(1)] obtain p1 s1 p2 where
    g1: "generate_consumer_body g a sem = Inr (p1, s1)" and
    g2: "generate_consumer_body g b s1 = Inr (p2, sem')" and
    p: "p = collapse_block p1 p2" by blast
  from consumer_stack_subset [OF g1] Block.prems(2) have s1: "\<forall>e\<in>set s1. \<not> is_folding f e" by auto
  from Block.prems(3) Block.IH(1) [OF g1 Block.prems(2)] Block.IH(2) [OF g2 s1] p show ?case
    by (simp add: collapse_folding_outside)
next
  case (Fork a b)
  from consumer_inv(2) [OF Fork.prems(1)] obtain p1 s1 p2 where
    g1: "generate_consumer_body g a sem = Inr (p1, s1)" and
    g2: "generate_consumer_body g b s1 = Inr (p2, sem')" and
    p: "p = collapse_fork p1 p2" by blast
  from consumer_stack_subset [OF g1] Fork.prems(2) have s1: "\<forall>e\<in>set s1. \<not> is_folding f e" by auto
  from Fork.prems(3) Fork.IH(1) [OF g1 Fork.prems(2)] Fork.IH(2) [OF g2 s1] p show ?case
    by (simp add: collapse_folding_outside)
next
  case (IfThenElse c a b)
  from consumer_inv(3) [OF IfThenElse.prems(1)] obtain p1 s1 p2 where
    g1: "generate_consumer_body g a sem = Inr (p1, s1)" and
    g2: "generate_consumer_body g b s1 = Inr (p2, sem')" and
    p: "p = collapse_if c p1 p2" by blast
  from consumer_stack_subset [OF g1] IfThenElse.prems(2) have s1: "\<forall>e\<in>set s1. \<not> is_folding f e"
    by auto
  from IfThenElse.prems(3) IfThenElse.IH(1) [OF g1 IfThenElse.prems(2)] IfThenElse.IH(2) [OF g2 s1] p
  show ?case by (simp add: collapse_folding_outside)
next
  case (LetStmt x v b)
  from consumer_inv(4) [OF LetStmt.prems(1)] obtain p1 where
    g1: "generate_consumer_body g b sem = Inr (p1, sem')" and p: "p = collapse_let x v p1" by blast
  from LetStmt.prems(3) LetStmt.IH [OF g1 LetStmt.prems(2)] p show ?case
    by (simp add: collapse_folding_outside)
next
  case (For x mn ex ft d b)
  from consumer_inv(5) [OF For.prems(1)] obtain p1 where
    g1: "generate_consumer_body g b sem = Inr (p1, sem')" and p: "p = collapse_for x mn ex ft d p1"
    by blast
  from For.prems(3) For.IH [OF g1 For.prems(2)] p show ?case by (simp add: collapse_folding_outside)
next
  case (Realize x ts bs c b)
  from consumer_inv(6) [OF Realize.prems(1)] obtain p1 where
    g1: "generate_consumer_body g b sem = Inr (p1, sem')" and p: "p = collapse_realize x ts bs c p1"
    by blast
  from Realize.prems(3) Realize.IH [OF g1 Realize.prems(2)] p show ?case
    by (simp add: collapse_folding_outside)
qed auto

lemma fold_bind_semaphore_folding:
  "folding_acquires f (fold (bind_semaphore cl) names body) = folding_acquires f body"
  "folding_acquires_outside_consume f (fold (bind_semaphore cl) names body) =
     folding_acquires_outside_consume f body"
  by (induction names arbitrary: body)
     (auto simp: bind_semaphore_def clone_acquire_folding clone_acquire_folding_outside
        split: option.splits)

lemma semaphores_not_folding_simps:
  "semaphores_not_folding env f (Realize x ts bs c b) =
     ((env x = Some True \<longrightarrow> \<not> starts_with (x @ ''.semaphore_'') (folding_prefix f)) \<and>
      semaphores_not_folding env f b)"
  "semaphores_not_folding env f (LetStmt x v b) = semaphores_not_folding env f b"
  "semaphores_not_folding env f (Block a b) =
     (semaphores_not_folding env f a \<and> semaphores_not_folding env f b)"
  "semaphores_not_folding env f (For x mn ex ft d b) = semaphores_not_folding env f b"
  "semaphores_not_folding env f (ProducerConsumer x p b) = semaphores_not_folding env f b"
  "semaphores_not_folding env f (Fork a b) =
     (semaphores_not_folding env f a \<and> semaphores_not_folding env f b)"
  "semaphores_not_folding env f (Acquire s c b) = semaphores_not_folding env f b"
  "semaphores_not_folding env f (IfThenElse c a b) =
     (semaphores_not_folding env f a \<and> semaphores_not_folding env f b)"
  by (simp_all add: semaphores_not_folding_def)

lemma not_folding_of_nested_simps:
  "not_folding_of_nested env e (Realize x ts bs c b) =
     ((env x = Some True \<longrightarrow> \<not> is_folding x e) \<and> not_folding_of_nested env e b)"
  "not_folding_of_nested env e (LetStmt x v b) = not_folding_of_nested env e b"
  "not_folding_of_nested env e (Block a b) =
     (not_folding_of_nested env e a \<and> not_folding_of_nested env e b)"
  "not_folding_of_nested env e (For x mn ex ft d b) = not_folding_of_nested env e b"
  "not_folding_of_nested env e (ProducerConsumer x p b) = not_folding_of_nested env e b"
  "not_folding_of_nested env e (Fork a b) =
     (not_folding_of_nested env e a \<and> not_folding_of_nested env e b)"
  "not_folding_of_nested env e (Acquire s c b) = not_folding_of_nested env e b"
  "not_folding_of_nested env e (IfThenElse c a b) =
     (not_folding_of_nested env e a \<and> not_folding_of_nested env e b)"
  by (simp_all add: not_folding_of_nested_def)

lemma semaphores_not_folding_halves:
  "generate_producer_body g b st = Inr (p, st') \<Longrightarrow> semaphores_not_folding env f b \<Longrightarrow>
   semaphores_not_folding env f p"
  "generate_consumer_body g b sem = Inr (q, sem') \<Longrightarrow> semaphores_not_folding env f b \<Longrightarrow>
   semaphores_not_folding env f q"
  unfolding semaphores_not_folding_def list_all_iff
  by (blast dest: producer_realize_names consumer_realize_names)+

lemma not_folding_of_nested_halves:
  "generate_producer_body g b st = Inr (p, st') \<Longrightarrow> not_folding_of_nested env e b \<Longrightarrow>
   not_folding_of_nested env e p"
  "generate_consumer_body g b sem = Inr (q, sem') \<Longrightarrow> not_folding_of_nested env e b \<Longrightarrow>
   not_folding_of_nested env e q"
  unfolding not_folding_of_nested_def list_all_iff
  by (blast dest: producer_realize_names consumer_realize_names)+

lemma mutate_folding_outside:
  "fork_async_mutate env s st = Inr (r, st') \<Longrightarrow> folding_acquires_outside_consume f s = [] \<Longrightarrow>
   semaphores_not_folding env f s \<Longrightarrow> folding_acquires_outside_consume f r = []"
proof (induction env s st arbitrary: r st' rule: fork_async_mutate.induct)
  case (1 env x ts bs c b st)
  from "1.prems"(2) have qb: "folding_acquires_outside_consume f b = []" by simp
  from "1.prems"(3) have hb: "semaphores_not_folding env f b"
    and hx: "env x = Some True \<longrightarrow> \<not> starts_with (x @ ''.semaphore_'') (folding_prefix f)"
    by (simp_all add: semaphores_not_folding_simps)
  from fork_async_Realize_inv [OF "1.prems"(1)] show ?case
  proof (elim disjE conjE exE)
    fix body
    assume "env x = Some False" "fork_async_mutate env b st = Inr (body, st')"
      "r = Realize x ts bs c body"
    with "1.IH"(3) qb hb show ?thesis by auto
  next
    fix producer pst consumer sem' producer' st1 consumer'
    let ?names = "semaphore_names x (count_consume_nodes x b)"
    assume e: "env x = Some True"
      and p: "generate_producer_body x b
                \<lparr>sema = map (Variable HandleT) ?names,
                 cloned_acquires = fst st, counter = snd st\<rparr> = Inr (producer, pst)"
      and c: "generate_consumer_body x b (map (Variable HandleT) ?names) = Inr (consumer, sem')"
      and fp: "fork_async_mutate env producer (cloned_acquires pst, counter pst) = Inr (producer', st1)"
      and fc: "fork_async_mutate env consumer st1 = Inr (consumer', st')"
      and r: "r = Realize x ts bs c (fold (bind_semaphore (fst st')) ?names (Fork producer' consumer'))"
    from e hx have "\<not> starts_with (x @ ''.semaphore_'') (folding_prefix f)" by simp
    from semaphore_names_not_folding_other [OF this]
    have nf: "\<forall>e\<in>set (map (Variable HandleT) ?names). \<not> is_folding f e" .
    have qp: "folding_acquires_outside_consume f producer = []"
      by (rule producer_folding_outside [OF p qb])
    have qc: "folding_acquires_outside_consume f consumer = []"
      by (rule consumer_folding_outside [OF c nf qb])
    from "1.IH"(1) [OF e _ refl refl p refl c refl fp qp semaphores_not_folding_halves(1) [OF p hb]]
    have p': "folding_acquires_outside_consume f producer' = []" by simp
    from "1.IH"(2) [OF e _ refl refl p refl c refl fp refl fc qc semaphores_not_folding_halves(2) [OF c hb]]
    have c': "folding_acquires_outside_consume f consumer' = []" by simp
    from p' c' r show ?thesis by (simp add: fold_bind_semaphore_folding)
  qed
next
  case (2 env x v b st)
  from fork_async_inv(4) [OF "2.prems"(1)] "2.IH" "2.prems"(2,3) show ?case
    by (cases st') (auto simp: semaphores_not_folding_simps)
next
  case (3 env a b st)
  from fork_async_inv(1) [OF "3.prems"(1)] obtain r1 s1 r2 where
    m1: "fork_async_mutate env a st = Inr (r1, s1)" and
    m2: "fork_async_mutate env b s1 = Inr (r2, st')" and r: "r = Block r1 r2" by blast
  from "3.IH"(1) [OF m1] "3.IH"(2) [OF m1 refl m2] "3.prems"(2,3) r show ?case
    by (simp add: semaphores_not_folding_simps)
next
  case (4 env x mn ex ft d b st)
  from fork_async_inv(5) [OF "4.prems"(1)] "4.IH" "4.prems"(2,3) show ?case
    by (cases st') (auto simp: semaphores_not_folding_simps)
next
  case (5 env x p b st)
  from fork_async_inv(6) [OF "5.prems"(1)] "5.IH" "5.prems"(2,3) show ?case
    by (cases st') (auto simp: semaphores_not_folding_simps split: if_splits)
next
  case (6 env a b st)
  from fork_async_inv(2) [OF "6.prems"(1)] obtain r1 s1 r2 where
    m1: "fork_async_mutate env a st = Inr (r1, s1)" and
    m2: "fork_async_mutate env b s1 = Inr (r2, st')" and r: "r = Fork r1 r2" by blast
  from "6.IH"(1) [OF m1] "6.IH"(2) [OF m1 refl m2] "6.prems"(2,3) r show ?case
    by (simp add: semaphores_not_folding_simps)
next
  case (7 env s c b st)
  from fork_async_inv(7) [OF "7.prems"(1)] "7.IH" "7.prems"(2,3) show ?case
    by (cases st') (auto simp: semaphores_not_folding_simps split: if_splits)
next
  case (8 env c a b st)
  from fork_async_inv(3) [OF "8.prems"(1)] obtain r1 s1 r2 where
    m1: "fork_async_mutate env a st = Inr (r1, s1)" and
    m2: "fork_async_mutate env b s1 = Inr (r2, st')" and r: "r = IfThenElse c r1 r2" by blast
  from "8.IH"(1) [OF m1] "8.IH"(2) [OF m1 refl m2] "8.prems"(2,3) r show ?case
    by (simp add: semaphores_not_folding_simps)
qed (auto simp: fork_async_mutate.simps)

lemma collapse_folding_member:
  "a \<in> set (folding_acquires f (collapse_block p q)) =
     (a \<in> set (folding_acquires f p) \<or> a \<in> set (folding_acquires f q))"
  "a \<in> set (folding_acquires f (collapse_fork p q)) =
     (a \<in> set (folding_acquires f p) \<or> a \<in> set (folding_acquires f q))"
  "a \<in> set (folding_acquires f (collapse_if c p q)) =
     (a \<in> set (folding_acquires f p) \<or> a \<in> set (folding_acquires f q))"
  by (simp_all add: collapse_folding)

lemma halves_folding_member:
  "generate_producer_body g b st = Inr (p, st') \<Longrightarrow>
   generate_consumer_body g b sem = Inr (q, sem') \<Longrightarrow>
   a \<in> set (folding_acquires f b) \<Longrightarrow> \<not> is_folding g (fst a) \<Longrightarrow>
   a \<in> set (folding_acquires f p) \<or> a \<in> set (folding_acquires f q)"
proof (induction b arbitrary: st p st' sem q sem')
  case (ProducerConsumer x pr b)
  from ProducerConsumer.prems(3) have ab: "a \<in> set (folding_acquires f b)" by simp
  from producer_inv(8) [OF ProducerConsumer.prems(1)] show ?case
  proof (elim disjE conjE exE)
    assume "p = make_produce x (add_releases (sema st) b)"
    with ab show ?thesis by (simp add: make_produce_def add_releases_folding)
  next
    fix p1
    assume n: "\<not> (x = g \<and> pr)"
      and g1: "generate_producer_body g b st = Inr (p1, st')"
      and p: "p = (if is_no_op p1 \<or> pr then p1 else ProducerConsumer x pr p1)"
    from p have fp: "folding_acquires f p = folding_acquires f p1" by auto
    from consumer_inv(8) [OF ProducerConsumer.prems(2)] n show ?thesis
    proof (elim disjE conjE exE)
      assume "q = Acquire (last sem) (IntImm 1) (ProducerConsumer x pr b)"
      with ab show ?thesis by simp
    next
      fix q1
      assume "generate_consumer_body g b sem = Inr (q1, sem')" "q = ProducerConsumer x pr q1"
      with ProducerConsumer.IH [OF g1 _ ab ProducerConsumer.prems(4)] fp show ?thesis by auto
    qed auto
  qed
next
  case (Acquire s c b)
  from producer_inv(7) [OF Acquire.prems(1)] obtain p1 s1 where
    g1: "generate_producer_body g b st = Inr (p1, s1)" and
    pa: "producer_acquire g s c p1 s1 = Inr (p, st')"
    by auto
  from consumer_inv(7) [OF Acquire.prems(2)] obtain name q1 where
    n: "as_variable s = Some name" and
    c1: "generate_consumer_body g b sem = Inr (q1, sem')" and
    q: "q = (if starts_with name (folding_prefix g) then q1 else Acquire s c q1)"
    by auto
  from producer_acquire_inv [OF pa] have
    pp: "set (folding_acquires f p1) \<subseteq> set (folding_acquires f p)"
    by (auto split: if_splits)
  from q have qq: "set (folding_acquires f q1) \<subseteq> set (folding_acquires f q)"
    by (auto split: if_splits)
  show ?case
  proof (cases "a \<in> set (folding_acquires f b)")
    case True
    from Acquire.IH [OF g1 c1 True Acquire.prems(4)] pp qq show ?thesis by auto
  next
    case False
    with Acquire.prems(3) have a: "a = (s, c)" "is_folding f s" by (auto split: if_splits)
    with Acquire.prems(4) n have "\<not> starts_with name (folding_prefix g)"
      by (simp add: is_folding_def)
    with q a show ?thesis by simp
  qed
next
  case (Block b1 b2)
  from producer_inv(1) [OF Block.prems(1)] obtain p1 s1 p2 where
    g1: "generate_producer_body g b1 st = Inr (p1, s1)" and
    g2: "generate_producer_body g b2 s1 = Inr (p2, st')" and
    p: "p = collapse_block p1 p2" by blast
  from consumer_inv(1) [OF Block.prems(2)] obtain q1 t1 q2 where
    c1: "generate_consumer_body g b1 sem = Inr (q1, t1)" and
    c2: "generate_consumer_body g b2 t1 = Inr (q2, sem')" and
    q: "q = collapse_block q1 q2" by blast
  from Block.prems(3) Block.IH(1) [OF g1 c1 _ Block.prems(4)] Block.IH(2) [OF g2 c2 _ Block.prems(4)]
  show ?case unfolding p q collapse_folding_member by auto
next
  case (Fork b1 b2)
  from producer_inv(2) [OF Fork.prems(1)] obtain p1 s1 p2 where
    g1: "generate_producer_body g b1 st = Inr (p1, s1)" and
    g2: "generate_producer_body g b2 s1 = Inr (p2, st')" and
    p: "p = collapse_fork p1 p2" by blast
  from consumer_inv(2) [OF Fork.prems(2)] obtain q1 t1 q2 where
    c1: "generate_consumer_body g b1 sem = Inr (q1, t1)" and
    c2: "generate_consumer_body g b2 t1 = Inr (q2, sem')" and
    q: "q = collapse_fork q1 q2" by blast
  from Fork.prems(3) Fork.IH(1) [OF g1 c1 _ Fork.prems(4)] Fork.IH(2) [OF g2 c2 _ Fork.prems(4)]
  show ?case unfolding p q collapse_folding_member by auto
next
  case (IfThenElse c b1 b2)
  from producer_inv(3) [OF IfThenElse.prems(1)] obtain p1 s1 p2 where
    g1: "generate_producer_body g b1 st = Inr (p1, s1)" and
    g2: "generate_producer_body g b2 s1 = Inr (p2, st')" and
    p: "p = collapse_if c p1 p2" by blast
  from consumer_inv(3) [OF IfThenElse.prems(2)] obtain q1 t1 q2 where
    c1: "generate_consumer_body g b1 sem = Inr (q1, t1)" and
    c2: "generate_consumer_body g b2 t1 = Inr (q2, sem')" and
    q: "q = collapse_if c q1 q2" by blast
  from IfThenElse.prems(3) IfThenElse.IH(1) [OF g1 c1 _ IfThenElse.prems(4)]
    IfThenElse.IH(2) [OF g2 c2 _ IfThenElse.prems(4)]
  show ?case unfolding p q collapse_folding_member by auto
next
  case (LetStmt x v b)
  from producer_inv(4) [OF LetStmt.prems(1)] obtain p1 where
    g1: "generate_producer_body g b st = Inr (p1, st')" and p: "p = collapse_let x v p1" by blast
  from consumer_inv(4) [OF LetStmt.prems(2)] obtain q1 where
    c1: "generate_consumer_body g b sem = Inr (q1, sem')" and q: "q = collapse_let x v q1" by blast
  from LetStmt.prems(3) LetStmt.IH [OF g1 c1 _ LetStmt.prems(4)]
  show ?case unfolding p q collapse_folding by auto
next
  case (For x mn ex ft d b)
  from producer_inv(5) [OF For.prems(1)] obtain p1 where
    g1: "generate_producer_body g b st = Inr (p1, st')" and p: "p = collapse_for x mn ex ft d p1"
    by blast
  from consumer_inv(5) [OF For.prems(2)] obtain q1 where
    c1: "generate_consumer_body g b sem = Inr (q1, sem')" and q: "q = collapse_for x mn ex ft d q1"
    by blast
  from For.prems(3) For.IH [OF g1 c1 _ For.prems(4)]
  show ?case unfolding p q collapse_folding by auto
next
  case (Realize x ts bs c b)
  from producer_inv(6) [OF Realize.prems(1)] obtain p1 where
    g1: "generate_producer_body g b st = Inr (p1, st')" and p: "p = collapse_realize x ts bs c p1"
    by blast
  from consumer_inv(6) [OF Realize.prems(2)] obtain q1 where
    c1: "generate_consumer_body g b sem = Inr (q1, sem')" and q: "q = collapse_realize x ts bs c q1"
    by blast
  from Realize.prems(3) Realize.IH [OF g1 c1 _ Realize.prems(4)]
  show ?case unfolding p q collapse_folding by auto
qed auto

lemma mutate_folding_member:
  "fork_async_mutate env s st = Inr (r, st') \<Longrightarrow> a \<in> set (folding_acquires f s) \<Longrightarrow>
   not_folding_of_nested env (fst a) s \<Longrightarrow> a \<in> set (folding_acquires f r)"
proof (induction env s st arbitrary: r st' rule: fork_async_mutate.induct)
  case (1 env x ts bs c b st)
  from "1.prems"(2) have ab: "a \<in> set (folding_acquires f b)" by simp
  from "1.prems"(3) have hb: "not_folding_of_nested env (fst a) b"
    and hx: "env x = Some True \<longrightarrow> \<not> is_folding x (fst a)"
    by (simp_all add: not_folding_of_nested_simps)
  from fork_async_Realize_inv [OF "1.prems"(1)] show ?case
  proof (elim disjE conjE exE)
    fix body
    assume "env x = Some False" "fork_async_mutate env b st = Inr (body, st')"
      "r = Realize x ts bs c body"
    with "1.IH"(3) ab hb show ?thesis by auto
  next
    fix producer pst consumer sem' producer' st1 consumer'
    let ?names = "semaphore_names x (count_consume_nodes x b)"
    assume e: "env x = Some True"
      and p: "generate_producer_body x b
                \<lparr>sema = map (Variable HandleT) ?names,
                 cloned_acquires = fst st, counter = snd st\<rparr> = Inr (producer, pst)"
      and c: "generate_consumer_body x b (map (Variable HandleT) ?names) = Inr (consumer, sem')"
      and fp: "fork_async_mutate env producer (cloned_acquires pst, counter pst) = Inr (producer', st1)"
      and fc: "fork_async_mutate env consumer st1 = Inr (consumer', st')"
      and r: "r = Realize x ts bs c (fold (bind_semaphore (fst st')) ?names (Fork producer' consumer'))"
    from e hx have nx: "\<not> is_folding x (fst a)" by simp
    from halves_folding_member [OF p c ab nx]
    have "a \<in> set (folding_acquires f producer') \<or> a \<in> set (folding_acquires f consumer')"
    proof
      assume "a \<in> set (folding_acquires f producer)"
      from "1.IH"(1) [OF e _ refl refl p refl c refl fp this not_folding_of_nested_halves(1) [OF p hb]]
      show ?thesis by simp
    next
      assume "a \<in> set (folding_acquires f consumer)"
      from "1.IH"(2) [OF e _ refl refl p refl c refl fp refl fc this
          not_folding_of_nested_halves(2) [OF c hb]]
      show ?thesis by simp
    qed
    with r show ?thesis by (auto simp: fold_bind_semaphore_folding)
  qed
next
  case (2 env x v b st)
  from fork_async_inv(4) [OF "2.prems"(1)] "2.IH" "2.prems"(2,3) show ?case
    by (cases st') (auto simp: not_folding_of_nested_simps)
next
  case (3 env b1 b2 st)
  from fork_async_inv(1) [OF "3.prems"(1)] obtain r1 s1 r2 where
    m1: "fork_async_mutate env b1 st = Inr (r1, s1)" and
    m2: "fork_async_mutate env b2 s1 = Inr (r2, st')" and r: "r = Block r1 r2" by blast
  from "3.IH"(1) [OF m1] "3.IH"(2) [OF m1 refl m2] "3.prems"(2,3) r show ?case
    by (auto simp: not_folding_of_nested_simps)
next
  case (4 env x mn ex ft d b st)
  from fork_async_inv(5) [OF "4.prems"(1)] "4.IH" "4.prems"(2,3) show ?case
    by (cases st') (auto simp: not_folding_of_nested_simps)
next
  case (5 env x p b st)
  from fork_async_inv(6) [OF "5.prems"(1)] "5.IH" "5.prems"(2,3) show ?case
    by (cases st') (auto simp: not_folding_of_nested_simps)
next
  case (6 env b1 b2 st)
  from fork_async_inv(2) [OF "6.prems"(1)] obtain r1 s1 r2 where
    m1: "fork_async_mutate env b1 st = Inr (r1, s1)" and
    m2: "fork_async_mutate env b2 s1 = Inr (r2, st')" and r: "r = Fork r1 r2" by blast
  from "6.IH"(1) [OF m1] "6.IH"(2) [OF m1 refl m2] "6.prems"(2,3) r show ?case
    by (auto simp: not_folding_of_nested_simps)
next
  case (7 env s c b st)
  from fork_async_inv(7) [OF "7.prems"(1)] "7.IH" "7.prems"(2,3) show ?case
    by (cases st') (auto simp: not_folding_of_nested_simps split: if_splits)
next
  case (8 env c b1 b2 st)
  from fork_async_inv(3) [OF "8.prems"(1)] obtain r1 s1 r2 where
    m1: "fork_async_mutate env b1 st = Inr (r1, s1)" and
    m2: "fork_async_mutate env b2 s1 = Inr (r2, st')" and r: "r = IfThenElse c r1 r2" by blast
  from "8.IH"(1) [OF m1] "8.IH"(2) [OF m1 refl m2] "8.prems"(2,3) r show ?case
    by (auto simp: not_folding_of_nested_simps)
qed (auto simp: fork_async_mutate.simps)

section \<open>The claims\<close>

subsection \<open>C3: which markers TightenConsumeNodes narrows\<close>




subsection \<open>C4: lowering a semaphore binding\<close>

text \<open>
  C4: the code does not return when the value of the binding is wrapped in an
  expression-level \<open>Let\<close>: the loop that wraps the peeled lets again never shortens the
  vector it tests. Here \<open>LetStmt s = (let t = 1 in halide_make_semaphore(t))\<close> over a
  no-op.
\<close>

theorem initialize_semaphores_wrapped_let_diverges:
  "initialize_semaphores
     (LetStmt ''s''
        (Let ''t'' (IntImm 1)
           (Call SemaphoreT ''halide_make_semaphore'' [Variable Int32 ''t''] Extern))
        (Evaluate (IntImm 0))) = None"
  by (simp add: bind_outcome_def init_exprs_def init_let_stmt_def rewrap_lets_diverges)

subsection \<open>C7: hoisting a binding shared by the two children of a fork\<close>

text \<open>
  C7, as stated, fails for statements \<open>P\<close> and \<open>Q\<close> that do not reference \<open>a\<close>: inside a
  fork the two dead bindings are dropped before the fork is rebuilt.
\<close>

theorem tighten_fork_drops_dead_bindings:
  "tighten_fork False
     (Fork (LetStmt ''a'' (IntImm 7) (Provide ''f'' [IntImm 1] [IntImm 0]))
           (LetStmt ''a'' (IntImm 7) (Provide ''g'' [IntImm 2] [IntImm 0])))
   \<noteq> LetStmt ''a'' (IntImm 7)
        (Fork (Provide ''f'' [IntImm 1] [IntImm 0]) (Provide ''g'' [IntImm 2] [IntImm 0]))"
  by (simp add: stmt_uses_var_def make_fork.simps)

text \<open>
  C7, amended: let \<open>P'\<close> and \<open>Q'\<close> be the rewritten \<open>P\<close> and \<open>Q\<close>. TightenForkNodes
  rewrites \<open>Fork(LetStmt(a, v1, P), LetStmt(a, v2, Q))\<close> as follows. When \<open>P'\<close> and \<open>Q'\<close>
  both reference \<open>a\<close>: to \<open>LetStmt(a, v1, make_fork(P', Q'))\<close> when \<open>v1 = v2\<close>, and to
  \<open>Fork(LetStmt(a, v1, P'), LetStmt(a, v2, Q'))\<close>, nothing hoisted, when the values differ.
  When only one of them references \<open>a\<close>, the other binding is dropped and the binding that
  is left is hoisted above the fork whatever the two values are (it stays around its body
  alone when the other child is a no-op; for the second child it is hoisted when \<open>P'\<close> is
  not itself a \<open>LetStmt\<close>). When neither references \<open>a\<close>, both bindings are dropped and
  the result is that of \<open>Fork(P, Q)\<close>. \<open>make_fork(P', Q')\<close> is \<open>Fork(P', Q')\<close> when neither
  child is a \<open>LetStmt\<close> or a \<open>Realize\<close>.
\<close>

theorem tighten_fork_hoists_equal_binding:
  "tighten_fork in_fork (Fork (LetStmt a v1 P) (LetStmt a v2 Q)) =
     (if stmt_uses_var (tighten_fork True P) a \<and> stmt_uses_var (tighten_fork True Q) a
      then if v1 = v2
           then LetStmt a v1 (make_fork (tighten_fork True P) (tighten_fork True Q))
           else Fork (LetStmt a v1 (tighten_fork True P)) (LetStmt a v2 (tighten_fork True Q))
      else if stmt_uses_var (tighten_fork True P) a
      then if is_no_op (tighten_fork True Q) then LetStmt a v1 (tighten_fork True P)
           else LetStmt a v1 (make_fork (tighten_fork True P) (tighten_fork True Q))
      else if stmt_uses_var (tighten_fork True Q) a
      then if is_no_op (tighten_fork True P) then LetStmt a v2 (tighten_fork True Q)
           else make_fork (tighten_fork True P) (LetStmt a v2 (tighten_fork True Q))
      else tighten_fork in_fork (Fork P Q))
   \<and> (\<not> stmt_uses_var (tighten_fork True P) a \<and> stmt_uses_var (tighten_fork True Q) a \<and>
      \<not> is_LetStmt (tighten_fork True P) \<longrightarrow>
        make_fork (tighten_fork True P) (LetStmt a v2 (tighten_fork True Q)) =
          LetStmt a v2 (make_fork (tighten_fork True P) (tighten_fork True Q)))
   \<and> (\<not> is_LetStmt (tighten_fork True P) \<and> \<not> is_Realize (tighten_fork True P) \<and>
      \<not> is_LetStmt (tighten_fork True Q) \<and> \<not> is_Realize (tighten_fork True Q) \<longrightarrow>
        make_fork (tighten_fork True P) (tighten_fork True Q) =
          Fork (tighten_fork True P) (tighten_fork True Q))"
proof (intro conjI impI)
  let ?P = "tighten_fork True P" and ?Q = "tighten_fork True Q"
  note tq = tighten_fork_top_let_used [of Q, unfolded top_let_used_def]
  show "tighten_fork in_fork (Fork (LetStmt a v1 P) (LetStmt a v2 Q)) =
     (if stmt_uses_var ?P a \<and> stmt_uses_var ?Q a
      then if v1 = v2 then LetStmt a v1 (make_fork ?P ?Q)
           else Fork (LetStmt a v1 ?P) (LetStmt a v2 ?Q)
      else if stmt_uses_var ?P a
      then if is_no_op ?Q then LetStmt a v1 ?P else LetStmt a v1 (make_fork ?P ?Q)
      else if stmt_uses_var ?Q a
      then if is_no_op ?P then LetStmt a v2 ?Q else make_fork ?P (LetStmt a v2 ?Q)
      else tighten_fork in_fork (Fork P Q))"
  proof (cases "stmt_uses_var ?P a")
    case uP: True
    show ?thesis
    proof (cases "stmt_uses_var ?Q a")
      case uQ: True
      with uP show ?thesis
        by (simp add: Let_def make_fork.simps [of "LetStmt _ _ _" "LetStmt _ _ _"]
            stmt_uses_var_def)
    next
      case nQ: False
      with tq have "\<not> (is_LetStmt ?Q \<and> let_name ?Q = a)" by auto
      with uP nQ show ?thesis
        by (auto simp: Let_def make_fork.simps [of "LetStmt _ _ _" ?Q])
    qed
  next
    case nP: False
    then show ?thesis by (simp add: Let_def)
  qed
next
  assume "\<not> stmt_uses_var (tighten_fork True P) a \<and> stmt_uses_var (tighten_fork True Q) a \<and>
      \<not> is_LetStmt (tighten_fork True P)"
  then show "make_fork (tighten_fork True P) (LetStmt a v2 (tighten_fork True Q)) =
          LetStmt a v2 (make_fork (tighten_fork True P) (tighten_fork True Q))"
    by (subst make_fork.simps) simp
next
  assume "\<not> is_LetStmt (tighten_fork True P) \<and> \<not> is_Realize (tighten_fork True P) \<and>
          \<not> is_LetStmt (tighten_fork True Q) \<and> \<not> is_Realize (tighten_fork True Q)"
  then show "make_fork (tighten_fork True P) (tighten_fork True Q) =
      Fork (tighten_fork True P) (tighten_fork True Q)"
    by (subst make_fork.simps) simp
qed

theorem tighten_fork_hoists_equal_binding_witness:
  "\<not> stmt_uses_var (tighten_fork True (Provide ''g'' [IntImm 2] [IntImm 0])) ''a''
   \<and> stmt_uses_var (tighten_fork True (Evaluate (Variable Int32 ''a''))) ''a''
   \<and> \<not> is_LetStmt (tighten_fork True (Provide ''g'' [IntImm 2] [IntImm 0]))
   \<and> \<not> is_Realize (tighten_fork True (Provide ''g'' [IntImm 2] [IntImm 0]))
   \<and> \<not> is_LetStmt (tighten_fork True (Evaluate (Variable Int32 ''a'')))
   \<and> \<not> is_Realize (tighten_fork True (Evaluate (Variable Int32 ''a'')))
   \<and> tighten_fork False
       (Fork (LetStmt ''a'' (IntImm 7) (Provide ''g'' [IntImm 2] [IntImm 0]))
             (LetStmt ''a'' (IntImm 8) (Evaluate (Variable Int32 ''a''))))
     = LetStmt ''a'' (IntImm 8)
         (Fork (Provide ''g'' [IntImm 2] [IntImm 0]) (Evaluate (Variable Int32 ''a'')))
   \<and> tighten_fork False
       (Fork (LetStmt ''a'' (IntImm 7) (Evaluate (Variable Int32 ''a'')))
             (LetStmt ''a'' (IntImm 7) (Provide ''g'' [Variable Int32 ''a''] [])))
     = LetStmt ''a'' (IntImm 7)
         (Fork (Evaluate (Variable Int32 ''a'')) (Provide ''g'' [Variable Int32 ''a''] []))
   \<and> tighten_fork False
       (Fork (LetStmt ''a'' (IntImm 7) (Evaluate (Variable Int32 ''a'')))
             (LetStmt ''a'' (IntImm 8) (Provide ''g'' [Variable Int32 ''a''] [])))
     = Fork (LetStmt ''a'' (IntImm 7) (Evaluate (Variable Int32 ''a'')))
            (LetStmt ''a'' (IntImm 8) (Provide ''g'' [Variable Int32 ''a''] []))"
proof -
  let ?P = "Provide ''g'' [IntImm 2] [IntImm 0]" and ?Q = "Evaluate (Variable Int32 ''a'')"
  let ?R = "Provide ''g'' [Variable Int32 ''a''] []"
  have h: "\<not> stmt_uses_var (tighten_fork True ?P) ''a''"
    "stmt_uses_var (tighten_fork True ?Q) ''a''"
    "\<not> is_LetStmt (tighten_fork True ?P)" "\<not> is_Realize (tighten_fork True ?P)"
    "\<not> is_LetStmt (tighten_fork True ?Q)" "\<not> is_Realize (tighten_fork True ?Q)"
    "stmt_uses_var (tighten_fork True ?R) ''a''"
    by (simp_all add: stmt_uses_var_def)
  note t1 = tighten_fork_hoists_equal_binding
    [where a = "''a''" and P = ?P and Q = ?Q and ?v1.0 = "IntImm 7" and ?v2.0 = "IntImm 8"
       and in_fork = False]
  note t2 = tighten_fork_hoists_equal_binding
    [where a = "''a''" and P = ?Q and Q = ?R and ?v1.0 = "IntImm 7" and ?v2.0 = "IntImm 7"
       and in_fork = False, THEN conjunct1]
  note t3 = tighten_fork_hoists_equal_binding
    [where a = "''a''" and P = ?Q and Q = ?R and ?v1.0 = "IntImm 7" and ?v2.0 = "IntImm 8"
       and in_fork = False, THEN conjunct1]
  from t1 h have a: "tighten_fork False (Fork (LetStmt ''a'' (IntImm 7) ?P) (LetStmt ''a'' (IntImm 8) ?Q))
      = LetStmt ''a'' (IntImm 8) (Fork ?P ?Q)"
    by simp
  from t2 h have b: "tighten_fork False (Fork (LetStmt ''a'' (IntImm 7) ?Q) (LetStmt ''a'' (IntImm 7) ?R))
      = LetStmt ''a'' (IntImm 7) (Fork ?Q ?R)"
    by (simp add: make_fork.simps)
  from t3 h have c: "tighten_fork False (Fork (LetStmt ''a'' (IntImm 7) ?Q) (LetStmt ''a'' (IntImm 8) ?R))
      = Fork (LetStmt ''a'' (IntImm 7) ?Q) (LetStmt ''a'' (IntImm 8) ?R)"
    by simp
  from a b c h show ?thesis by simp
qed

subsection \<open>C8: hoisting an acquire past a realize and a block\<close>

text \<open>
  C8, as stated, fails when the trailing statement is itself rewritten: here it is a block
  that starts with an acquire, which is hoisted over the rest of that block.
\<close>

theorem expand_acquire_rewrites_trailing:
  "expand_acquire
     (Block (Realize ''g'' [] [] (IntImm 1)
               (Acquire (Variable SemaphoreT ''s'') (IntImm 1) (Evaluate (IntImm 5))))
            (Block (Acquire (Variable SemaphoreT ''t'') (IntImm 1) (Evaluate (IntImm 6)))
                   (Evaluate (IntImm 7))))
   \<noteq> Acquire (Variable SemaphoreT ''s'') (IntImm 1)
       (Block (Realize ''g'' [] [] (IntImm 1) (Evaluate (IntImm 5)))
          (Block (Acquire (Variable SemaphoreT ''t'') (IntImm 1) (Evaluate (IntImm 6)))
                 (Evaluate (IntImm 7))))"
  by simp

text \<open>
  C8, amended: when \<open>body\<close> and \<open>trailing\<close> are left unchanged by ExpandAcquireNodes and
  \<open>body\<close> is not an acquire, \<open>Block(Realize(g, \<dots>, Acquire(s, c, body)), trailing)\<close> becomes
  \<open>Acquire(s, c, Block(Realize(g, \<dots>, body), trailing))\<close>.
\<close>

theorem expand_acquire_hoists_past_realize_and_block:
  assumes "expand_acquire body = body" "as_acquire body = None"
    "expand_acquire trailing = trailing"
  shows "expand_acquire (Block (Realize g ts bs cond (Acquire s c body)) trailing) =
         Acquire s c (Block (Realize g ts bs cond body) trailing)"
  using assms by simp

theorem expand_acquire_hoists_past_realize_and_block_witness:
  "expand_acquire
     (Block (Realize ''g'' [Int32] [(IntImm 0, IntImm 8)] (IntImm 1)
               (Acquire (Variable SemaphoreT ''s'') (IntImm 1)
                  (Provide ''g'' [IntImm 3] [IntImm 0])))
            (Evaluate (Variable Int32 ''g'')))
   = Acquire (Variable SemaphoreT ''s'') (IntImm 1)
       (Block (Realize ''g'' [Int32] [(IntImm 0, IntImm 8)] (IntImm 1)
                 (Provide ''g'' [IntImm 3] [IntImm 0]))
              (Evaluate (Variable Int32 ''g'')))"
proof -
  have b: "expand_acquire (Provide ''g'' [IntImm 3] [IntImm 0]) = Provide ''g'' [IntImm 3] [IntImm 0]"
    by simp
  have n: "as_acquire (Provide ''g'' [IntImm 3] [IntImm 0]) = None" by simp
  have t: "expand_acquire (Evaluate (Variable Int32 ''g'')) = Evaluate (Variable Int32 ''g'')"
    by simp
  show ?thesis
    by (rule expand_acquire_hoists_past_realize_and_block [OF b n t])
qed

subsection \<open>C2: an async stage with a single consume node\<close>

text \<open>
  C2: for the input \<open>Realize f (Block (produce f (Provide f)) (consume f (Evaluate use)))\<close>
  with \<open>f\<close> async, the pass returns the \<open>Realize\<close> of a binding of \<open>f.semaphore_0\<close> to
  the \<open>alloca\<close> call, whose body evaluates \<open>halide_semaphore_init(f.semaphore_0, 0)\<close> and
  then forks the produce node, which evaluates \<open>halide_semaphore_release(f.semaphore_0, 1)\<close>
  after the \<open>Provide\<close>, and \<open>Acquire(f.semaphore_0, 1, consume f (Evaluate use))\<close>. The
  expressions of the input hold no \<open>halide_make_semaphore\<close> call where
  InitializeSemaphores visits them.
\<close>

theorem single_consume_async:
  assumes env: "env ''f'' = Some True"
    and ok: "list_all init_expr_ok (bounds_exprs bs)" "init_expr_ok c"
      "list_all init_expr_ok (args @ vals)" "init_expr_ok use"
  shows "fork_async_producers
           (Realize ''f'' ts bs c
              (Block (ProducerConsumer ''f'' True (Provide ''f'' vals args))
                     (ProducerConsumer ''f'' False (Evaluate use))))
           env n
         = Some (Inr
            (Realize ''f'' ts bs c
              (LetStmt ''f.semaphore_0''
                (Call SemaphoreT ''alloca'' [IntImm sizeof_halide_semaphore_t] Intrinsic)
                (Block
                  (Evaluate
                     (Call Int32 ''halide_semaphore_init''
                        [Variable SemaphoreT ''f.semaphore_0'', IntImm 0] Extern))
                  (Fork
                    (ProducerConsumer ''f'' True
                       (Block (Provide ''f'' vals args)
                              (Evaluate
                                 (Call Int32 ''halide_semaphore_release''
                                    [Variable HandleT ''f.semaphore_0'', IntImm 1] Extern))))
                    (Acquire (Variable HandleT ''f.semaphore_0'') (IntImm 1)
                       (ProducerConsumer ''f'' False (Evaluate use))))))))"
proof -
  let ?body = "Block (ProducerConsumer ''f'' True (Provide ''f'' vals args))
                     (ProducerConsumer ''f'' False (Evaluate use))"
  let ?sv = "Variable HandleT ''f.semaphore_0''"
  let ?rel = "Call Int32 ''halide_semaphore_release'' [?sv, IntImm 1] Extern"
  let ?prod = "ProducerConsumer ''f'' True (Block (Provide ''f'' vals args) (Evaluate ?rel))"
  let ?cons = "Acquire ?sv (IntImm 1) (ProducerConsumer ''f'' False (Evaluate use))"
  let ?mk = "Call SemaphoreT ''halide_make_semaphore'' [IntImm 0] Extern"
  let ?forked = "Realize ''f'' ts bs c (LetStmt ''f.semaphore_0'' ?mk (Fork ?prod ?cons))"
  have t: "tighten_consume (Realize ''f'' ts bs c ?body) = Realize ''f'' ts bs c ?body"
    by simp
  have f: "fork_async_mutate env (Realize ''f'' ts bs c ?body) (Map.empty, n)
      = Inr (?forked, (Map.empty, n))"
    using env
    by (simp add: fork_async_mutate.simps semaphore_names_1 bind_err_def make_produce_def
        bind_semaphore_def collapse_block_def add_releases.simps semaphore_release_def
        sema_space_def)
  have e: "expand_acquire ?forked = ?forked"
    by simp
  have tf: "tighten_fork False ?forked = ?forked"
    by (simp add: make_fork.simps)
  have l: "initialize_semaphores ?forked =
     Some (Inr (Realize ''f'' ts bs c
              (LetStmt ''f.semaphore_0''
                (Call SemaphoreT ''alloca'' [IntImm sizeof_halide_semaphore_t] Intrinsic)
                (Block
                  (Evaluate
                     (Call Int32 ''halide_semaphore_init''
                        [Variable SemaphoreT ''f.semaphore_0'', IntImm 0] Extern))
                  (Fork ?prod ?cons)))))"
    using ok
    by (simp add: bind_outcome_def init_exprs_def init_let_stmt_def rewrap_lets_Nil
        sema_allocate_def sema_init_def)
  show ?thesis
    by (simp only: fork_async_producers_def t f Let_def e tf l sum.case prod.case)
qed

theorem single_consume_async_witness:
  "[''f'' \<mapsto> True] ''f'' = Some True
   \<and> list_all init_expr_ok (bounds_exprs [(IntImm 0, IntImm 8)])
   \<and> init_expr_ok (IntImm 1)
   \<and> list_all init_expr_ok ([Variable Int32 ''x''] @ [IntImm 3])
   \<and> init_expr_ok (Call Int32 ''use'' [Variable HandleT ''f''] Extern)
   \<and> fork_async_producers
       (Realize ''f'' [Int32] [(IntImm 0, IntImm 8)] (IntImm 1)
          (Block (ProducerConsumer ''f'' True (Provide ''f'' [IntImm 3] [Variable Int32 ''x'']))
                 (ProducerConsumer ''f'' False
                    (Evaluate (Call Int32 ''use'' [Variable HandleT ''f''] Extern)))))
       [''f'' \<mapsto> True] 0
     = Some (Inr
        (Realize ''f'' [Int32] [(IntImm 0, IntImm 8)] (IntImm 1)
          (LetStmt ''f.semaphore_0''
            (Call SemaphoreT ''alloca'' [IntImm sizeof_halide_semaphore_t] Intrinsic)
            (Block
              (Evaluate
                 (Call Int32 ''halide_semaphore_init''
                    [Variable SemaphoreT ''f.semaphore_0'', IntImm 0] Extern))
              (Fork
                (ProducerConsumer ''f'' True
                   (Block (Provide ''f'' [IntImm 3] [Variable Int32 ''x''])
                          (Evaluate
                             (Call Int32 ''halide_semaphore_release''
                                [Variable HandleT ''f.semaphore_0'', IntImm 1] Extern))))
                (Acquire (Variable HandleT ''f.semaphore_0'') (IntImm 1)
                   (ProducerConsumer ''f'' False
                      (Evaluate (Call Int32 ''use'' [Variable HandleT ''f''] Extern)))))))))"
proof -
  have env: "[''f'' \<mapsto> True] ''f'' = Some True" by simp
  have bs: "list_all init_expr_ok (bounds_exprs [(IntImm 0, IntImm 8)])"
    by (simp add: bounds_exprs_def)
  have c: "init_expr_ok (IntImm 1)" by simp
  have av: "list_all init_expr_ok ([Variable Int32 ''x''] @ [IntImm 3])" by simp
  have u: "init_expr_ok (Call Int32 ''use'' [Variable HandleT ''f''] Extern)" by simp
  show ?thesis
    using single_consume_async
      [where env = "[''f'' \<mapsto> True]" and bs = "[(IntImm 0, IntImm 8)]" and c = "IntImm 1"
         and args = "[Variable Int32 ''x'']" and vals = "[IntImm 3]"
         and use = "Call Int32 ''use'' [Variable HandleT ''f''] Extern"
         and ts = "[Int32]" and n = 0, OF env bs c av u]
      env bs c av u
    by (simp only: simp_thms)
qed

subsection \<open>C10: an async stage without a consume node\<close>




subsection \<open>C6: a tree without async stages\<close>

text \<open>
  C6, as stated, fails: ExpandAcquireNodes rewrites an acquire that the input already
  holds, whether or not a stage is async. Here no stage is async, TightenConsumeNodes
  leaves the input as it is, and the pass returns the acquire hoisted over the block.
\<close>

theorem no_async_pass_hoists_acquire:
  "fork_async_producers
     (Block (Acquire (Variable SemaphoreT ''s'') (IntImm 1) (Evaluate (IntImm 5)))
            (Evaluate (IntImm 7))) Map.empty 0
   = Some (Inr (Acquire (Variable SemaphoreT ''s'') (IntImm 1)
                  (Block (Evaluate (IntImm 5)) (Evaluate (IntImm 7)))))
   \<and> tighten_consume
        (Block (Acquire (Variable SemaphoreT ''s'') (IntImm 1) (Evaluate (IntImm 5)))
               (Evaluate (IntImm 7)))
     = Block (Acquire (Variable SemaphoreT ''s'') (IntImm 1) (Evaluate (IntImm 5)))
             (Evaluate (IntImm 7))"
  by (simp add: fork_async_producers_def fork_async_mutate.simps bind_err_def bind_outcome_def
      init_exprs_def)

text \<open>
  C6, amended: for an input tree in which every \<open>Realize\<close> names a stage of \<open>env\<close> that
  is not async, and which holds no \<open>Acquire\<close> node, no \<open>Fork\<close> node and no
  \<open>halide_make_semaphore\<close> call, the pass returns the result of TightenConsumeNodes: the
  four later stages leave that tree unchanged.
\<close>

theorem no_async_pass_is_tighten_consume:
  assumes "realizes_not_async env s" "no_acquire_no_fork s" "\<not> stmt_has_make_semaphore s"
  shows "fork_async_producers s env n = Some (Inr (tighten_consume s))"
proof -
  let ?t = "tighten_consume s"
  from assms(1) have "fork_async_mutate env ?t (Map.empty, n) = Inr (?t, (Map.empty, n))"
    by (simp add: fork_async_not_async tighten_consume_not_async)
  moreover from assms(2) have "expand_acquire ?t = ?t" "tighten_fork False ?t = ?t"
    by (simp_all add: expand_acquire_no_acquire tighten_fork_no_fork tighten_consume_no_acquire)
  moreover from assms(3) have "initialize_semaphores ?t = Some (Inr ?t)"
    by (simp add: initialize_semaphores_clean tighten_consume_sems stmt_has_make_semaphore_def)
  ultimately show ?thesis
    by (simp add: fork_async_producers_def)
qed

theorem no_async_pass_is_tighten_consume_witness:
  "realizes_not_async [''f'' \<mapsto> False]
     (Realize ''f'' [Int32] [(IntImm 0, IntImm 8)] (IntImm 1)
        (Block (ProducerConsumer ''f'' True (Provide ''f'' [IntImm 3] [IntImm 0]))
               (ProducerConsumer ''f'' False
                  (LetStmt ''x'' (IntImm 1) (Evaluate (Variable Int32 ''f''))))))
   \<and> no_acquire_no_fork
     (Realize ''f'' [Int32] [(IntImm 0, IntImm 8)] (IntImm 1)
        (Block (ProducerConsumer ''f'' True (Provide ''f'' [IntImm 3] [IntImm 0]))
               (ProducerConsumer ''f'' False
                  (LetStmt ''x'' (IntImm 1) (Evaluate (Variable Int32 ''f''))))))
   \<and> \<not> stmt_has_make_semaphore
     (Realize ''f'' [Int32] [(IntImm 0, IntImm 8)] (IntImm 1)
        (Block (ProducerConsumer ''f'' True (Provide ''f'' [IntImm 3] [IntImm 0]))
               (ProducerConsumer ''f'' False
                  (LetStmt ''x'' (IntImm 1) (Evaluate (Variable Int32 ''f''))))))
   \<and> fork_async_producers
     (Realize ''f'' [Int32] [(IntImm 0, IntImm 8)] (IntImm 1)
        (Block (ProducerConsumer ''f'' True (Provide ''f'' [IntImm 3] [IntImm 0]))
               (ProducerConsumer ''f'' False
                  (LetStmt ''x'' (IntImm 1) (Evaluate (Variable Int32 ''f''))))))
     [''f'' \<mapsto> False] 0
     = Some (Inr
         (Realize ''f'' [Int32] [(IntImm 0, IntImm 8)] (IntImm 1)
            (Block (ProducerConsumer ''f'' True (Provide ''f'' [IntImm 3] [IntImm 0]))
                   (LetStmt ''x'' (IntImm 1)
                      (ProducerConsumer ''f'' False (Evaluate (Variable Int32 ''f'')))))))"
proof -
  let ?s = "Realize ''f'' [Int32] [(IntImm 0, IntImm 8)] (IntImm 1)
        (Block (ProducerConsumer ''f'' True (Provide ''f'' [IntImm 3] [IntImm 0]))
               (ProducerConsumer ''f'' False
                  (LetStmt ''x'' (IntImm 1) (Evaluate (Variable Int32 ''f'')))))"
  have a: "realizes_not_async [''f'' \<mapsto> False] ?s" by simp
  have b: "no_acquire_no_fork ?s" by simp
  have c: "\<not> stmt_has_make_semaphore ?s"
    by (simp add: stmt_has_make_semaphore_def bounds_exprs_def)
  from no_async_pass_is_tighten_consume [OF a b c, of 0] a b c show ?thesis
    by simp
qed

subsection \<open>C9: no halide_make_semaphore call after the pass\<close>

text \<open>
  C9, as stated, fails: \<open>InitializeSemaphores::visit(const Call *)\<close> does not visit the
  arguments of a call (and \<open>visit(const LetStmt *)\<close> does not visit the value of the
  binding), so a \<open>halide_make_semaphore\<close> call of the input that sits there is neither
  lowered nor reported. Here the call is the argument of a call to \<open>g\<close>; the pass returns
  the input.
\<close>

theorem make_semaphore_in_call_argument_survives:
  "fork_async_producers
     (Evaluate (Call Int32 ''g'' [Call SemaphoreT ''halide_make_semaphore'' [IntImm 0] Extern] Extern))
     Map.empty 0
   = Some (Inr
       (Evaluate
          (Call Int32 ''g'' [Call SemaphoreT ''halide_make_semaphore'' [IntImm 0] Extern] Extern)))
   \<and> stmt_has_make_semaphore
       (Evaluate
          (Call Int32 ''g'' [Call SemaphoreT ''halide_make_semaphore'' [IntImm 0] Extern] Extern))"
  by (simp add: fork_async_producers_def fork_async_mutate.simps bind_err_def bind_outcome_def
      init_exprs_def stmt_has_make_semaphore_def)

text \<open>
  C9, amended. (a) For every input tree each of whose \<open>halide_make_semaphore\<close> calls is
  either the initializer of a semaphore-pointer-typed \<open>LetStmt\<close> (the call itself, with
  one argument that holds no further such call) or is met by the expression traversal of
  LowerSemaphores (in an expression that is not the value of a \<open>LetStmt\<close>, and not below
  the arguments of a call), the pass returns or raises an error (it does not run forever),
  and a tree it returns holds no \<open>halide_make_semaphore\<close> call. (b) On a tree in which
  every \<open>LetStmt\<close> value that holds a \<open>halide_make_semaphore\<close> call is the call itself
  with one argument, LowerSemaphores raises the fatal error for an unexpected
  \<open>halide_make_semaphore\<close> call exactly when its expression traversal meets such a call,
  and returns a tree otherwise. (c) In particular it raises that error on
  \<open>Evaluate(halide_make_semaphore(...))\<close>.
\<close>

theorem no_make_semaphore_survives:
  "(sems_handled s \<longrightarrow>
      fork_async_producers s env n \<noteq> None \<and>
      (\<forall>out. fork_async_producers s env n = Some (Inr out) \<longrightarrow> \<not> stmt_has_make_semaphore out))
   \<and> (lets_direct s \<longrightarrow>
        (if meets_make_semaphore_stmt s
         then initialize_semaphores s = Some (Inl MakeSemaphoreUnexpected)
         else \<exists>out. initialize_semaphores s = Some (Inr out)))
   \<and> initialize_semaphores (Evaluate (Call t ''halide_make_semaphore'' args ct))
       = Some (Inl MakeSemaphoreUnexpected)"
proof (intro conjI impI)
  assume h: "sems_handled s"
  show "fork_async_producers s env n \<noteq> None"
  proof (cases "fork_async_mutate env (tighten_consume s) (Map.empty, n)")
    case (Inl e)
    then show ?thesis by (simp add: fork_async_producers_def)
  next
    case (Inr res)
    obtain s2 st where res: "res = (s2, st)" by (cases res)
    have m: "fork_async_mutate env (tighten_consume s) (Map.empty, n) = Inr (s2, st)"
      using Inr res by simp
    from h have "sems_handled (tighten_consume s)"
      by (simp add: sems_handled_def tighten_consume_exprs)
    then have "sems_handled s2" by (rule fork_async_handled [OF m])
    then have "sems_handled (tighten_fork False (expand_acquire s2))"
      by (simp add: sems_handled_def tighten_fork_exprs expand_acquire_exprs)
    from initialize_semaphores_handled [OF this]
    have "initialize_semaphores (tighten_fork False (expand_acquire s2)) \<noteq> None" by auto
    then show ?thesis by (simp add: fork_async_producers_def m)
  qed
  show "\<forall>out. fork_async_producers s env n = Some (Inr out) \<longrightarrow> \<not> stmt_has_make_semaphore out"
  proof (intro allI impI)
    fix out
    assume o: "fork_async_producers s env n = Some (Inr out)"
    then obtain s2 st where
      m: "fork_async_mutate env (tighten_consume s) (Map.empty, n) = Inr (s2, st)"
      by (cases "fork_async_mutate env (tighten_consume s) (Map.empty, n)")
         (auto simp: fork_async_producers_def)
    from h have "sems_handled (tighten_consume s)"
      by (simp add: sems_handled_def tighten_consume_exprs)
    then have "sems_handled s2" by (rule fork_async_handled [OF m])
    then have "sems_handled (tighten_fork False (expand_acquire s2))"
      by (simp add: sems_handled_def tighten_fork_exprs expand_acquire_exprs)
    from initialize_semaphores_handled [OF this] o m
    show "\<not> stmt_has_make_semaphore out"
      by (auto simp: fork_async_producers_def stmt_has_make_semaphore_def)
  qed
next
  assume "lets_direct s"
  then show "if meets_make_semaphore_stmt s
         then initialize_semaphores s = Some (Inl MakeSemaphoreUnexpected)
         else \<exists>out. initialize_semaphores s = Some (Inr out)"
    by (rule initialize_semaphores_raises)
next
  show "initialize_semaphores (Evaluate (Call t ''halide_make_semaphore'' args ct))
       = Some (Inl MakeSemaphoreUnexpected)"
    by (simp add: init_exprs_def)
qed

theorem no_make_semaphore_survives_witness:
  "sems_handled
     (LetStmt ''s'' (Call SemaphoreT ''halide_make_semaphore'' [IntImm 2] Extern)
       (Realize ''f'' [] [] (IntImm 1)
          (Block (ProducerConsumer ''f'' True (Provide ''f'' [IntImm 3] []))
                 (ProducerConsumer ''f'' False (Evaluate (Variable HandleT ''s''))))))
   \<and> fork_async_producers
       (LetStmt ''s'' (Call SemaphoreT ''halide_make_semaphore'' [IntImm 2] Extern)
         (Realize ''f'' [] [] (IntImm 1)
            (Block (ProducerConsumer ''f'' True (Provide ''f'' [IntImm 3] []))
                   (ProducerConsumer ''f'' False (Evaluate (Variable HandleT ''s''))))))
       [''f'' \<mapsto> True] 0
     = Some (Inr
         (LetStmt ''s'' (Call SemaphoreT ''alloca'' [IntImm 16] Intrinsic)
           (Block
             (Evaluate (Call Int32 ''halide_semaphore_init''
                          [Variable SemaphoreT ''s'', IntImm 2] Extern))
             (Realize ''f'' [] [] (IntImm 1)
               (LetStmt ''f.semaphore_0'' (Call SemaphoreT ''alloca'' [IntImm 16] Intrinsic)
                 (Block
                   (Evaluate (Call Int32 ''halide_semaphore_init''
                                [Variable SemaphoreT ''f.semaphore_0'', IntImm 0] Extern))
                   (Fork
                     (ProducerConsumer ''f'' True
                        (Block (Provide ''f'' [IntImm 3] [])
                           (Evaluate (Call Int32 ''halide_semaphore_release''
                                        [Variable HandleT ''f.semaphore_0'', IntImm 1] Extern))))
                     (Acquire (Variable HandleT ''f.semaphore_0'') (IntImm 1)
                        (ProducerConsumer ''f'' False (Evaluate (Variable HandleT ''s'')))))))))))
   \<and> \<not> stmt_has_make_semaphore
         (LetStmt ''s'' (Call SemaphoreT ''alloca'' [IntImm 16] Intrinsic)
           (Block
             (Evaluate (Call Int32 ''halide_semaphore_init''
                          [Variable SemaphoreT ''s'', IntImm 2] Extern))
             (Realize ''f'' [] [] (IntImm 1)
               (LetStmt ''f.semaphore_0'' (Call SemaphoreT ''alloca'' [IntImm 16] Intrinsic)
                 (Block
                   (Evaluate (Call Int32 ''halide_semaphore_init''
                                [Variable SemaphoreT ''f.semaphore_0'', IntImm 0] Extern))
                   (Fork
                     (ProducerConsumer ''f'' True
                        (Block (Provide ''f'' [IntImm 3] [])
                           (Evaluate (Call Int32 ''halide_semaphore_release''
                                        [Variable HandleT ''f.semaphore_0'', IntImm 1] Extern))))
                     (Acquire (Variable HandleT ''f.semaphore_0'') (IntImm 1)
                        (ProducerConsumer ''f'' False (Evaluate (Variable HandleT ''s''))))))))))
   \<and> lets_direct
       (LetStmt ''s'' (Call SemaphoreT ''halide_make_semaphore'' [IntImm 2] Extern)
          (Evaluate (Add (IntImm 1) (Call Int32 ''halide_make_semaphore'' [IntImm 0] Extern))))
   \<and> meets_make_semaphore_stmt
       (LetStmt ''s'' (Call SemaphoreT ''halide_make_semaphore'' [IntImm 2] Extern)
          (Evaluate (Add (IntImm 1) (Call Int32 ''halide_make_semaphore'' [IntImm 0] Extern))))
   \<and> initialize_semaphores
       (LetStmt ''s'' (Call SemaphoreT ''halide_make_semaphore'' [IntImm 2] Extern)
          (Evaluate (Add (IntImm 1) (Call Int32 ''halide_make_semaphore'' [IntImm 0] Extern))))
     = Some (Inl MakeSemaphoreUnexpected)
   \<and> lets_direct
       (LetStmt ''s'' (Call SemaphoreT ''halide_make_semaphore'' [IntImm 2] Extern)
          (Evaluate (Variable SemaphoreT ''s'')))
   \<and> \<not> meets_make_semaphore_stmt
       (LetStmt ''s'' (Call SemaphoreT ''halide_make_semaphore'' [IntImm 2] Extern)
          (Evaluate (Variable SemaphoreT ''s'')))
   \<and> (\<exists>out. initialize_semaphores
       (LetStmt ''s'' (Call SemaphoreT ''halide_make_semaphore'' [IntImm 2] Extern)
          (Evaluate (Variable SemaphoreT ''s''))) = Some (Inr out))"
proof -
  let ?s = "LetStmt ''s'' (Call SemaphoreT ''halide_make_semaphore'' [IntImm 2] Extern)
       (Realize ''f'' [] [] (IntImm 1)
          (Block (ProducerConsumer ''f'' True (Provide ''f'' [IntImm 3] []))
                 (ProducerConsumer ''f'' False (Evaluate (Variable HandleT ''s'')))))"
  let ?out = "LetStmt ''s'' (Call SemaphoreT ''alloca'' [IntImm 16] Intrinsic)
           (Block
             (Evaluate (Call Int32 ''halide_semaphore_init''
                          [Variable SemaphoreT ''s'', IntImm 2] Extern))
             (Realize ''f'' [] [] (IntImm 1)
               (LetStmt ''f.semaphore_0'' (Call SemaphoreT ''alloca'' [IntImm 16] Intrinsic)
                 (Block
                   (Evaluate (Call Int32 ''halide_semaphore_init''
                                [Variable SemaphoreT ''f.semaphore_0'', IntImm 0] Extern))
                   (Fork
                     (ProducerConsumer ''f'' True
                        (Block (Provide ''f'' [IntImm 3] [])
                           (Evaluate (Call Int32 ''halide_semaphore_release''
                                        [Variable HandleT ''f.semaphore_0'', IntImm 1] Extern))))
                     (Acquire (Variable HandleT ''f.semaphore_0'') (IntImm 1)
                        (ProducerConsumer ''f'' False (Evaluate (Variable HandleT ''s'')))))))))"
  let ?e = "LetStmt ''s'' (Call SemaphoreT ''halide_make_semaphore'' [IntImm 2] Extern)
          (Evaluate (Add (IntImm 1) (Call Int32 ''halide_make_semaphore'' [IntImm 0] Extern)))"
  let ?r = "LetStmt ''s'' (Call SemaphoreT ''halide_make_semaphore'' [IntImm 2] Extern)
          (Evaluate (Variable SemaphoreT ''s''))"
  have h: "sems_handled ?s"
    by (simp add: sems_handled_def handled_value_def handled_expr_def bounds_exprs_def)
  have e: "fork_async_producers ?s [''f'' \<mapsto> True] 0 = Some (Inr ?out)"
    by (simp add: fork_async_producers_def fork_async_mutate.simps semaphore_names_def
        string_of_nat.simps bind_err_def collapse_block_def add_releases.simps make_produce_def
        bind_semaphore_def make_fork.simps bind_outcome_def init_exprs_def sema_space_def
        init_let_stmt_def rewrap_lets_Nil bounds_exprs_def semaphore_release_def
        sema_allocate_def sema_init_def sizeof_halide_semaphore_t_def stmt_uses_var_def)
  have de: "lets_direct ?e" by (simp add: lets_direct_def)
  have me: "meets_make_semaphore_stmt ?e" by (simp add: meets_make_semaphore_stmt_def)
  have dr: "lets_direct ?r" by (simp add: lets_direct_def)
  have mr: "\<not> meets_make_semaphore_stmt ?r" by (simp add: meets_make_semaphore_stmt_def)
  from no_make_semaphore_survives [where s = ?s and env = "[''f'' \<mapsto> True]" and n = 0,
      THEN conjunct1, THEN mp, OF h, THEN conjunct2, THEN spec, THEN mp, OF e]
  have a: "\<not> stmt_has_make_semaphore ?out" .
  from no_make_semaphore_survives [where s = ?e, THEN conjunct2, THEN conjunct1, THEN mp, OF de] me
  have b: "initialize_semaphores ?e = Some (Inl MakeSemaphoreUnexpected)" by (simp only: if_True)
  from no_make_semaphore_survives [where s = ?r, THEN conjunct2, THEN conjunct1, THEN mp, OF dr] mr
  have c: "\<exists>out. initialize_semaphores ?r = Some (Inr out)" by (simp only: if_False)
  from h e a de me b dr mr c show ?thesis by (intro conjI)
qed

subsection \<open>C1: releases and acquires of the semaphores of a fork\<close>




subsection \<open>C5: folding semaphores go to the producer side\<close>

text \<open>
  C5, as stated, fails in four ways. (1) An acquire of a folding semaphore inside a consume
  node of \<open>f\<close>: the consume node is kept whole on the consumer side, the acquire with it,
  and the producer side does not have it. (2) An acquire of a folding semaphore whose body
  holds no produce node of \<open>f\<close>: the consumer side drops the acquire and the producer side
  drops it with its body, which has become a no-op. (3) A nested async stage whose name
  starts with \<open>f.folding_semaphore.\<close>: the semaphore made for it has such a name too, and
  it is acquired on the consumer side. (4) An acquire around the produce node of \<open>f\<close>
  whose semaphore is also a folding semaphore of a nested async stage that encloses it:
  the consumer half of the nested stage, which is on the producer side of \<open>f\<close>, drops it.
\<close>

theorem folding_acquires_misplaced:
  "fork_async_mutate [''f'' \<mapsto> True]
     (Realize ''f'' [Int32] [(IntImm 0, IntImm 8)] (IntImm 1)
        (Block (ProducerConsumer ''f'' True (Provide ''f'' [IntImm 3] [IntImm 0]))
               (ProducerConsumer ''f'' False
                  (Acquire (Variable SemaphoreT ''f.folding_semaphore.0'') (IntImm 1)
                     (Evaluate (Variable HandleT ''f''))))))
     (Map.empty, 0)
   = Inr (Realize ''f'' [Int32] [(IntImm 0, IntImm 8)] (IntImm 1)
            (LetStmt ''f.semaphore_0'' sema_space
               (Fork
                  (ProducerConsumer ''f'' True
                     (Block (Provide ''f'' [IntImm 3] [IntImm 0])
                        (Evaluate (semaphore_release (Variable HandleT ''f.semaphore_0'')))))
                  (Acquire (Variable HandleT ''f.semaphore_0'') (IntImm 1)
                     (ProducerConsumer ''f'' False
                        (Acquire (Variable SemaphoreT ''f.folding_semaphore.0'') (IntImm 1)
                           (Evaluate (Variable HandleT ''f''))))))),
          (Map.empty, 0))
   \<and> folding_acquires ''f''
        (Acquire (Variable HandleT ''f.semaphore_0'') (IntImm 1)
           (ProducerConsumer ''f'' False
              (Acquire (Variable SemaphoreT ''f.folding_semaphore.0'') (IntImm 1)
                 (Evaluate (Variable HandleT ''f'')))))
      = [(Variable SemaphoreT ''f.folding_semaphore.0'', IntImm 1)]
   \<and> folding_acquires ''f''
        (ProducerConsumer ''f'' True
           (Block (Provide ''f'' [IntImm 3] [IntImm 0])
              (Evaluate (semaphore_release (Variable HandleT ''f.semaphore_0'')))))
      = []
   \<and> fork_async_mutate [''f'' \<mapsto> True]
     (Realize ''f'' [Int32] [(IntImm 0, IntImm 8)] (IntImm 1)
        (Block (ProducerConsumer ''f'' True (Provide ''f'' [IntImm 3] [IntImm 0]))
          (Block (Acquire (Variable SemaphoreT ''f.folding_semaphore.0'') (IntImm 1)
                     (Evaluate (Variable HandleT ''g'')))
               (ProducerConsumer ''f'' False (Evaluate (Variable HandleT ''f''))))))
     (Map.empty, 0)
   = Inr (Realize ''f'' [Int32] [(IntImm 0, IntImm 8)] (IntImm 1)
            (LetStmt ''f.semaphore_0'' sema_space
               (Fork
                  (ProducerConsumer ''f'' True
                     (Block (Provide ''f'' [IntImm 3] [IntImm 0])
                        (Evaluate (semaphore_release (Variable HandleT ''f.semaphore_0'')))))
                  (Block (Evaluate (Variable HandleT ''g''))
                     (Acquire (Variable HandleT ''f.semaphore_0'') (IntImm 1)
                        (ProducerConsumer ''f'' False (Evaluate (Variable HandleT ''f''))))))),
          (Map.empty, 0))
   \<and> fork_async_mutate [''f'' \<mapsto> True, ''f.folding_semaphore.g'' \<mapsto> True]
     (Realize ''f'' [Int32] [(IntImm 0, IntImm 8)] (IntImm 1)
        (Block (ProducerConsumer ''f'' True (Provide ''f'' [IntImm 3] [IntImm 0]))
          (Block (ProducerConsumer ''f'' False (Evaluate (Variable HandleT ''f'')))
           (Realize ''f.folding_semaphore.g'' [Int32] [(IntImm 0, IntImm 8)] (IntImm 1)
             (Block (ProducerConsumer ''f.folding_semaphore.g'' True
                       (Provide ''g'' [IntImm 3] [IntImm 0]))
                (ProducerConsumer ''f.folding_semaphore.g'' False
                   (Evaluate (Variable HandleT ''g''))))))))
     (Map.empty, 0)
   = Inr (Realize ''f'' [Int32] [(IntImm 0, IntImm 8)] (IntImm 1)
            (LetStmt ''f.semaphore_0'' sema_space
              (Fork
                (ProducerConsumer ''f'' True
                  (Block (Provide ''f'' [IntImm 3] [IntImm 0])
                    (Evaluate (semaphore_release (Variable HandleT ''f.semaphore_0'')))))
                (Block
                  (Acquire (Variable HandleT ''f.semaphore_0'') (IntImm 1)
                    (ProducerConsumer ''f'' False (Evaluate (Variable HandleT ''f''))))
                  (Realize ''f.folding_semaphore.g'' [Int32] [(IntImm 0, IntImm 8)] (IntImm 1)
                    (LetStmt ''f.folding_semaphore.g.semaphore_0'' sema_space
                      (Fork
                        (ProducerConsumer ''f.folding_semaphore.g'' True
                          (Block (Provide ''g'' [IntImm 3] [IntImm 0])
                            (Evaluate
                              (semaphore_release
                                 (Variable HandleT ''f.folding_semaphore.g.semaphore_0'')))))
                        (Acquire (Variable HandleT ''f.folding_semaphore.g.semaphore_0'')
                           (IntImm 1)
                           (ProducerConsumer ''f.folding_semaphore.g'' False
                              (Evaluate (Variable HandleT ''g'')))))))))),
          (Map.empty, 0))
   \<and> is_folding ''f'' (Variable HandleT ''f.folding_semaphore.g.semaphore_0'')
   \<and> fork_async_mutate [''f'' \<mapsto> True, ''f.folding_semaphore.g'' \<mapsto> True]
     (Realize ''f'' [Int32] [(IntImm 0, IntImm 8)] (IntImm 1)
        (Block
           (Realize ''f.folding_semaphore.g'' [Int32] [(IntImm 0, IntImm 8)] (IntImm 1)
              (Acquire (Variable SemaphoreT ''f.folding_semaphore.g.folding_semaphore.0'')
                 (IntImm 1)
                 (ProducerConsumer ''f'' True (Provide ''f'' [IntImm 3] [IntImm 0]))))
           (ProducerConsumer ''f'' False (Evaluate (Variable HandleT ''f'')))))
     (Map.empty, 0)
   = Inr (Realize ''f'' [Int32] [(IntImm 0, IntImm 8)] (IntImm 1)
            (LetStmt ''f.semaphore_0'' sema_space
              (Fork
                (Realize ''f.folding_semaphore.g'' [Int32] [(IntImm 0, IntImm 8)] (IntImm 1)
                  (Fork (Evaluate (IntImm 0))
                    (ProducerConsumer ''f'' True
                      (Block (Provide ''f'' [IntImm 3] [IntImm 0])
                        (Evaluate (semaphore_release (Variable HandleT ''f.semaphore_0'')))))))
                (Acquire (Variable HandleT ''f.semaphore_0'') (IntImm 1)
                  (ProducerConsumer ''f'' False (Evaluate (Variable HandleT ''f'')))))),
          (Map.empty, 0))
   \<and> is_folding ''f'' (Variable SemaphoreT ''f.folding_semaphore.g.folding_semaphore.0'')"
proof -
  have s0: "\<And>f. semaphore_names f 0 = []" by (simp add: semaphore_names_def)
  show ?thesis
    by (simp add: fork_eval semaphore_names_1 s0 is_folding_def folding_prefix_def
        semaphore_release_def)
qed

text \<open>
  C5, amended: in the fork made for an async stage \<open>f\<close>, whatever async stages are
  nested in the body, (a) when no nested async stage \<open>g\<close> has a name for which
  \<open>g.semaphore_\<close> starts with \<open>f.folding_semaphore.\<close>, the consumer side holds no
  acquire of a folding semaphore of \<open>f\<close> outside the consume nodes of \<open>f\<close>; (b) every
  acquire of a folding semaphore of \<open>f\<close> in the body that encloses the produce node of
  \<open>f\<close> or lies inside it, and whose semaphore is not also a folding semaphore of a nested
  async stage, is on the producer side, with its semaphore and count.
\<close>

theorem folding_acquires_sides:
  assumes m: "fork_async_mutate env (Realize f ts bs c b) st = Inr (r, st')"
    and e: "env f = Some True"
  shows "\<exists>body producer consumer.
     r = Realize f ts bs c body \<and> fork_of body = Some (producer, consumer) \<and>
     (semaphores_not_folding env f b \<longrightarrow> folding_acquires_outside_consume f consumer = []) \<and>
     (\<forall>a\<in>set (folding_acquires_at_produce f b).
        not_folding_of_nested env (fst a) b \<longrightarrow> a \<in> set (folding_acquires f producer))"
proof -
  let ?ns = "semaphore_names f (count_consume_nodes f b)"
  from fork_async_Realize_inv [OF m] e obtain producer pst consumer sem' producer' st1 consumer'
    where
    p: "generate_producer_body f b
          \<lparr>sema = map (Variable HandleT) ?ns, cloned_acquires = fst st, counter = snd st\<rparr> =
        Inr (producer, pst)" and
    c: "generate_consumer_body f b (map (Variable HandleT) ?ns) = Inr (consumer, sem')" and
    fp: "fork_async_mutate env producer (cloned_acquires pst, counter pst) = Inr (producer', st1)" and
    fc: "fork_async_mutate env consumer st1 = Inr (consumer', st')" and
    r: "r = Realize f ts bs c (fold (bind_semaphore (fst st')) ?ns (Fork producer' consumer'))"
    by auto
  have "fork_of (Fork producer' consumer') = Some (producer', consumer')" by simp
  from fork_of_bind_semaphores [OF this, of "fst st'" ?ns f] obtain p' c' where
    f: "fork_of (fold (bind_semaphore (fst st')) ?ns (Fork producer' consumer')) = Some (p', c')"
      "folding_acquires f p' = folding_acquires f producer'"
      "folding_acquires_outside_consume f c' = folding_acquires_outside_consume f consumer'"
    by blast
  have 1: "folding_acquires_outside_consume f c' = []" if h: "semaphores_not_folding env f b"
  proof -
    from consumer_folding [OF c semaphore_names_not_folding]
    have "folding_acquires_outside_consume f consumer = []" by simp
    from mutate_folding_outside [OF fc this semaphores_not_folding_halves(2) [OF c h]] f(3)
    show ?thesis by simp
  qed
  have 2: "a \<in> set (folding_acquires f p')"
    if a: "a \<in> set (folding_acquires_at_produce f b)" and h: "not_folding_of_nested env (fst a) b"
    for a
  proof -
    from a producer_folding [OF p] have "a \<in> set (folding_acquires f producer)" by simp
    from mutate_folding_member [OF fp this not_folding_of_nested_halves(1) [OF p h]] f(2)
    show ?thesis by simp
  qed
  from r f(1) 1 2 show ?thesis by blast
qed

theorem folding_acquires_sides_witness:
  "[''f'' \<mapsto> True, ''g'' \<mapsto> True] ''f'' = Some True
   \<and> semaphores_not_folding [''f'' \<mapsto> True, ''g'' \<mapsto> True] ''f''
       (Block
          (Realize ''g'' [Int32] [(IntImm 0, IntImm 8)] (IntImm 1)
             (Block (ProducerConsumer ''g'' True (Provide ''g'' [IntImm 3] [IntImm 0]))
                (ProducerConsumer ''g'' False
                   (Acquire (Variable SemaphoreT ''f.folding_semaphore.0'') (IntImm 1)
                      (ProducerConsumer ''f'' True
                         (Provide ''f'' [Variable HandleT ''g''] [IntImm 0]))))))
          (ProducerConsumer ''f'' False (Evaluate (Variable HandleT ''f''))))
   \<and> not_folding_of_nested [''f'' \<mapsto> True, ''g'' \<mapsto> True]
       (Variable SemaphoreT ''f.folding_semaphore.0'')
       (Block
          (Realize ''g'' [Int32] [(IntImm 0, IntImm 8)] (IntImm 1)
             (Block (ProducerConsumer ''g'' True (Provide ''g'' [IntImm 3] [IntImm 0]))
                (ProducerConsumer ''g'' False
                   (Acquire (Variable SemaphoreT ''f.folding_semaphore.0'') (IntImm 1)
                      (ProducerConsumer ''f'' True
                         (Provide ''f'' [Variable HandleT ''g''] [IntImm 0]))))))
          (ProducerConsumer ''f'' False (Evaluate (Variable HandleT ''f''))))
   \<and> (\<exists>producer consumer.
        fork_async_mutate [''f'' \<mapsto> True, ''g'' \<mapsto> True]
          (Realize ''f'' [Int32] [(IntImm 0, IntImm 8)] (IntImm 1)
             (Block
                (Realize ''g'' [Int32] [(IntImm 0, IntImm 8)] (IntImm 1)
                   (Block (ProducerConsumer ''g'' True (Provide ''g'' [IntImm 3] [IntImm 0]))
                      (ProducerConsumer ''g'' False
                         (Acquire (Variable SemaphoreT ''f.folding_semaphore.0'') (IntImm 1)
                            (ProducerConsumer ''f'' True
                               (Provide ''f'' [Variable HandleT ''g''] [IntImm 0]))))))
                (ProducerConsumer ''f'' False (Evaluate (Variable HandleT ''f'')))))
          (Map.empty, 0)
        = Inr (Realize ''f'' [Int32] [(IntImm 0, IntImm 8)] (IntImm 1)
                 (LetStmt ''f.semaphore_0'' sema_space (Fork producer consumer)),
               (Map.empty, 0))
        \<and> folding_acquires_outside_consume ''f'' consumer = []
        \<and> (Variable SemaphoreT ''f.folding_semaphore.0'', IntImm 1)
            \<in> set (folding_acquires ''f'' producer))"
proof -
  let ?b = "Block
          (Realize ''g'' [Int32] [(IntImm 0, IntImm 8)] (IntImm 1)
             (Block (ProducerConsumer ''g'' True (Provide ''g'' [IntImm 3] [IntImm 0]))
                (ProducerConsumer ''g'' False
                   (Acquire (Variable SemaphoreT ''f.folding_semaphore.0'') (IntImm 1)
                      (ProducerConsumer ''f'' True
                         (Provide ''f'' [Variable HandleT ''g''] [IntImm 0]))))))
          (ProducerConsumer ''f'' False (Evaluate (Variable HandleT ''f'')))"
  let ?env = "[''f'' \<mapsto> True, ''g'' \<mapsto> True]"
  let ?p = "Realize ''g'' [Int32] [(IntImm 0, IntImm 8)] (IntImm 1)
             (LetStmt ''g.semaphore_0'' sema_space
               (Fork (Evaluate (IntImm 0))
                 (Acquire (Variable HandleT ''g.semaphore_0'') (IntImm 1)
                   (ProducerConsumer ''g'' False
                     (Acquire (Variable SemaphoreT ''f.folding_semaphore.0'') (IntImm 1)
                       (ProducerConsumer ''f'' True
                         (Block (Provide ''f'' [Variable HandleT ''g''] [IntImm 0])
                           (Evaluate (semaphore_release (Variable HandleT ''f.semaphore_0''))))))))))"
  let ?c = "Block
             (Realize ''g'' [Int32] [(IntImm 0, IntImm 8)] (IntImm 1)
               (LetStmt ''g.semaphore_0'' sema_space
                 (Fork
                   (ProducerConsumer ''g'' True
                     (Block (Provide ''g'' [IntImm 3] [IntImm 0])
                       (Evaluate (semaphore_release (Variable HandleT ''g.semaphore_0'')))))
                   (Acquire (Variable HandleT ''g.semaphore_0'') (IntImm 1)
                     (ProducerConsumer ''g'' False (Evaluate (IntImm 0)))))))
             (Acquire (Variable HandleT ''f.semaphore_0'') (IntImm 1)
               (ProducerConsumer ''f'' False (Evaluate (Variable HandleT ''f''))))"
  let ?r = "Realize ''f'' [Int32] [(IntImm 0, IntImm 8)] (IntImm 1)
              (LetStmt ''f.semaphore_0'' sema_space (Fork ?p ?c))"
  let ?a = "(Variable SemaphoreT ''f.folding_semaphore.0'', IntImm 1)"
  have m: "fork_async_mutate ?env (Realize ''f'' [Int32] [(IntImm 0, IntImm 8)] (IntImm 1) ?b)
             (Map.empty, 0) = Inr (?r, (Map.empty, 0))"
    by (simp add: fork_eval semaphore_names_1 folding_prefix_def)
  have e: "?env ''f'' = Some True" by simp
  have h1: "semaphores_not_folding ?env ''f'' ?b"
    by (simp add: semaphores_not_folding_def folding_prefix_def)
  have h2: "not_folding_of_nested ?env (fst ?a) ?b"
    by (simp add: not_folding_of_nested_def is_folding_def folding_prefix_def)
  have a: "?a \<in> set (folding_acquires_at_produce ''f'' ?b)"
    by (simp add: is_folding_def folding_prefix_def)
  from folding_acquires_sides [OF m e] obtain body producer consumer where
    r: "?r = Realize ''f'' [Int32] [(IntImm 0, IntImm 8)] (IntImm 1) body"
      "fork_of body = Some (producer, consumer)"
      "semaphores_not_folding ?env ''f'' ?b \<longrightarrow> folding_acquires_outside_consume ''f'' consumer = []"
      "\<forall>a\<in>set (folding_acquires_at_produce ''f'' ?b).
          not_folding_of_nested ?env (fst a) ?b \<longrightarrow> a \<in> set (folding_acquires ''f'' producer)"
    by blast
  from r(1,2) have pc: "producer = ?p" "consumer = ?c" by auto
  from r(3) h1 have 1: "folding_acquires_outside_consume ''f'' consumer = []" by (rule mp)
  from r(4) a h2 have 2: "?a \<in> set (folding_acquires ''f'' producer)" by blast
  from m 1 2 have "\<exists>producer consumer.
        fork_async_mutate ?env (Realize ''f'' [Int32] [(IntImm 0, IntImm 8)] (IntImm 1) ?b)
          (Map.empty, 0)
        = Inr (Realize ''f'' [Int32] [(IntImm 0, IntImm 8)] (IntImm 1)
                 (LetStmt ''f.semaphore_0'' sema_space (Fork producer consumer)),
               (Map.empty, 0))
        \<and> folding_acquires_outside_consume ''f'' consumer = []
        \<and> ?a \<in> set (folding_acquires ''f'' producer)"
    unfolding pc by (intro exI [of _ ?p] exI [of _ ?c] conjI)
  with e h1 h2 show ?thesis by (simp only: fst_conv simp_thms)
qed

end
